theory Spec2Isabelle
  imports Complex_Main "HOL-Library.Word"
begin

section \<open>The Bluesky adapter: handles, caches and operations\<close>

text \<open>
  The development embeds \<^verbatim>\<open>src/lib/api/bluesky/adapter.ts\<close> (class
  \<^verbatim>\<open>BlueskyClient\<close>). JavaScript strings are sequences of UTF-16 code
  units; \<^verbatim>\<open>charCodeAt\<close> reads one unit as a number below 65536.
\<close>

subsection \<open>Strings and JavaScript truthiness\<close>

type_synonym js_string = "16 word list"

definition ascii :: "string \<Rightarrow> js_string" where
  "ascii s = map (\<lambda>c. of_char c) s"

definition charCodeAt0 :: "16 word \<Rightarrow> int" where
  "charCodeAt0 c = uint c"

text \<open>
  An optional string field (\<^verbatim>\<open>post.uri\<close>, \<^verbatim>\<open>post.cid\<close>,
  \<^verbatim>\<open>cached.likeUri\<close>) is \<^verbatim>\<open>undefined\<close> or a string; in a condition it
  counts as true exactly when it is a non-empty string.
\<close>

definition truthy :: "js_string option \<Rightarrow> bool" where
  "truthy v = (case v of None \<Rightarrow> False | Some s \<Rightarrow> s \<noteq> [])"

text \<open>An optional number counts as true when it is a number other than 0.\<close>

definition truthy_num :: "int option \<Rightarrow> bool" where
  "truthy_num v = (case v of None \<Rightarrow> False | Some n \<Rightarrow> n \<noteq> 0)"

text \<open>\<^verbatim>\<open>x || d\<close> on an optional number.\<close>

definition orElse :: "int option \<Rightarrow> int \<Rightarrow> int" where
  "orElse v d = (if truthy_num v then the v else d)"

subsection \<open>Deriving the numeric handle\<close>

text \<open>
  \<^verbatim>\<open>s.split('/')\<close>: the segments between slashes, in order; never an empty array.
\<close>

fun split_js :: "16 word \<Rightarrow> js_string \<Rightarrow> js_string list" where
  "split_js sep [] = [[]]"
| "split_js sep (c # cs) =
     (if c = sep then [] # split_js sep cs
      else (case split_js sep cs of
              [] \<Rightarrow> [[c]]
            | seg # segs \<Rightarrow> (c # seg) # segs))"

text \<open>\<^verbatim>\<open>arr.pop()\<close> as used here: the last element, \<^verbatim>\<open>undefined\<close> for an empty array.\<close>

definition pop :: "js_string list \<Rightarrow> js_string option" where
  "pop segs = (if segs = [] then None else Some (last segs))"

definition slash :: "16 word" where
  "slash = 47"

text \<open>\<^verbatim>\<open>const rkey = post.uri ? post.uri.split('/').pop() : ''\<close>\<close>

definition rkeyOf :: "js_string option \<Rightarrow> js_string option" where
  "rkeyOf uri = (if truthy uri then pop (split_js slash (the uri)) else Some [])"

text \<open>
  \<^verbatim>\<open>ToInt32\<close>: the value modulo \<open>2^32\<close>, read as two's complement. Both
  \<^verbatim>\<open>acc << 5\<close> and \<^verbatim>\<open>acc & acc\<close> apply it; the subtraction and the
  addition between them are exact, the numbers being far below \<open>2^53\<close>.
\<close>

definition toInt32 :: "int \<Rightarrow> int" where
  "toInt32 x = (x + 2 ^ 31) mod 2 ^ 32 - 2 ^ 31"

definition shl5 :: "int \<Rightarrow> int" where
  "shl5 a = toInt32 (toInt32 a * 2 ^ 5)"

text \<open>
  The reducer: \<^verbatim>\<open>acc = ((acc << 5) - acc) + char.charCodeAt(0); return acc & acc\<close>
\<close>

definition hashStep :: "int \<Rightarrow> 16 word \<Rightarrow> int" where
  "hashStep acc ch = toInt32 ((shl5 acc - acc) + charCodeAt0 ch)"

text \<open>
  \<^verbatim>\<open>rkey ? Math.abs(rkey.split('').reduce(..., 0)) : dflt\<close>. The fallback
  \<open>dflt\<close> is 0 everywhere but in \<^verbatim>\<open>#mapThreadToComments\<close>, where it is the
  reply's index.
\<close>

definition hashOr :: "int \<Rightarrow> js_string option \<Rightarrow> int" where
  "hashOr dflt rkey = (if truthy rkey then \<bar>foldl hashStep 0 (the rkey)\<bar> else dflt)"

definition deriveHandle :: "js_string option \<Rightarrow> int" where
  "deriveHandle uri = hashOr 0 (rkeyOf uri)"

subsection \<open>Values, errors and the remote agent\<close>

text \<open>
  What \<^verbatim>\<open>JSON.parse\<close> returns. An object is the list of its own properties, one
  entry per key.
\<close>

datatype js_value =
    JNull
  | JBool bool
  | JNum rat
  | JStr js_string
  | JArr "js_value list"
  | JObj "(js_string \<times> js_value) list"

fun truthy_value :: "js_value option \<Rightarrow> bool" where
  "truthy_value None = False"
| "truthy_value (Some JNull) = False"
| "truthy_value (Some (JBool b)) = b"
| "truthy_value (Some (JNum n)) = (n \<noteq> 0)"
| "truthy_value (Some (JStr s)) = (s \<noteq> [])"
| "truthy_value (Some (JArr xs)) = True"
| "truthy_value (Some (JObj kvs)) = True"

text \<open>
  What is thrown: an \<^verbatim>\<open>Error\<close> the adapter creates with a message, the
  \<^verbatim>\<open>TypeError\<close> of reading a property of \<^verbatim>\<open>null\<close>, or a failure the
  remote agent rejects a call with.
\<close>

datatype exn = Error string | TypeError | Rejected nat

text \<open>
  Reading a property \<^verbatim>\<open>v.key\<close>: throws on \<^verbatim>\<open>null\<close>; on an object it is
  the property's value or \<^verbatim>\<open>undefined\<close>; the three keys read here are no
  properties of booleans, numbers, strings or arrays.
\<close>

fun getProp :: "js_value \<Rightarrow> js_string \<Rightarrow> exn + js_value option" where
  "getProp JNull key = Inl TypeError"
| "getProp (JObj kvs) key = Inr (map_of kvs key)"
| "getProp v key = Inr None"

fun hasField :: "js_value \<Rightarrow> js_string \<Rightarrow> bool" where
  "hasField (JObj kvs) key = (map_of kvs key \<noteq> None)"
| "hasField v key = False"

text \<open>A post as the remote agent returns it; only the fields the caches depend on.\<close>

record bsky_post =
  p_uri :: "js_string option"
  p_cid :: "js_string option"
  p_viewer_like :: "js_string option"

text \<open>
  A node of a post thread: \<^verbatim>\<open>$type\<close> is \<^verbatim>\<open>notFoundPost\<close>,
  \<^verbatim>\<open>blockedPost\<close> or a thread view with its \<^verbatim>\<open>post\<close> and
  \<^verbatim>\<open>replies\<close> properties.
\<close>

datatype thread =
    NotFoundPost
  | BlockedPost
  | ThreadViewPost "bsky_post option" "thread list option"

record thread_response =
  tr_success :: bool
  tr_thread :: thread

record notification =
  n_reason :: js_string
  n_uri :: "js_string option"

text \<open>A page of a feed: its posts and the cursor of the next page.\<close>

record feed_page =
  fp_posts :: "bsky_post list"
  fp_cursor :: "js_string option"

text \<open>
  A profile, an image blob (its content stands for itself), the embed of a new post, and
  the two shapes the \<^verbatim>\<open>person_id\<close> and the \<^verbatim>\<open>image\<close> of a form have at run time.
\<close>

record profile =
  pr_handle :: js_string
  pr_did :: js_string
  pr_displayName :: "js_string option"
  pr_description :: "js_string option"
  pr_avatar :: "js_string option"
  pr_banner :: "js_string option"

record blob =
  b_content :: nat
  b_type :: js_string

datatype embed = NoEmbed | Images "js_string list" | External js_string js_string js_string

datatype js_id = IdNum int | IdStr js_string

datatype image = ImageBlob blob | ImageString js_string | ImageOther

text \<open>The calls the adapter makes on \<^verbatim>\<open>this.#agent\<close>, with their arguments.\<close>

datatype call =
    ResumeSession js_value
  | Login js_string js_string
  | GetTimeline int "js_string option"
  | GetFeed js_string int "js_string option"
  | Like js_string js_string
  | DeleteLike js_string
  | DeletePost js_string
  | Post js_string js_string js_string
  | GetPostThread js_string int
  | CountUnreadNotifications
  | ListNotifications int
  | CreateReport js_string js_string js_string
  | SearchPosts js_string "int option"
  | SearchActors js_string int
  | PostRecord js_string embed
  | GetProfile js_string
  | GetAuthorFeed js_string int
  | BlockCreate js_string js_string
  | UpsertProfile "js_string option" "js_string option" "js_string option" "js_string option"
  | Fetch js_string
  | UploadBlob blob js_string

text \<open>
  The remote agent and the runtime are outside the adapter. Each call's outcome may depend
  on its arguments and on all the calls made before it (the first argument); so may the
  agent's \<^verbatim>\<open>session\<close> property, of which only the truthiness is read.
  An \<open>exn option\<close> is \<open>None\<close> when the call resolves. The handle, the did and
  the JSON text of the session are read only while the session is set. \<^verbatim>\<open>fetch\<close>
  stands for the global fetch and the reading of its body, \<^verbatim>\<open>URL_valid\<close> for
  whether \<^verbatim>\<open>new URL\<close> accepts a string, \<^verbatim>\<open>thrown_message\<close> and
  \<^verbatim>\<open>thrown_string\<close> for the \<^verbatim>\<open>message\<close> and the string form of a value that
  is no \<^verbatim>\<open>Error\<close> of the adapter's.
\<close>

record env =
  JSON_parse :: "js_string \<Rightarrow> js_value option"
  agent_session :: "call list \<Rightarrow> bool"
  agent_resumeSession :: "call list \<Rightarrow> js_value \<Rightarrow> exn option"
  agent_login :: "call list \<Rightarrow> js_string \<Rightarrow> js_string \<Rightarrow> exn option"
  agent_getTimeline :: "call list \<Rightarrow> int \<Rightarrow> js_string option \<Rightarrow> exn + feed_page"
  agent_getFeed :: "call list \<Rightarrow> js_string \<Rightarrow> int \<Rightarrow> js_string option \<Rightarrow> exn + feed_page"
  agent_like :: "call list \<Rightarrow> js_string \<Rightarrow> js_string \<Rightarrow> exn + js_string"
  agent_deleteLike :: "call list \<Rightarrow> js_string \<Rightarrow> exn option"
  agent_deletePost :: "call list \<Rightarrow> js_string \<Rightarrow> exn option"
  agent_post :: "call list \<Rightarrow> js_string \<Rightarrow> js_string \<Rightarrow> js_string \<Rightarrow> exn + js_string"
  agent_getPostThread :: "call list \<Rightarrow> js_string \<Rightarrow> int \<Rightarrow> exn + thread_response"
  agent_countUnreadNotifications :: "call list \<Rightarrow> exn + int option"
  agent_listNotifications :: "call list \<Rightarrow> int \<Rightarrow> exn + notification list"
  agent_createReport :: "call list \<Rightarrow> js_string \<Rightarrow> js_string \<Rightarrow> js_string \<Rightarrow> exn option"
  agent_session_handle :: "call list \<Rightarrow> js_string"
  agent_session_did :: "call list \<Rightarrow> js_string"
  agent_session_json :: "call list \<Rightarrow> js_string"
  agent_searchPosts :: "call list \<Rightarrow> js_string \<Rightarrow> int option \<Rightarrow> exn + bsky_post list"
  agent_searchActors :: "call list \<Rightarrow> js_string \<Rightarrow> int \<Rightarrow> exn + js_string list"
  agent_postRecord :: "call list \<Rightarrow> js_string \<Rightarrow> embed \<Rightarrow> exn + js_string"
  agent_getProfile :: "call list \<Rightarrow> js_string \<Rightarrow> exn + profile"
  agent_getAuthorFeed :: "call list \<Rightarrow> js_string \<Rightarrow> int \<Rightarrow> exn + bsky_post list"
  agent_blockCreate :: "call list \<Rightarrow> js_string \<Rightarrow> js_string \<Rightarrow> exn option"
  agent_upsertProfile ::
    "call list \<Rightarrow> js_string option \<Rightarrow> js_string option \<Rightarrow> js_string option
       \<Rightarrow> js_string option \<Rightarrow> exn option"
  agent_uploadBlob :: "call list \<Rightarrow> blob \<Rightarrow> js_string \<Rightarrow> exn + js_string"
  fetch :: "call list \<Rightarrow> js_string \<Rightarrow> exn + blob"
  URL_valid :: "js_string \<Rightarrow> bool"
  thrown_message :: "exn \<Rightarrow> string option"
  thrown_string :: "exn \<Rightarrow> string"

subsection \<open>The client's state\<close>

record reference =
  uri :: js_string
  cid :: js_string
  likeUri :: "js_string option"

type_synonym cache = "int \<rightharpoonup> reference"

text \<open>
  The private fields of \<^verbatim>\<open>BlueskyClient\<close>, the two credentials of its
  \<^verbatim>\<open>options\<close>, and the calls made on the agent so far. Every cached object is
  created by one object literal and stored under one key of one map, so that no two
  entries share an object and a map of values describes the caches.
\<close>

record client =
  authenticated :: bool
  sessionData :: "js_string option"
  opt_identifier :: "js_string option"
  opt_password :: "js_string option"
  postCache :: cache
  commentCache :: cache
  calls :: "call list"

definition logCall :: "call \<Rightarrow> client \<Rightarrow> client" where
  "logCall c s = s\<lparr>calls := calls s @ [c]\<rparr>"

text \<open>\<^verbatim>\<open>s.replace(pat, rep)\<close> with a string pattern: the first occurrence only.\<close>

fun replace_js :: "js_string \<Rightarrow> js_string \<Rightarrow> js_string \<Rightarrow> js_string" where
  "replace_js pat rep [] = (if pat = [] then rep else [])"
| "replace_js pat rep (c # cs) =
     (if take (length pat) (c # cs) = pat then rep @ drop (length pat) (c # cs)
      else c # replace_js pat rep cs)"

text \<open>
  The constructor: empty caches, not authenticated, the session data taken from the
  \<^verbatim>\<open>authorization\<close> header when there is one.
\<close>

definition newClient :: "js_string option \<Rightarrow> js_string option \<Rightarrow> js_string option \<Rightarrow> client" where
  "newClient ident pw authorization =
     \<lparr> authenticated = False,
       sessionData = (if truthy authorization
                      then Some (replace_js (ascii ''Bearer '') [] (the authorization))
                      else None),
       opt_identifier = ident,
       opt_password = pw,
       postCache = Map.empty,
       commentCache = Map.empty,
       calls = [] \<rparr>"

subsection \<open>Authentication\<close>

definition accessJwt :: js_string where "accessJwt = ascii ''accessJwt''"
definition refreshJwt :: js_string where "refreshJwt = ascii ''refreshJwt''"
definition did :: js_string where "did = ascii ''did''"

text \<open>
  \<^verbatim>\<open>session.accessJwt && session.refreshJwt && session.did\<close> as a condition:
  evaluated left to right, stopping at the first falsy property.
\<close>

definition requiredFields :: "js_value \<Rightarrow> exn + bool" where
  "requiredFields session =
     (case getProp session accessJwt of
        Inl e \<Rightarrow> Inl e
      | Inr a \<Rightarrow>
          if \<not> truthy_value a then Inr False
          else (case getProp session refreshJwt of
                  Inl e \<Rightarrow> Inl e
                | Inr r \<Rightarrow>
                    if \<not> truthy_value r then Inr False
                    else (case getProp session did of
                            Inl e \<Rightarrow> Inl e
                          | Inr d \<Rightarrow> Inr (truthy_value d))))"

text \<open>
  \<^verbatim>\<open>#restoreSession\<close>: the inner \<^verbatim>\<open>catch\<close> answers a blob that does not
  parse, the outer one any other exception of the body.
\<close>

definition restoreSession :: "env \<Rightarrow> client \<Rightarrow> js_string \<Rightarrow> bool \<times> client" where
  "restoreSession E s blob =
     (case JSON_parse E blob of
        None \<Rightarrow> (False, s)
      | Some session \<Rightarrow>
          (case requiredFields session of
             Inl e \<Rightarrow> (False, s\<lparr>authenticated := False\<rparr>)
           | Inr False \<Rightarrow> (False, s)
           | Inr True \<Rightarrow>
               (case agent_resumeSession E (calls s) session of
                  Some e \<Rightarrow> (False, (logCall (ResumeSession session) s)\<lparr>authenticated := False\<rparr>)
                | None \<Rightarrow> (True, (logCall (ResumeSession session) s)\<lparr>authenticated := True\<rparr>))))"

text \<open>\<^verbatim>\<open>#ensureAuth\<close>: \<open>Inr ()\<close> when it returns, \<open>Inl\<close> what it throws.\<close>

definition ensureAuth :: "env \<Rightarrow> client \<Rightarrow> (exn + unit) \<times> client" where
  "ensureAuth E s =
     (if authenticated s \<and> agent_session E (calls s) then (Inr (), s)
      else
        let (restored, s1) =
              (if truthy (sessionData s) \<and> \<not> authenticated s
               then restoreSession E s (the (sessionData s))
               else (False, s))
        in if restored then (Inr (), s1)
           else if truthy (opt_identifier s1) \<and> truthy (opt_password s1) then
             (case agent_login E (calls s1) (the (opt_identifier s1)) (the (opt_password s1)) of
                Some e \<Rightarrow> (Inl e, logCall (Login (the (opt_identifier s1)) (the (opt_password s1))) s1)
              | None \<Rightarrow>
                  (Inr (), (logCall (Login (the (opt_identifier s1)) (the (opt_password s1))) s1)
                             \<lparr>authenticated := True\<rparr>))
           else (Inl (Error ''No Bluesky credentials available for authentication''), s1))"

subsection \<open>Observing posts\<close>

text \<open>
  The responses are object literals of some eighty constant or copied fields; the model
  keeps the ones that depend on the handle or on the like marker.
\<close>

record post_view =
  pv_id :: int
  pv_my_vote :: "int option"
  pv_deleted :: bool

record comment_view =
  cv_id :: int
  cv_post_id :: int
  cv_path :: "int list"
  cv_my_vote :: "int option"

definition myVote :: "js_string option \<Rightarrow> int option" where
  "myVote like = (if truthy like then Some 1 else None)"

text \<open>
  \<^verbatim>\<open>#mapPostToPostView\<close>: derives the handle and, when the post has a uri and a
  cid, stores its reference under the handle (overwriting what was there).
\<close>

definition mapPostToPostView :: "client \<Rightarrow> bsky_post \<Rightarrow> post_view \<times> client" where
  "mapPostToPostView s post =
     (let rkey = rkeyOf (p_uri post);
          hashId = hashOr 0 rkey;
          s' = (if truthy (p_uri post) \<and> truthy (p_cid post)
                then s\<lparr>postCache := (postCache s)(hashId \<mapsto>
                        \<lparr>uri = the (p_uri post), cid = the (p_cid post),
                         likeUri = p_viewer_like post\<rparr>)\<rparr>
                else s)
      in (\<lparr>pv_id = hashId, pv_my_vote = myVote (p_viewer_like post), pv_deleted = False\<rparr>, s'))"

text \<open>
  \<^verbatim>\<open>feed.map(item => this.#mapPostToPostView(item.post))\<close>, as
  \<^verbatim>\<open>getPosts\<close> and \<^verbatim>\<open>search\<close> run it over a page of posts.
\<close>

fun mapPosts :: "client \<Rightarrow> bsky_post list \<Rightarrow> post_view list \<times> client" where
  "mapPosts s [] = ([], s)"
| "mapPosts s (p # ps) =
     (let (v, s1) = mapPostToPostView s p;
          (vs, s2) = mapPosts s1 ps
      in (v # vs, s2))"

text \<open>
  The lookup every action by handle starts with:
  \<^verbatim>\<open>const cached = cache.get(id); if (!cached) throw new Error(msg)\<close>
\<close>

definition resolve :: "cache \<Rightarrow> int \<Rightarrow> string \<Rightarrow> exn + reference" where
  "resolve c h msg = (case c h of None \<Rightarrow> Inl (Error msg) | Some r \<Rightarrow> Inr r)"

definition postNotCached :: string where
  "postNotCached = ''Post not found in cache - please refresh the page''"

definition commentNotCached :: string where
  "commentNotCached = ''Comment not found in cache - please refresh the page''"

subsection \<open>Posts\<close>

text \<open>
  \<^verbatim>\<open>getPost\<close>: fetches the timeline and maps the first post whose derived
  handle is the id asked for.
\<close>

definition getPost :: "env \<Rightarrow> client \<Rightarrow> int \<Rightarrow> (exn + post_view) \<times> client" where
  "getPost E s post_id =
     (case ensureAuth E s of
        (Inl e, s1) \<Rightarrow> (Inl e, s1)
      | (Inr _, s1) \<Rightarrow>
          (case agent_getTimeline E (calls s1) 50 None of
             Inl e \<Rightarrow> (Inl e, logCall (GetTimeline 50 None) s1)
           | Inr feed \<Rightarrow>
               (case find (\<lambda>p. deriveHandle (p_uri p) = post_id) (fp_posts feed) of
                  None \<Rightarrow> (Inl (Error ''Post not found in recent timeline''),
                            logCall (GetTimeline 50 None) s1)
                | Some post \<Rightarrow>
                    (let (v, s2) = mapPostToPostView (logCall (GetTimeline 50 None) s1) post
                     in (Inr v, s2)))))"

text \<open>
  \<^verbatim>\<open>deletePost\<close>: the cache entry is removed after the remote delete resolved.
\<close>

definition deletePost :: "env \<Rightarrow> client \<Rightarrow> int \<Rightarrow> (exn + post_view) \<times> client" where
  "deletePost E s post_id =
     (case ensureAuth E s of
        (Inl e, s1) \<Rightarrow> (Inl e, s1)
      | (Inr _, s1) \<Rightarrow>
          (case resolve (postCache s1) post_id postNotCached of
             Inl e \<Rightarrow> (Inl e, s1)
           | Inr cached \<Rightarrow>
               (case agent_deletePost E (calls s1) (uri cached) of
                  Some e \<Rightarrow> (Inl e, logCall (DeletePost (uri cached)) s1)
                | None \<Rightarrow>
                    (Inr \<lparr>pv_id = post_id, pv_my_vote = None, pv_deleted = True\<rparr>,
                     (logCall (DeletePost (uri cached)) s1)
                       \<lparr>postCache := (postCache s1)(post_id := None)\<rparr>))))"

text \<open>
  \<^verbatim>\<open>getPosts\<close>: the following timeline for the listing type
  \<^verbatim>\<open>Subscribed\<close>, the discover feed otherwise; every post of the page is mapped, and so
  cached.
\<close>

definition whatsHot :: js_string where
  "whatsHot = ascii ''at://did:plc:z72i7hdynmk6r22z27h6tvur/app.bsky.feed.generator/whats-hot''"

definition cursorOf :: "js_string option \<Rightarrow> js_string option" where
  "cursorOf cursor = (if truthy cursor then cursor else None)"

definition getPosts ::
  "env \<Rightarrow> client \<Rightarrow> js_string option \<Rightarrow> int option \<Rightarrow> js_string option
     \<Rightarrow> (exn + post_view list \<times> js_string option) \<times> client" where
  "getPosts E s listing limit page_cursor =
     (case ensureAuth E s of
        (Inl e, s1) \<Rightarrow> (Inl e, s1)
      | (Inr _, s1) \<Rightarrow>
          (let listingType = (if truthy listing then the listing else ascii ''All'');
               fetched =
                 (if listingType = ascii ''Subscribed''
                  then (agent_getTimeline E (calls s1) (orElse limit 20) (cursorOf page_cursor),
                        logCall (GetTimeline (orElse limit 20) (cursorOf page_cursor)) s1)
                  else (agent_getFeed E (calls s1) whatsHot (orElse limit 20) (cursorOf page_cursor),
                        logCall (GetFeed whatsHot (orElse limit 20) (cursorOf page_cursor)) s1))
           in case fetched of
                (Inl e, s2) \<Rightarrow> (Inl e, s2)
              | (Inr feed, s2) \<Rightarrow>
                  (let (posts, s3) = mapPosts s2 (fp_posts feed)
                   in (Inr (posts, fp_cursor feed), s3))))"

subsection \<open>Likes\<close>

text \<open>
  The body of the \<^verbatim>\<open>try\<close> block up to the response, the same in
  \<^verbatim>\<open>likePost\<close> (on the post cache) and \<^verbatim>\<open>likeComment\<close> (on the comment
  cache): score 1 likes and stores the like's uri, score \<open>-1\<close> deletes a stored like and
  clears the marker, any other score does nothing. It returns the outcome, the cache and
  the calls made.
\<close>

definition applyScore ::
  "env \<Rightarrow> call list \<Rightarrow> cache \<Rightarrow> int \<Rightarrow> reference \<Rightarrow> int \<Rightarrow> (exn + reference) \<times> cache \<times> call list" where
  "applyScore E hist c key cached score =
     (if score = 1 then
        (case agent_like E hist (uri cached) (cid cached) of
           Inl e \<Rightarrow> (Inl e, c, hist @ [Like (uri cached) (cid cached)])
         | Inr likeuri \<Rightarrow>
             (Inr (cached\<lparr>likeUri := Some likeuri\<rparr>),
              c(key \<mapsto> cached\<lparr>likeUri := Some likeuri\<rparr>),
              hist @ [Like (uri cached) (cid cached)]))
      else if score = - 1 then
        (if truthy (likeUri cached) then
           (case agent_deleteLike E hist (the (likeUri cached)) of
              Some e \<Rightarrow> (Inl e, c, hist @ [DeleteLike (the (likeUri cached))])
            | None \<Rightarrow>
                (Inr (cached\<lparr>likeUri := None\<rparr>),
                 c(key \<mapsto> cached\<lparr>likeUri := None\<rparr>),
                 hist @ [DeleteLike (the (likeUri cached))]))
         else (Inr cached, c, hist))
      else (Inr cached, c, hist))"

text \<open>
  The fallback of \<^verbatim>\<open>likePost\<close> for a handle that is not cached: search the
  recent timeline for a post with that handle and cache it; a failure of the fetch is
  logged and swallowed.
\<close>

definition findInTimeline :: "env \<Rightarrow> client \<Rightarrow> int \<Rightarrow> reference option \<times> client" where
  "findInTimeline E s post_id =
     (case agent_getTimeline E (calls s) 50 None of
        Inl e \<Rightarrow> (None, logCall (GetTimeline 50 None) s)
      | Inr feed \<Rightarrow>
          (case find (\<lambda>p. deriveHandle (p_uri p) = post_id) (fp_posts feed) of
             None \<Rightarrow> (None, logCall (GetTimeline 50 None) s)
           | Some foundPost \<Rightarrow>
               if truthy (p_uri foundPost) \<and> truthy (p_cid foundPost) then
                 (let cached = \<lparr>uri = the (p_uri foundPost), cid = the (p_cid foundPost),
                                 likeUri = p_viewer_like foundPost\<rparr>
                  in (Some cached,
                      (logCall (GetTimeline 50 None) s)\<lparr>postCache := (postCache s)(post_id \<mapsto> cached)\<rparr>))
               else (None, logCall (GetTimeline 50 None) s)))"

definition postNotFound :: string where
  "postNotFound = ''Post not found - it may be too old or from a different feed''"

definition likePost :: "env \<Rightarrow> client \<Rightarrow> int \<Rightarrow> int \<Rightarrow> (exn + post_view) \<times> client" where
  "likePost E s post_id score =
     (case ensureAuth E s of
        (Inl e, s1) \<Rightarrow> (Inl e, s1)
      | (Inr _, s1) \<Rightarrow>
          (let (cached, s2) = (case postCache s1 post_id of
                                 Some r \<Rightarrow> (Some r, s1)
                               | None \<Rightarrow> findInTimeline E s1 post_id)
           in case cached of
                None \<Rightarrow> (Inl (Error postNotFound), s2)
              | Some r \<Rightarrow>
                  (case applyScore E (calls s2) (postCache s2) post_id r score of
                     (Inl e, c, hist) \<Rightarrow> (Inl e, s2\<lparr>postCache := c, calls := hist\<rparr>)
                   | (Inr r', c, hist) \<Rightarrow> getPost E (s2\<lparr>postCache := c, calls := hist\<rparr>) post_id)))"

definition likeComment :: "env \<Rightarrow> client \<Rightarrow> int \<Rightarrow> int \<Rightarrow> (exn + comment_view) \<times> client" where
  "likeComment E s comment_id score =
     (case ensureAuth E s of
        (Inl e, s1) \<Rightarrow> (Inl e, s1)
      | (Inr _, s1) \<Rightarrow>
          (case resolve (commentCache s1) comment_id commentNotCached of
             Inl e \<Rightarrow> (Inl e, s1)
           | Inr cached \<Rightarrow>
               (case applyScore E (calls s1) (commentCache s1) comment_id cached score of
                  (Inl e, c, hist) \<Rightarrow> (Inl e, s1\<lparr>commentCache := c, calls := hist\<rparr>)
                | (Inr cached', c, hist) \<Rightarrow>
                    (Inr \<lparr>cv_id = comment_id, cv_post_id = 0, cv_path = [0],
                          cv_my_vote = myVote (likeUri cached')\<rparr>,
                     s1\<lparr>commentCache := c, calls := hist\<rparr>))))"

subsection \<open>Comments\<close>

definition replyUnsupported :: string where
  "replyUnsupported =
     ''Replying to comments not yet fully supported - please reply to the main post''"

text \<open>
  \<^verbatim>\<open>createComment\<close>: \<^verbatim>\<open>if (form.parent_id)\<close> throws for a reply to a
  comment; otherwise the reply is posted with the cached post as root and parent. The new
  comment's handle comes from \<^verbatim>\<open>result.uri.split('/').pop() || ''\<close>.
\<close>

definition createComment ::
  "env \<Rightarrow> client \<Rightarrow> int \<Rightarrow> int option \<Rightarrow> js_string \<Rightarrow> (exn + comment_view) \<times> client" where
  "createComment E s post_id parent_id content =
     (case ensureAuth E s of
        (Inl e, s1) \<Rightarrow> (Inl e, s1)
      | (Inr _, s1) \<Rightarrow>
          if truthy_num parent_id then (Inl (Error replyUnsupported), s1)
          else
            (case resolve (postCache s1) post_id postNotCached of
               Inl e \<Rightarrow> (Inl e, s1)
             | Inr cached \<Rightarrow>
                 (case agent_post E (calls s1) content (uri cached) (cid cached) of
                    Inl e \<Rightarrow> (Inl e, logCall (Post content (uri cached) (cid cached)) s1)
                  | Inr resultUri \<Rightarrow>
                      (let popped = pop (split_js slash resultUri);
                           rkey = (if truthy popped then popped else Some []);
                           commentId = hashOr 0 rkey
                       in (Inr \<lparr>cv_id = commentId, cv_post_id = post_id,
                                cv_path = [0, commentId], cv_my_vote = None\<rparr>,
                           logCall (Post content (uri cached) (cid cached)) s1)))))"

text \<open>
  \<^verbatim>\<open>#mapThreadToComments\<close>: walks the replies of a thread node in order,
  caching each reply that has a uri and a cid under its handle (the reply's index when the
  uri has no last segment) and descending into its own replies. \<open>mapReplies\<close> is the
  \<^verbatim>\<open>for\<close> loop, from index \<open>i\<close> on.
\<close>

definition replyId :: "int \<Rightarrow> bsky_post \<Rightarrow> int" where
  "replyId i post = hashOr i (rkeyOf (p_uri post))"

definition cacheReply :: "cache \<Rightarrow> int \<Rightarrow> bsky_post \<Rightarrow> cache" where
  "cacheReply c i post =
     (if truthy (p_uri post) \<and> truthy (p_cid post)
      then c(replyId i post \<mapsto> \<lparr>uri = the (p_uri post), cid = the (p_cid post),
                                 likeUri = p_viewer_like post\<rparr>)
      else c)"

definition replyView :: "int \<Rightarrow> int list \<Rightarrow> bsky_post \<Rightarrow> comment_view" where
  "replyView i path post =
     \<lparr>cv_id = replyId i post, cv_post_id = 0, cv_path = path @ [replyId i post],
      cv_my_vote = myVote (p_viewer_like post)\<rparr>"

fun mapThreadToComments :: "cache \<Rightarrow> thread \<Rightarrow> int list \<Rightarrow> comment_view list \<times> cache"
  and mapReplies :: "cache \<Rightarrow> thread list \<Rightarrow> int \<Rightarrow> int list \<Rightarrow> comment_view list \<times> cache"
where
  "mapThreadToComments c NotFoundPost path = ([], c)"
| "mapThreadToComments c BlockedPost path = ([], c)"
| "mapThreadToComments c (ThreadViewPost post None) path = ([], c)"
| "mapThreadToComments c (ThreadViewPost post (Some replies)) path = mapReplies c replies 0 path"
| "mapReplies c [] i path = ([], c)"
| "mapReplies c (NotFoundPost # rest) i path = mapReplies c rest (i + 1) path"
| "mapReplies c (BlockedPost # rest) i path = mapReplies c rest (i + 1) path"
| "mapReplies c (ThreadViewPost None rs # rest) i path = mapReplies c rest (i + 1) path"
| "mapReplies c (ThreadViewPost (Some post) None # rest) i path =
     (case mapReplies (cacheReply c i post) rest (i + 1) path of
        (others, c3) \<Rightarrow> (replyView i path post # others, c3))"
| "mapReplies c (ThreadViewPost (Some post) (Some []) # rest) i path =
     (case mapReplies (cacheReply c i post) rest (i + 1) path of
        (others, c3) \<Rightarrow> (replyView i path post # others, c3))"
| "mapReplies c (ThreadViewPost (Some post) (Some (r # rs)) # rest) i path =
     (case mapThreadToComments (cacheReply c i post)
             (ThreadViewPost (Some post) (Some (r # rs))) (path @ [replyId i post]) of
        (children, c2) \<Rightarrow>
          (case mapReplies c2 rest (i + 1) path of
             (others, c3) \<Rightarrow> (replyView i path post # children @ others, c3)))"

fun hasReplies :: "thread \<Rightarrow> bool" where
  "hasReplies (ThreadViewPost post (Some replies)) = True"
| "hasReplies t = False"

text \<open>
  \<^verbatim>\<open>getComments\<close>: a handle that is not cached and a failure of the thread fetch
  both answer with no comments.
\<close>

definition getComments :: "env \<Rightarrow> client \<Rightarrow> int option \<Rightarrow> (exn + comment_view list) \<times> client" where
  "getComments E s post_id =
     (case ensureAuth E s of
        (Inl e, s1) \<Rightarrow> (Inl e, s1)
      | (Inr _, s1) \<Rightarrow>
          (case (case post_id of None \<Rightarrow> None | Some h \<Rightarrow> postCache s1 h) of
             None \<Rightarrow> (Inr [], s1)
           | Some cached \<Rightarrow>
               (case agent_getPostThread E (calls s1) (uri cached) 10 of
                  Inl e \<Rightarrow> (Inr [], logCall (GetPostThread (uri cached) 10) s1)
                | Inr thread \<Rightarrow>
                    if \<not> tr_success thread \<or> \<not> hasReplies (tr_thread thread)
                    then (Inr [], logCall (GetPostThread (uri cached) 10) s1)
                    else
                      (let (comments, c) =
                             mapThreadToComments (commentCache s1) (tr_thread thread) []
                       in (Inr comments,
                           (logCall (GetPostThread (uri cached) 10) s1)\<lparr>commentCache := c\<rparr>)))))"

subsection \<open>Reports\<close>

text \<open>
  \<^verbatim>\<open>createPostReport\<close> and \<^verbatim>\<open>createCommentReport\<close>: resolve the handle in
  their cache and report the reference; the model returns the reported handle.
\<close>

definition createReportOn ::
  "env \<Rightarrow> client \<Rightarrow> cache \<Rightarrow> string \<Rightarrow> int \<Rightarrow> js_string \<Rightarrow> (exn + int) \<times> client" where
  "createReportOn E s1 c msg h reason =
     (case resolve c h msg of
        Inl e \<Rightarrow> (Inl e, s1)
      | Inr cached \<Rightarrow>
          (case agent_createReport E (calls s1) reason (uri cached) (cid cached) of
             Some e \<Rightarrow> (Inl e, logCall (CreateReport reason (uri cached) (cid cached)) s1)
           | None \<Rightarrow> (Inr h, logCall (CreateReport reason (uri cached) (cid cached)) s1)))"

definition createPostReport :: "env \<Rightarrow> client \<Rightarrow> int \<Rightarrow> js_string \<Rightarrow> (exn + int) \<times> client" where
  "createPostReport E s post_id reason =
     (case ensureAuth E s of
        (Inl e, s1) \<Rightarrow> (Inl e, s1)
      | (Inr _, s1) \<Rightarrow> createReportOn E s1 (postCache s1) postNotCached post_id reason)"

definition createCommentReport :: "env \<Rightarrow> client \<Rightarrow> int \<Rightarrow> js_string \<Rightarrow> (exn + int) \<times> client" where
  "createCommentReport E s comment_id reason =
     (case ensureAuth E s of
        (Inl e, s1) \<Rightarrow> (Inl e, s1)
      | (Inr _, s1) \<Rightarrow> createReportOn E s1 (commentCache s1) commentNotCached comment_id reason)"

subsection \<open>Notifications\<close>

record unread_count =
  replies :: int
  mentions :: int
  private_messages :: int

definition getUnreadCount :: "env \<Rightarrow> client \<Rightarrow> (exn + unread_count) \<times> client" where
  "getUnreadCount E s =
     (case ensureAuth E s of
        (Inl e, s1) \<Rightarrow> (Inl e, s1)
      | (Inr _, s1) \<Rightarrow>
          (case agent_countUnreadNotifications E (calls s1) of
             Inl e \<Rightarrow> (Inr \<lparr>replies = 0, mentions = 0, private_messages = 0\<rparr>,
                       logCall CountUnreadNotifications s1)
           | Inr n \<Rightarrow> (Inr \<lparr>replies = orElse n 0, mentions = 0, private_messages = 0\<rparr>,
                       logCall CountUnreadNotifications s1)))"

text \<open>
  \<^verbatim>\<open>getPersonMentions\<close> and \<^verbatim>\<open>getReplies\<close> list the notifications, keep
  those with the reasons they look for and give each the handle of its uri; the model
  returns these handles.
\<close>

definition notificationIds ::
  "env \<Rightarrow> client \<Rightarrow> int option \<Rightarrow> js_string list \<Rightarrow> (exn + int list) \<times> client" where
  "notificationIds E s limit reasons =
     (case ensureAuth E s of
        (Inl e, s1) \<Rightarrow> (Inl e, s1)
      | (Inr _, s1) \<Rightarrow>
          (case agent_listNotifications E (calls s1) (orElse limit 20) of
             Inl e \<Rightarrow> (Inr [], logCall (ListNotifications (orElse limit 20)) s1)
           | Inr notifications \<Rightarrow>
               (Inr (map (\<lambda>n. deriveHandle (n_uri n))
                       (filter (\<lambda>n. n_reason n \<in> set reasons) notifications)),
                logCall (ListNotifications (orElse limit 20)) s1)))"

definition getPersonMentions :: "env \<Rightarrow> client \<Rightarrow> int option \<Rightarrow> (exn + int list) \<times> client" where
  "getPersonMentions E s limit = notificationIds E s limit [ascii ''mention'', ascii ''reply'']"

definition getReplies :: "env \<Rightarrow> client \<Rightarrow> int option \<Rightarrow> (exn + int list) \<times> client" where
  "getReplies E s limit = notificationIds E s limit [ascii ''reply'']"

subsection \<open>The site, search and new posts\<close>

definition noSession :: string where
  "noSession = ''No Bluesky session available - login required''"

text \<open>\<^verbatim>\<open>getSite\<close>: makes no call of its own; the model returns no site data.\<close>

definition getSite :: "env \<Rightarrow> client \<Rightarrow> (exn + unit) \<times> client" where
  "getSite E s =
     (case ensureAuth E s of
        (Inl e, s1) \<Rightarrow> (Inl e, s1)
      | (Inr _, s1) \<Rightarrow>
          if \<not> agent_session E (calls s1) then (Inl (Error noSession), s1)
          else (Inr (), s1\<lparr>authenticated := True\<rparr>))"

text \<open>\<^verbatim>\<open>x || ''\<close> on an optional string.\<close>

definition orEmpty :: "js_string option \<Rightarrow> js_string" where
  "orEmpty v = (if truthy v then the v else [])"

text \<open>
  \<^verbatim>\<open>search\<close>: each of the two searches has its own \<^verbatim>\<open>try\<close>, whose
  \<^verbatim>\<open>catch\<close> logs the failure and leaves the list empty. The posts found are mapped
  and so cached; of the users the model keeps the handles.
\<close>

definition search ::
  "env \<Rightarrow> client \<Rightarrow> js_string option \<Rightarrow> js_string option \<Rightarrow> int option
     \<Rightarrow> (exn + post_view list \<times> js_string list) \<times> client" where
  "search E s kind q limit =
     (case ensureAuth E s of
        (Inl e, s1) \<Rightarrow> (Inl e, s1)
      | (Inr _, s1) \<Rightarrow>
          (let searchType = (if truthy kind then the kind else ascii ''All'');
               (posts, s2) =
                 (if searchType = ascii ''All'' \<or> searchType = ascii ''Posts'' then
                    (case agent_searchPosts E (calls s1) (orEmpty q) limit of
                       Inl e \<Rightarrow> ([], logCall (SearchPosts (orEmpty q) limit) s1)
                     | Inr found \<Rightarrow> mapPosts (logCall (SearchPosts (orEmpty q) limit) s1) found)
                  else ([], s1));
               (users, s3) =
                 (if searchType = ascii ''All'' \<or> searchType = ascii ''Users'' then
                    (case agent_searchActors E (calls s2) (orEmpty q) (orElse limit 20) of
                       Inl e \<Rightarrow> ([], logCall (SearchActors (orEmpty q) (orElse limit 20)) s2)
                     | Inr actors \<Rightarrow>
                         (actors, logCall (SearchActors (orEmpty q) (orElse limit 20)) s2))
                  else ([], s2))
           in (Inr (posts, users), s3)))"

text \<open>
  \<^verbatim>\<open>createPost\<close>: the text is the body, or the name when there is no body; the
  embed is the uploaded images, else the url when \<^verbatim>\<open>new URL\<close> accepts it. It has no
  \<^verbatim>\<open>try\<close>: what the agent throws leaves the method as it is.
\<close>

definition embedOf ::
  "env \<Rightarrow> js_string \<Rightarrow> js_string option \<Rightarrow> js_string option \<Rightarrow> js_string list option \<Rightarrow> embed" where
  "embedOf E name body url image_urls =
     (if image_urls \<noteq> None \<and> the image_urls \<noteq> [] then Images (the image_urls)
      else if truthy url then
        (if URL_valid E (the url) then External (the url) name (orEmpty body) else NoEmbed)
      else NoEmbed)"

definition createPost ::
  "env \<Rightarrow> client \<Rightarrow> js_string \<Rightarrow> js_string option \<Rightarrow> js_string option \<Rightarrow> js_string list option
     \<Rightarrow> (exn + post_view) \<times> client" where
  "createPost E s name body url image_urls =
     (case ensureAuth E s of
        (Inl e, s1) \<Rightarrow> (Inl e, s1)
      | (Inr _, s1) \<Rightarrow>
          (let text = (if truthy body then the body else name);
               record = embedOf E name body url image_urls
           in case agent_postRecord E (calls s1) text record of
                Inl e \<Rightarrow> (Inl e, logCall (PostRecord text record) s1)
              | Inr resultUri \<Rightarrow>
                  (Inr \<lparr>pv_id = 0, pv_my_vote = None, pv_deleted = False\<rparr>,
                   logCall (PostRecord text record) s1)))"

subsection \<open>Logging in and out\<close>

text \<open>\<^verbatim>\<open>s.includes(p)\<close>\<close>

fun includes_js :: "string \<Rightarrow> string \<Rightarrow> bool" where
  "includes_js p [] = (p = [])"
| "includes_js p (c # cs) = (take (length p) (c # cs) = p \<or> includes_js p cs)"

definition messageOf :: "env \<Rightarrow> exn \<Rightarrow> string option" where
  "messageOf E e = (case e of Error m \<Rightarrow> Some m | _ \<Rightarrow> thrown_message E e)"

definition stringOf :: "env \<Rightarrow> exn \<Rightarrow> string" where
  "stringOf E e =
     (case e of Error m \<Rightarrow> (if m = [] then ''Error'' else ''Error: '' @ m) | _ \<Rightarrow> thrown_string E e)"

text \<open>
  The \<^verbatim>\<open>catch\<close> of \<^verbatim>\<open>login\<close> throws a new \<^verbatim>\<open>Error\<close> in place of
  what it caught; this is its message.
\<close>

definition loginFailure :: "env \<Rightarrow> exn \<Rightarrow> string" where
  "loginFailure E e =
     (if (case messageOf E e of None \<Rightarrow> False
          | Some m \<Rightarrow> includes_js ''Invalid identifier or password'' m)
      then ''Invalid Bluesky handle or app password. Make sure you are using an app password (not your account password).''
      else ''Bluesky login failed: '' @
           (case messageOf E e of
              None \<Rightarrow> stringOf E e
            | Some m \<Rightarrow> if m \<noteq> [] then m else stringOf E e))"

text \<open>
  \<^verbatim>\<open>login\<close>: on success the client is authenticated, keeps the credentials, and
  the session's JSON text is returned.
\<close>

definition login :: "env \<Rightarrow> client \<Rightarrow> js_string \<Rightarrow> js_string \<Rightarrow> (exn + js_string) \<times> client" where
  "login E s username_or_email pw =
     (case agent_login E (calls s) username_or_email pw of
        Some e \<Rightarrow> (Inl (Error (loginFailure E e)), logCall (Login username_or_email pw) s)
      | None \<Rightarrow>
          (let s1 = logCall (Login username_or_email pw) s
           in if \<not> agent_session E (calls s1)
              then (Inl (Error (loginFailure E
                          (Error ''Login succeeded but no session was created''))), s1)
              else (Inr (agent_session_json E (calls s1)),
                    s1\<lparr>authenticated := True, opt_identifier := Some username_or_email,
                       opt_password := Some pw\<rparr>)))"

definition logout :: "client \<Rightarrow> (exn + unit) \<times> client" where
  "logout s = (Inr (), s\<lparr>authenticated := False\<rparr>)"

subsection \<open>Persons\<close>

text \<open>\<^verbatim>\<open>n.toString()\<close> for a whole number: its decimal digits.\<close>

fun digitsOf :: "nat \<Rightarrow> js_string" where
  "digitsOf n = (if n < 10 then [of_nat (48 + n)]
                 else digitsOf (n div 10) @ [of_nat (48 + n mod 10)])"

definition numberToString :: "int \<Rightarrow> js_string" where
  "numberToString n = (if n < 0 then 45 # digitsOf (nat (- n)) else digitsOf (nat n))"

definition noHandle :: string where
  "noHandle = ''No handle provided for person details''"

text \<open>
  The handle \<^verbatim>\<open>getPersonDetails\<close> asks for: the username, else the person id as a
  string, else the session's handle.
\<close>

definition handleOf :: "env \<Rightarrow> client \<Rightarrow> js_string option \<Rightarrow> int option \<Rightarrow> exn + js_string" where
  "handleOf E s1 username person_id =
     (let handle = (if \<not> truthy username \<and> truthy_num person_id
                    then Some (numberToString (the person_id)) else username)
      in if \<not> truthy handle then
           (if agent_session E (calls s1) \<and> agent_session_handle E (calls s1) \<noteq> []
            then Inr (agent_session_handle E (calls s1))
            else Inl (Error noHandle))
         else Inr (the handle))"

text \<open>
  \<^verbatim>\<open>getPersonDetails\<close>: the profile, then the author's feed, whose posts are mapped
  and so cached. The model returns the profile's handle and the posts.
\<close>

definition getPersonDetails ::
  "env \<Rightarrow> client \<Rightarrow> js_string option \<Rightarrow> int option \<Rightarrow> int option
     \<Rightarrow> (exn + js_string \<times> post_view list) \<times> client" where
  "getPersonDetails E s username person_id limit =
     (case ensureAuth E s of
        (Inl e, s1) \<Rightarrow> (Inl e, s1)
      | (Inr _, s1) \<Rightarrow>
          (case handleOf E s1 username person_id of
             Inl e \<Rightarrow> (Inl e, s1)
           | Inr handle \<Rightarrow>
               (case agent_getProfile E (calls s1) handle of
                  Inl e \<Rightarrow> (Inl e, logCall (GetProfile handle) s1)
                | Inr prof \<Rightarrow>
                    (let s2 = logCall (GetProfile handle) s1
                     in case agent_getAuthorFeed E (calls s2) handle (orElse limit 20) of
                          Inl e \<Rightarrow> (Inl e, logCall (GetAuthorFeed handle (orElse limit 20)) s2)
                        | Inr feed \<Rightarrow>
                            (let (posts, s3) =
                                   mapPosts (logCall (GetAuthorFeed handle (orElse limit 20)) s2) feed
                             in (Inr (pr_handle prof, posts), s3))))))"

definition blockNeedsRefresh :: string where
  "blockNeedsRefresh = ''Bluesky blocking requires refreshing the page to get user details''"

definition noIdentifier :: string where
  "noIdentifier = ''No user identifier provided for blocking''"

definition noUnblock :: string where
  "noUnblock = ''Unblocking not yet fully implemented''"

text \<open>\<^verbatim>\<open>form.person_id?.toString() || ''\<close>\<close>

definition actorOf :: "js_id option \<Rightarrow> js_string" where
  "actorOf person_id =
     (case person_id of None \<Rightarrow> [] | Some (IdNum n) \<Rightarrow> numberToString n | Some (IdStr a) \<Rightarrow> a)"

text \<open>
  \<^verbatim>\<open>blockPerson\<close>: rejects a numeric id other than 0 and a missing identifier,
  fetches the profile, and then either creates the block record in the session's
  repository (reading \<^verbatim>\<open>session!.did\<close> throws when there is no session) or rejects
  the unblocking.
\<close>

definition blockPerson ::
  "env \<Rightarrow> client \<Rightarrow> js_id option \<Rightarrow> bool \<Rightarrow> (exn + js_string \<times> bool) \<times> client" where
  "blockPerson E s person_id block =
     (case ensureAuth E s of
        (Inl e, s1) \<Rightarrow> (Inl e, s1)
      | (Inr _, s1) \<Rightarrow>
          if (case person_id of Some (IdNum n) \<Rightarrow> n \<noteq> 0 | _ \<Rightarrow> False)
          then (Inl (Error blockNeedsRefresh), s1)
          else if actorOf person_id = [] then (Inl (Error noIdentifier), s1)
          else
            (case agent_getProfile E (calls s1) (actorOf person_id) of
               Inl e \<Rightarrow> (Inl e, logCall (GetProfile (actorOf person_id)) s1)
             | Inr prof \<Rightarrow>
                 (let s2 = logCall (GetProfile (actorOf person_id)) s1
                  in if block then
                       (if \<not> agent_session E (calls s2) then (Inl TypeError, s2)
                        else
                          (case agent_blockCreate E (calls s2) (agent_session_did E (calls s2))
                                  (pr_did prof) of
                             Some e \<Rightarrow>
                               (Inl e, logCall (BlockCreate (agent_session_did E (calls s2))
                                                  (pr_did prof)) s2)
                           | None \<Rightarrow>
                               (Inr (pr_handle prof, block),
                                logCall (BlockCreate (agent_session_did E (calls s2))
                                           (pr_did prof)) s2)))
                     else (Inl (Error noUnblock), s2))))"

text \<open>\<^verbatim>\<open>x || y\<close> on two optional strings, and a field copied only when it is set.\<close>

definition orOpt :: "js_string option \<Rightarrow> js_string option \<Rightarrow> js_string option" where
  "orOpt x y = (if truthy x then x else y)"

definition whenSet :: "js_string option \<Rightarrow> js_string option" where
  "whenSet x = (if truthy x then x else None)"

text \<open>
  \<^verbatim>\<open>saveUserSettings\<close>: reads the profile of the session's did and writes the
  display name and the description of the form over it.
\<close>

definition saveUserSettings ::
  "env \<Rightarrow> client \<Rightarrow> js_string option \<Rightarrow> js_string option \<Rightarrow> (exn + unit) \<times> client" where
  "saveUserSettings E s display_name bio =
     (case ensureAuth E s of
        (Inl e, s1) \<Rightarrow> (Inl e, s1)
      | (Inr _, s1) \<Rightarrow>
          if \<not> agent_session E (calls s1) then (Inl (Error ''No session available''), s1)
          else
            (case agent_getProfile E (calls s1) (agent_session_did E (calls s1)) of
               Inl e \<Rightarrow> (Inl e, logCall (GetProfile (agent_session_did E (calls s1))) s1)
             | Inr prof \<Rightarrow>
                 (let s2 = logCall (GetProfile (agent_session_did E (calls s1))) s1;
                      update = UpsertProfile (orOpt display_name (pr_displayName prof))
                                 (orOpt bio (pr_description prof))
                                 (whenSet (pr_avatar prof)) (whenSet (pr_banner prof))
                  in case agent_upsertProfile E (calls s2) (orOpt display_name (pr_displayName prof))
                            (orOpt bio (pr_description prof))
                            (whenSet (pr_avatar prof)) (whenSet (pr_banner prof)) of
                       Some e \<Rightarrow> (Inl e, logCall update s2)
                     | None \<Rightarrow> (Inr (), logCall update s2))))"

subsection \<open>Images\<close>

text \<open>
  \<^verbatim>\<open>uploadImage\<close>: a string is fetched first; the blob is uploaded with its own
  type, or \<^verbatim>\<open>image/jpeg\<close> when it has none. The model returns the blob's reference.
\<close>

definition uploadBlob :: "env \<Rightarrow> client \<Rightarrow> blob \<Rightarrow> (exn + js_string) \<times> client" where
  "uploadBlob E s1 b =
     (let encoding = (if b_type b \<noteq> [] then b_type b else ascii ''image/jpeg'')
      in case agent_uploadBlob E (calls s1) b encoding of
           Inl e \<Rightarrow> (Inl e, logCall (UploadBlob b encoding) s1)
         | Inr ref \<Rightarrow> (Inr ref, logCall (UploadBlob b encoding) s1))"

definition uploadImage :: "env \<Rightarrow> client \<Rightarrow> image \<Rightarrow> (exn + js_string) \<times> client" where
  "uploadImage E s img =
     (case ensureAuth E s of
        (Inl e, s1) \<Rightarrow> (Inl e, s1)
      | (Inr _, s1) \<Rightarrow>
          (case img of
             ImageBlob b \<Rightarrow> uploadBlob E s1 b
           | ImageString u \<Rightarrow>
               (case fetch E (calls s1) u of
                  Inl e \<Rightarrow> (Inl e, logCall (Fetch u) s1)
                | Inr b \<Rightarrow> uploadBlob E (logCall (Fetch u) s1) b)
           | ImageOther \<Rightarrow> (Inl (Error ''Unsupported image format''), s1)))"

subsection \<open>Operations without an implementation\<close>

text \<open>
  The methods whose whole body is \<^verbatim>\<open>throw new Error(msg)\<close>, in the order of the
  source and grouped by its sections, each with its message.
\<close>

text \<open>Site methods and search.\<close>

datatype site_stub =
    EditSite
  | GenerateTotpSecret
  | ListLogins
  | ListAllMedia
  | UpdateTotp
  | GetModlog
  | ResolveObject

fun siteMessage :: "site_stub \<Rightarrow> string" where
  "siteMessage EditSite = ''Bluesky does not support site editing''"
| "siteMessage GenerateTotpSecret = ''Bluesky does not support TOTP''"
| "siteMessage ListLogins = ''Bluesky does not support login token listing''"
| "siteMessage ListAllMedia = ''Bluesky media listing not implemented''"
| "siteMessage UpdateTotp = ''Bluesky does not support TOTP''"
| "siteMessage GetModlog = ''Bluesky does not have modlog''"
| "siteMessage ResolveObject = ''Bluesky resolve not implemented''"

text \<open>Community methods.\<close>

datatype community_stub =
    CreateCommunity
  | GetCommunity
  | EditCommunity
  | FollowCommunity
  | BlockCommunity
  | DeleteCommunity
  | HideCommunity
  | RemoveCommunity
  | BanFromCommunity
  | AddModToCommunity

fun communityMessage :: "community_stub \<Rightarrow> string" where
  "communityMessage CreateCommunity = ''Bluesky does not have communities''"
| "communityMessage GetCommunity = ''Bluesky does not have communities''"
| "communityMessage EditCommunity = ''Bluesky does not have communities''"
| "communityMessage FollowCommunity = ''Bluesky does not have communities''"
| "communityMessage BlockCommunity = ''Bluesky does not have communities''"
| "communityMessage DeleteCommunity = ''Bluesky does not have communities''"
| "communityMessage HideCommunity = ''Bluesky does not have communities''"
| "communityMessage RemoveCommunity = ''Bluesky does not have communities''"
| "communityMessage BanFromCommunity = ''Bluesky does not have communities''"
| "communityMessage AddModToCommunity = ''Bluesky does not have communities''"

text \<open>Post methods.\<close>

datatype post_stub =
    EditPost
  | RemovePost
  | LockPost
  | FeaturePost
  | ListPostLikes
  | SavePost
  | ResolvePostReport
  | ListPostReports
  | GetSiteMetadata

fun postMessage :: "post_stub \<Rightarrow> string" where
  "postMessage EditPost = ''Bluesky does not support post editing in the same way''"
| "postMessage RemovePost = ''Bluesky does not have moderation removal''"
| "postMessage LockPost = ''Bluesky does not support locking posts''"
| "postMessage FeaturePost = ''Bluesky does not support featuring posts''"
| "postMessage ListPostLikes = ''Bluesky does not support listing post likes in the same way''"
| "postMessage SavePost = ''Bluesky savePost not implemented''"
| "postMessage ResolvePostReport = ''Bluesky does not have post report resolution''"
| "postMessage ListPostReports = ''Bluesky does not have post reports''"
| "postMessage GetSiteMetadata = ''Bluesky metadata fetching not implemented''"

text \<open>Comment methods.\<close>

datatype comment_stub =
    EditComment
  | DeleteComment
  | RemoveComment
  | ListCommentLikes
  | SaveComment
  | DistinguishComment
  | GetComment
  | ResolveCommentReport
  | ListCommentReports

fun commentMessage :: "comment_stub \<Rightarrow> string" where
  "commentMessage EditComment = ''Bluesky does not support comment editing''"
| "commentMessage DeleteComment = ''Bluesky deleteComment not implemented''"
| "commentMessage RemoveComment = ''Bluesky does not have comment removal''"
| "commentMessage ListCommentLikes = ''Bluesky does not support listing comment likes''"
| "commentMessage SaveComment = ''Bluesky does not support saving comments''"
| "commentMessage DistinguishComment = ''Bluesky does not support distinguishing comments''"
| "commentMessage GetComment = ''Bluesky getComment not implemented''"
| "commentMessage ResolveCommentReport = ''Bluesky does not have comment report resolution''"
| "commentMessage ListCommentReports = ''Bluesky does not have comment reports''"

text \<open>Private message methods.\<close>

datatype message_stub =
    CreatePrivateMessage
  | EditPrivateMessage
  | DeletePrivateMessage
  | MarkPrivateMessageAsRead
  | CreatePrivateMessageReport
  | ResolvePrivateMessageReport

fun messageMessage :: "message_stub \<Rightarrow> string" where
  "messageMessage CreatePrivateMessage = ''Bluesky does not support private messages yet. DMs are not available on this platform.''"
| "messageMessage EditPrivateMessage = ''Bluesky does not support private messages''"
| "messageMessage DeletePrivateMessage = ''Bluesky does not support private messages''"
| "messageMessage MarkPrivateMessageAsRead = ''Bluesky does not support private messages''"
| "messageMessage CreatePrivateMessageReport = ''Bluesky does not support private messages''"
| "messageMessage ResolvePrivateMessageReport = ''Bluesky does not have message report resolution''"

text \<open>User/Person methods and what follows them.\<close>

datatype person_stub =
    Register
  | BanPerson
  | GetBannedPersons
  | GetCaptcha
  | DeleteAccount
  | PasswordReset
  | PasswordChangeAfterReset
  | ChangePassword
  | VerifyEmail
  | AddAdmin
  | ApproveRegistrationApplication
  | GetRegistrationApplication
  | PurgePerson
  | PurgeCommunity
  | PurgePost
  | PurgeComment
  | GetFederatedInstances
  | BlockInstance
  | DeleteImage
  | ListMedia

fun personMessage :: "person_stub \<Rightarrow> string" where
  "personMessage Register = ''Bluesky registration not implemented - use bsky.app''"
| "personMessage BanPerson = ''Bluesky does not have person banning in the same way''"
| "personMessage GetBannedPersons = ''Bluesky does not have banned persons''"
| "personMessage GetCaptcha = ''Bluesky does not use captcha''"
| "personMessage DeleteAccount = ''Bluesky account deletion not implemented''"
| "personMessage PasswordReset = ''Bluesky password reset not implemented''"
| "personMessage PasswordChangeAfterReset = ''Bluesky password change not implemented''"
| "personMessage ChangePassword = ''Bluesky password change not implemented''"
| "personMessage VerifyEmail = ''Bluesky email verification not implemented''"
| "personMessage AddAdmin = ''Bluesky does not have admin management''"
| "personMessage ApproveRegistrationApplication = ''Bluesky does not have registration applications''"
| "personMessage GetRegistrationApplication = ''Bluesky does not have registration applications''"
| "personMessage PurgePerson = ''Bluesky does not support purging''"
| "personMessage PurgeCommunity = ''Bluesky does not support purging''"
| "personMessage PurgePost = ''Bluesky does not support purging''"
| "personMessage PurgeComment = ''Bluesky does not support purging''"
| "personMessage GetFederatedInstances = ''Bluesky federation not implemented''"
| "personMessage BlockInstance = ''Bluesky does not have instance blocking''"
| "personMessage DeleteImage = ''Bluesky image deletion not implemented''"
| "personMessage ListMedia = ''Bluesky media listing not implemented''"

datatype stub =
    SiteMethod site_stub
  | CommunityMethod community_stub
  | PostMethod post_stub
  | CommentMethod comment_stub
  | MessageMethod message_stub
  | PersonMethod person_stub

fun stubMessage :: "stub \<Rightarrow> string" where
  "stubMessage (SiteMethod m) = siteMessage m"
| "stubMessage (CommunityMethod m) = communityMessage m"
| "stubMessage (PostMethod m) = postMessage m"
| "stubMessage (CommentMethod m) = commentMessage m"
| "stubMessage (MessageMethod m) = messageMessage m"
| "stubMessage (PersonMethod m) = personMessage m"

definition unsupported :: "env \<Rightarrow> client \<Rightarrow> stub \<Rightarrow> (exn + unit) \<times> client" where
  "unsupported E s m = (Inl (Error (stubMessage m)), s)"

subsection \<open>Operations answered with a constant\<close>

text \<open>
  The methods whose whole body returns a literal: \<^verbatim>\<open>{ success: true }\<close>, nothing,
  an empty list, or counts of zero. Their comments give the reason (``Bluesky doesn't
  track read status'', ``Bluesky doesn't have DMs'').
\<close>

datatype answer = Succeeded | Nothing | Empty | Zero

datatype constant_method =
    ListCommunities
  | MarkPostAsRead
  | HidePost
  | MarkCommentReplyAsRead
  | GetPrivateMessages
  | ListPrivateMessageReports
  | MarkPersonMentionAsRead
  | MarkAllAsRead
  | GetReportCount
  | GetUnreadRegistrationApplicationCount
  | ListRegistrationApplications

fun constantAnswer :: "constant_method \<Rightarrow> answer" where
  "constantAnswer ListCommunities = Empty"
| "constantAnswer MarkPostAsRead = Succeeded"
| "constantAnswer HidePost = Succeeded"
| "constantAnswer MarkCommentReplyAsRead = Nothing"
| "constantAnswer GetPrivateMessages = Empty"
| "constantAnswer ListPrivateMessageReports = Empty"
| "constantAnswer MarkPersonMentionAsRead = Nothing"
| "constantAnswer MarkAllAsRead = Empty"
| "constantAnswer GetReportCount = Zero"
| "constantAnswer GetUnreadRegistrationApplicationCount = Zero"
| "constantAnswer ListRegistrationApplications = Empty"

definition answered :: "env \<Rightarrow> client \<Rightarrow> constant_method \<Rightarrow> (exn + answer) \<times> client" where
  "answered E s m = (Inr (constantAnswer m), s)"

subsection \<open>Concrete environments\<close>

text \<open>
  Two posts, clients that have logged in (one with a cached comment, one with a cached
  post), and two agents: one that answers every call
  (its timeline holds the first post, which the viewer has liked), one that rejects every
  call. They instantiate the theorems below.
\<close>

definition post1 :: bsky_post where
  "post1 = \<lparr>p_uri = Some (ascii ''at://did:plc:abc/app.bsky.feed.post/3k2x''),
            p_cid = Some (ascii ''bafy1''),
            p_viewer_like = Some (ascii ''at://did:plc:me/app.bsky.feed.like/7'')\<rparr>"

definition post2 :: bsky_post where
  "post2 = \<lparr>p_uri = Some (ascii ''at://did:plc:abc/app.bsky.feed.post/3k2y''),
            p_cid = Some (ascii ''bafy2''),
            p_viewer_like = None\<rparr>"

definition ref2 :: reference where
  "ref2 = \<lparr>uri = ascii ''at://did:plc:abc/app.bsky.feed.post/3k2y'', cid = ascii ''bafy2'',
           likeUri = None\<rparr>"

definition ref2Liked :: reference where
  "ref2Liked = ref2\<lparr>likeUri := Some (ascii ''at://did:plc:me/app.bsky.feed.like/8'')\<rparr>"

definition me :: profile where
  "me = \<lparr>pr_handle = ascii ''me.bsky.social'', pr_did = ascii ''did:plc:me'',
          pr_displayName = Some (ascii ''Me''), pr_description = None,
          pr_avatar = None, pr_banner = None\<rparr>"

definition loggedIn :: client where
  "loggedIn = (newClient None None None)\<lparr>authenticated := True\<rparr>"

definition commenter :: client where
  "commenter = loggedIn\<lparr>commentCache := [5 \<mapsto> ref2]\<rparr>"

definition reader :: client where
  "reader = loggedIn\<lparr>postCache := [1623839 \<mapsto> ref2]\<rparr>"

definition online :: env where
  "online =
     \<lparr> JSON_parse = (\<lambda>blob. None),
       agent_session = (\<lambda>hist. True),
       agent_resumeSession = (\<lambda>hist session. None),
       agent_login = (\<lambda>hist ident pw. None),
       agent_getTimeline = (\<lambda>hist limit cursor. Inr \<lparr>fp_posts = [post1], fp_cursor = None\<rparr>),
       agent_getFeed = (\<lambda>hist feed limit cursor. Inr \<lparr>fp_posts = [post1, post2], fp_cursor = None\<rparr>),
       agent_like = (\<lambda>hist u c. Inr (ascii ''at://did:plc:me/app.bsky.feed.like/8'')),
       agent_deleteLike = (\<lambda>hist u. None),
       agent_deletePost = (\<lambda>hist u. None),
       agent_post = (\<lambda>hist content u c. Inr (ascii ''at://did:plc:me/app.bsky.feed.post/3k2z'')),
       agent_getPostThread = (\<lambda>hist u depth. Inr \<lparr>tr_success = True, tr_thread = NotFoundPost\<rparr>),
       agent_countUnreadNotifications = (\<lambda>hist. Inr (Some 3)),
       agent_listNotifications = (\<lambda>hist limit. Inr []),
       agent_createReport = (\<lambda>hist reason u c. None),
       agent_session_handle = (\<lambda>hist. ascii ''me.bsky.social''),
       agent_session_did = (\<lambda>hist. ascii ''did:plc:me''),
       agent_session_json = (\<lambda>hist. ascii ''full''),
       agent_searchPosts = (\<lambda>hist q limit. Inr [post1]),
       agent_searchActors = (\<lambda>hist q limit. Inr [ascii ''alice.bsky.social'']),
       agent_postRecord = (\<lambda>hist content e. Inr (ascii ''at://did:plc:me/app.bsky.feed.post/3k2z'')),
       agent_getProfile = (\<lambda>hist actor. Inr me),
       agent_getAuthorFeed = (\<lambda>hist actor limit. Inr [post1]),
       agent_blockCreate = (\<lambda>hist repo subject. None),
       agent_upsertProfile = (\<lambda>hist name description avatar banner. None),
       agent_uploadBlob = (\<lambda>hist b encoding. Inr (ascii ''bafkrei1'')),
       fetch = (\<lambda>hist u. Inr \<lparr>b_content = 1, b_type = []\<rparr>),
       URL_valid = (\<lambda>u. True),
       thrown_message = (\<lambda>e. None),
       thrown_string = (\<lambda>e. ''[object Object]'') \<rparr>"

definition offline :: env where
  "offline =
     \<lparr> JSON_parse = (\<lambda>blob. None),
       agent_session = (\<lambda>hist. True),
       agent_resumeSession = (\<lambda>hist session. Some (Rejected 503)),
       agent_login = (\<lambda>hist ident pw. Some (Rejected 503)),
       agent_getTimeline = (\<lambda>hist limit cursor. Inl (Rejected 503)),
       agent_getFeed = (\<lambda>hist feed limit cursor. Inl (Rejected 503)),
       agent_like = (\<lambda>hist u c. Inl (Rejected 503)),
       agent_deleteLike = (\<lambda>hist u. Some (Rejected 503)),
       agent_deletePost = (\<lambda>hist u. Some (Rejected 503)),
       agent_post = (\<lambda>hist content u c. Inl (Rejected 503)),
       agent_getPostThread = (\<lambda>hist u depth. Inl (Rejected 503)),
       agent_countUnreadNotifications = (\<lambda>hist. Inl (Rejected 503)),
       agent_listNotifications = (\<lambda>hist limit. Inl (Rejected 503)),
       agent_createReport = (\<lambda>hist reason u c. Some (Rejected 503)),
       agent_session_handle = (\<lambda>hist. ascii ''me.bsky.social''),
       agent_session_did = (\<lambda>hist. ascii ''did:plc:me''),
       agent_session_json = (\<lambda>hist. ascii ''full''),
       agent_searchPosts = (\<lambda>hist q limit. Inl (Rejected 503)),
       agent_searchActors = (\<lambda>hist q limit. Inl (Rejected 503)),
       agent_postRecord = (\<lambda>hist content e. Inl (Rejected 503)),
       agent_getProfile = (\<lambda>hist actor. Inl (Rejected 503)),
       agent_getAuthorFeed = (\<lambda>hist actor limit. Inl (Rejected 503)),
       agent_blockCreate = (\<lambda>hist repo subject. Some (Rejected 503)),
       agent_upsertProfile = (\<lambda>hist name description avatar banner. Some (Rejected 503)),
       agent_uploadBlob = (\<lambda>hist b encoding. Inl (Rejected 503)),
       fetch = (\<lambda>hist u. Inl (Rejected 503)),
       URL_valid = (\<lambda>u. True),
       thrown_message = (\<lambda>e. Some ''Service Unavailable''),
       thrown_string = (\<lambda>e. ''[object Object]'') \<rparr>"

text \<open>
  A stored session with the three fields, one without \<^verbatim>\<open>did\<close>, and an agent
  whose \<^verbatim>\<open>JSON.parse\<close> reads two blobs as these and nothing else as JSON.
\<close>

definition fullSession :: js_value where
  "fullSession = JObj [(accessJwt, JStr (ascii ''a.b.c'')), (refreshJwt, JStr (ascii ''d.e.f'')),
                       (did, JStr (ascii ''did:plc:me''))]"

definition partSession :: js_value where
  "partSession = JObj [(accessJwt, JStr (ascii ''a.b.c'')), (refreshJwt, JStr (ascii ''d.e.f''))]"

definition resuming :: env where
  "resuming = online\<lparr>JSON_parse :=
     (\<lambda>blob. if blob = ascii ''full'' then Some fullSession
             else if blob = ascii ''part'' then Some partSession
             else None)\<rparr>"

definition stranger :: client where
  "stranger = newClient None None (Some (ascii ''Bearer full''))"

text \<open>
  A client that has both caches filled for handle 5, and one that has only its credentials.
\<close>

definition member :: client where
  "member = loggedIn\<lparr>postCache := [5 \<mapsto> ref2Liked], commentCache := [5 \<mapsto> ref2Liked]\<rparr>"

definition newcomer :: client where
  "newcomer = newClient (Some (ascii ''alice'')) (Some (ascii ''app-password'')) None"

text \<open>
  A post the timeline shows without its cid, and an agent whose timeline holds only it.
\<close>

definition post3 :: bsky_post where
  "post3 = \<lparr>p_uri = Some (ascii ''at://did:plc:abc/app.bsky.feed.post/3k2z''),
            p_cid = None,
            p_viewer_like = None\<rparr>"

definition sparse :: env where
  "sparse = online\<lparr>agent_getTimeline :=
     (\<lambda>hist limit cursor. Inr \<lparr>fp_posts = [post3], fp_cursor = None\<rparr>)\<rparr>"

text \<open>
  Clients that hold the first post without a like marker, the third with one, and a post
  whose uri ends in \<^verbatim>\<open>Aa\<close>; an agent whose timeline holds a post whose uri ends in
  \<^verbatim>\<open>BB\<close>.
\<close>

definition ref1 :: reference where
  "ref1 = \<lparr>uri = ascii ''at://did:plc:abc/app.bsky.feed.post/3k2x'', cid = ascii ''bafy1'',
           likeUri = None\<rparr>"

definition liker :: client where
  "liker = loggedIn\<lparr>postCache := [1623838 \<mapsto> ref1]\<rparr>"

definition ref3Liked :: reference where
  "ref3Liked = \<lparr>uri = ascii ''at://did:plc:abc/app.bsky.feed.post/3k2z'', cid = ascii ''bafy3'',
                likeUri = Some (ascii ''at://did:plc:me/app.bsky.feed.like/9'')\<rparr>"

definition keeper :: client where
  "keeper = loggedIn\<lparr>postCache := [1623840 \<mapsto> ref3Liked]\<rparr>"

definition refAa :: reference where
  "refAa = \<lparr>uri = ascii ''at://did:plc:abc/app.bsky.feed.post/Aa'', cid = ascii ''bafyA'',
            likeUri = None\<rparr>"

definition postBB :: bsky_post where
  "postBB = \<lparr>p_uri = Some (ascii ''at://did:plc:xyz/app.bsky.feed.post/BB''),
             p_cid = Some (ascii ''bafyB''),
             p_viewer_like = None\<rparr>"

definition holder :: client where
  "holder = loggedIn\<lparr>postCache := [2112 \<mapsto> refAa]\<rparr>"

definition crowded :: env where
  "crowded = online\<lparr>agent_getTimeline :=
     (\<lambda>hist limit cursor. Inr \<lparr>fp_posts = [postBB], fp_cursor = None\<rparr>)\<rparr>"





text \<open>
  An agent that rejects every call but the profile read, the fetch of an image and the
  like; an agent that rejects the resumption of a stored session; and a client that comes
  back with a stored session and its credentials.
\<close>

definition halfway :: env where
  "halfway = offline\<lparr>agent_like := (\<lambda>hist u c. Inr (ascii ''at://did:plc:me/app.bsky.feed.like/8'')),
                      agent_getProfile := (\<lambda>hist actor. Inr me),
                      fetch := (\<lambda>hist u. Inr \<lparr>b_content = 1, b_type = []\<rparr>)\<rparr>"

definition expired :: env where
  "expired = resuming\<lparr>agent_resumeSession := (\<lambda>hist session. Some (Rejected 401))\<rparr>"

definition returning :: client where
  "returning = newClient (Some (ascii ''alice'')) (Some (ascii ''app-password''))
                 (Some (ascii ''Bearer full''))"

text \<open>The calls of the authentication step.\<close>

definition isAuthCall :: "call \<Rightarrow> bool" where
  "isAuthCall c = (case c of ResumeSession v \<Rightarrow> True | Login i p \<Rightarrow> True | _ \<Rightarrow> False)"

text \<open>The references the timelines of these agents hold for the first post and for that one.\<close>

definition ref1Liked :: reference where
  "ref1Liked = ref1\<lparr>likeUri := Some (ascii ''at://did:plc:me/app.bsky.feed.like/7'')\<rparr>"

definition refBB :: reference where
  "refBB = \<lparr>uri = ascii ''at://did:plc:xyz/app.bsky.feed.post/BB'', cid = ascii ''bafyB'',
            likeUri = None\<rparr>"

definition ref3 :: reference where
  "ref3 = ref3Liked\<lparr>likeUri := None\<rparr>"

text \<open>The calls of the refresh that ends \<^verbatim>\<open>likePost\<close>.\<close>

definition isRefreshCall :: "call \<Rightarrow> bool" where
  "isRefreshCall c = (isAuthCall c \<or> c = GetTimeline 50 None)"

text \<open>An agent whose like call returns an empty uri.\<close>

definition blank :: env where
  "blank = online\<lparr>agent_like := (\<lambda>hist u c. Inr [])\<rparr>"

text \<open>The like calls among the calls made.\<close>

definition likeCalls :: "call list \<Rightarrow> call list" where
  "likeCalls hist = filter (\<lambda>c. case c of Like u i \<Rightarrow> True | _ \<Rightarrow> False) hist"

section \<open>Properties\<close>

subsection \<open>The handle derivation\<close>

lemma toInt32_range: "- (2 ^ 31) \<le> toInt32 x \<and> toInt32 x < 2 ^ 31"
proof -
  have "0 \<le> (x + 2147483648) mod (4294967296 :: int)"
    and "(x + 2147483648) mod (4294967296 :: int) < 4294967296"
    by simp_all
  then show ?thesis unfolding toInt32_def by simp
qed

lemma toInt32_mod: "toInt32 a mod 2 ^ 32 = a mod 2 ^ 32"
  unfolding toInt32_def by (simp add: mod_simps)

lemma toInt32_cong: "a mod 2 ^ 32 = b mod 2 ^ 32 \<Longrightarrow> toInt32 a = toInt32 b"
  unfolding toInt32_def by (metis mod_add_left_eq)

lemma hashStep_range: "- (2 ^ 31) \<le> hashStep acc ch \<and> hashStep acc ch < 2 ^ 31"
  unfolding hashStep_def by (rule toInt32_range)

lemma mod_sub_add_left: "(x mod M - a + c) mod M = (x - a + c) mod (M::int)"
  by (metis mod_add_left_eq mod_diff_left_eq)

lemma hashStep_times_31:
  "hashStep acc ch = toInt32 (31 * acc + uint ch)"
proof -
  let ?M = "2 ^ 32 :: int"
  let ?s = "toInt32 (toInt32 acc * 2 ^ 5)"
  have e1: "?s mod ?M = (acc * 2 ^ 5) mod ?M"
    by (metis toInt32_mod mod_mult_left_eq)
  have "(?s - acc + uint ch) mod ?M = (?s mod ?M - acc + uint ch) mod ?M"
    by (rule mod_sub_add_left [symmetric])
  also have "\<dots> = (acc * 2 ^ 5 - acc + uint ch) mod ?M"
    unfolding e1 by (rule mod_sub_add_left)
  also have "acc * 2 ^ 5 - acc + uint ch = 31 * acc + uint ch"
    by simp
  finally show ?thesis
    unfolding hashStep_def shl5_def charCodeAt0_def by (rule toInt32_cong)
qed

lemma foldl_hashStep_range:
  "- (2 ^ 31) \<le> acc \<Longrightarrow> acc < 2 ^ 31 \<Longrightarrow>
   - (2 ^ 31) \<le> foldl hashStep acc cs \<and> foldl hashStep acc cs < 2 ^ 31"
proof (induction cs arbitrary: acc)
  case Nil
  then show ?case by simp
next
  case (Cons c cs)
  show ?case using Cons.IH [of "hashStep acc c"] hashStep_range [of acc c] by simp
qed

lemma hashOr_range:
  assumes "0 \<le> dflt" "dflt \<le> 2 ^ 31"
  shows "0 \<le> hashOr dflt rkey \<and> hashOr dflt rkey \<le> 2 ^ 31"
proof (cases "truthy rkey")
  case True
  have "- (2 ^ 31) \<le> foldl hashStep 0 (the rkey) \<and> foldl hashStep 0 (the rkey) < 2 ^ 31"
    by (rule foldl_hashStep_range) simp_all
  then show ?thesis using True unfolding hashOr_def by (simp add: abs_le_iff)
next
  case False
  then show ?thesis using assms unfolding hashOr_def by simp
qed

lemma mapPostToPostView_id: "pv_id (fst (mapPostToPostView s post)) = deriveHandle (p_uri post)"
  by (simp add: mapPostToPostView_def deriveHandle_def Let_def)

text \<open>
  The example uri of the specification has the handle 1623838.
\<close>

lemma deriveHandle_example:
  "deriveHandle (Some (ascii ''at://did:plc:abc/app.bsky.feed.post/3k2x'')) = 1623838"
  by (simp add: deriveHandle_def hashOr_def rkeyOf_def truthy_def pop_def ascii_def slash_def
        hashStep_def shl5_def toInt32_def charCodeAt0_def)

text \<open>
  C3, as stated, fails: the handle is not always a 32-bit signed integer. For the last
  segment \<^verbatim>\<open>GydZG_\<close> the truncated accumulator ends at \<open>-2^31\<close>, and
  \<^verbatim>\<open>Math.abs\<close>, which works on doubles, answers \<open>2^31 = 2147483648\<close>, one above
  the largest 32-bit signed integer.
\<close>

theorem deriveHandle_int32_counterexample:
  "deriveHandle (Some (ascii ''at://did:plc:abc/app.bsky.feed.post/GydZG_'')) = 2147483648
   \<and> \<not> deriveHandle (Some (ascii ''at://did:plc:abc/app.bsky.feed.post/GydZG_'')) \<le> 2147483647"
  by (simp add: deriveHandle_def hashOr_def rkeyOf_def truthy_def pop_def ascii_def slash_def
        hashStep_def shl5_def toInt32_def charCodeAt0_def)

text \<open>
  C3, amended: the handle derivation is a function of the uri alone (the handle
  \<^verbatim>\<open>#mapPostToPostView\<close> assigns is \<open>deriveHandle\<close> of the post's uri, whatever
  the client's state), and its result is an integer from 0 to \<open>2^31\<close> inclusive: never
  negative, and within 32 bits as an unsigned number.
\<close>

theorem deriveHandle_range:
  "0 \<le> deriveHandle u \<and> deriveHandle u \<le> 2 ^ 31 \<and> deriveHandle u < 2 ^ 32 \<and>
   pv_id (fst (mapPostToPostView s post)) = deriveHandle (p_uri post)"
  using hashOr_range [of 0 "rkeyOf u"] by (simp add: deriveHandle_def mapPostToPostView_id)

subsection \<open>The authentication step and the concrete agents\<close>

lemma ensureAuth_caches:
  "postCache (snd (ensureAuth E s)) = postCache s \<and> commentCache (snd (ensureAuth E s)) = commentCache s"
  by (auto simp: ensureAuth_def restoreSession_def logCall_def Let_def
           split: option.splits sum.splits bool.splits prod.splits if_splits)

lemma ensureAuth_authenticated:
  "authenticated s \<Longrightarrow> agent_session E (calls s) \<Longrightarrow> ensureAuth E s = (Inr (), s)"
  by (simp add: ensureAuth_def)

lemma after_auth:
  "ensureAuth E s = (res, s1) \<Longrightarrow> postCache s1 = postCache s \<and> commentCache s1 = commentCache s"
  using ensureAuth_caches [of E s] by simp

lemma restoreSession_calls:
  "calls (snd (restoreSession E s blob)) = calls s
   \<or> (\<exists>v. calls (snd (restoreSession E s blob)) = calls s @ [ResumeSession v])"
  by (simp add: restoreSession_def logCall_def split: option.splits sum.splits bool.splits)

lemma likeCalls_snoc:
  "likeCalls (hist @ [ResumeSession v]) = likeCalls hist"
  "likeCalls (hist @ [Login i p]) = likeCalls hist"
  "likeCalls (hist @ [GetTimeline n cur]) = likeCalls hist"
  by (simp_all add: likeCalls_def)

lemma restoreSession_likeCalls:
  "likeCalls (calls (snd (restoreSession E s blob))) = likeCalls (calls s)"
  using restoreSession_calls [of E s blob] by (auto simp: likeCalls_snoc)

lemma ensureAuth_likeCalls: "likeCalls (calls (snd (ensureAuth E s))) = likeCalls (calls s)"
proof -
  define rs where "rs = (if truthy (sessionData s) \<and> \<not> authenticated s
               then restoreSession E s (the (sessionData s)) else (False, s))"
  have 1: "likeCalls (calls (snd rs)) = likeCalls (calls s)"
    by (simp add: rs_def restoreSession_likeCalls)
  have "likeCalls (calls (snd (ensureAuth E s))) = likeCalls (calls (snd rs))
        \<or> likeCalls (calls (snd (ensureAuth E s))) = likeCalls (calls s)"
    unfolding ensureAuth_def rs_def [symmetric]
    by (cases rs) (simp add: logCall_def likeCalls_snoc split: option.splits)
  with 1 show ?thesis by auto
qed

lemma ensureAuth_calls:
  "\<exists>extra. calls (snd (ensureAuth E s)) = calls s @ extra \<and> list_all isAuthCall extra"
proof -
  define rs where "rs = (if truthy (sessionData s) \<and> \<not> authenticated s
               then restoreSession E s (the (sessionData s)) else (False, s))"
  have "calls (snd rs) = calls s \<or> (\<exists>v. calls (snd rs) = calls s @ [ResumeSession v])"
    using restoreSession_calls [of E s "the (sessionData s)"] by (simp add: rs_def)
  then obtain pre where 1: "calls (snd rs) = calls s @ pre" and 2: "list_all isAuthCall pre"
    by (auto simp: isAuthCall_def)
  have "calls (snd (ensureAuth E s)) = calls s
        \<or> calls (snd (ensureAuth E s)) = calls (snd rs)
        \<or> (\<exists>i p. calls (snd (ensureAuth E s)) = calls (snd rs) @ [Login i p])"
    unfolding ensureAuth_def rs_def [symmetric]
    by (cases rs) (simp add: logCall_def split: option.splits)
  then consider "calls (snd (ensureAuth E s)) = calls s @ []"
    | "calls (snd (ensureAuth E s)) = calls s @ pre"
    | i p where "calls (snd (ensureAuth E s)) = calls s @ (pre @ [Login i p])"
    using 1 by auto
  then show ?thesis
  proof cases
    case 1
    then show ?thesis by (intro exI [of _ "[]"]) simp
  next
    case 2
    with \<open>list_all isAuthCall pre\<close> show ?thesis by blast
  next
    case 3
    moreover have "list_all isAuthCall (pre @ [Login i p])"
      using \<open>list_all isAuthCall pre\<close> by (simp add: isAuthCall_def)
    ultimately show ?thesis by blast
  qed
qed

lemma online_simps:
  "agent_session online hist" "agent_like online hist u c = Inr (ascii ''at://did:plc:me/app.bsky.feed.like/8'')"
  "agent_deleteLike online hist u = None" "agent_deletePost online hist u = None"
  "agent_getTimeline online hist n cur = Inr \<lparr>fp_posts = [post1], fp_cursor = None\<rparr>"
  "agent_login online hist i p = None"
  "agent_countUnreadNotifications online hist = Inr (Some 3)"
  by (simp_all add: online_def)

lemma offline_simps:
  "agent_session offline hist" "agent_like offline hist u c = Inl (Rejected 503)"
  "agent_deleteLike offline hist u = Some (Rejected 503)" "agent_deletePost offline hist u = Some (Rejected 503)"
  "agent_getTimeline offline hist n cur = Inl (Rejected 503)"
  "agent_getFeed offline hist f n cur = Inl (Rejected 503)"
  "agent_createReport offline hist reason u c = Some (Rejected 503)"
  "agent_login offline hist i p = Some (Rejected 503)"
  "agent_post offline hist t u c = Inl (Rejected 503)"
  "agent_getPostThread offline hist u d = Inl (Rejected 503)"
  "agent_listNotifications offline hist n = Inl (Rejected 503)"
  "agent_countUnreadNotifications offline hist = Inl (Rejected 503)"
  by (simp_all add: offline_def)

lemma loggedIn_simps:
  "authenticated loggedIn" "calls loggedIn = []" "postCache loggedIn = Map.empty"
  "commentCache loggedIn = Map.empty"
  by (simp_all add: loggedIn_def newClient_def)

lemma post1_simps:
  "truthy (p_uri post1)" "truthy (p_cid post1)" "truthy (p_viewer_like post1)"
  by (simp_all add: post1_def truthy_def ascii_def)

lemma offline_loggedIn: "ensureAuth offline loggedIn = (Inr (), loggedIn)"
  by (simp add: ensureAuth_authenticated loggedIn_simps offline_simps)

lemma newcomer_simps:
  "\<not> authenticated newcomer" "calls newcomer = []" "sessionData newcomer = None"
  "opt_identifier newcomer = Some (ascii ''alice'')"
  "opt_password newcomer = Some (ascii ''app-password'')"
  by (simp_all add: newcomer_def newClient_def truthy_def)

lemma ensureAuth_newcomer:
  "ensureAuth online newcomer
   = (Inr (), newcomer\<lparr>calls := [Login (ascii ''alice'') (ascii ''app-password'')],
                       authenticated := True\<rparr>)"
  by (simp add: ensureAuth_def newcomer_simps online_simps truthy_def ascii_def logCall_def)

lemma ensureAuth_newcomer_offline:
  "ensureAuth offline newcomer
   = (Inl (Rejected 503), newcomer\<lparr>calls := [Login (ascii ''alice'') (ascii ''app-password'')]\<rparr>)"
  by (simp add: ensureAuth_def newcomer_simps offline_simps truthy_def ascii_def logCall_def)

lemma member_simps:
  "authenticated member" "calls member = []" "postCache member 5 = Some ref2Liked"
  "commentCache member 5 = Some ref2Liked" "truthy (likeUri ref2Liked)"
  by (simp_all add: member_def loggedIn_simps ref2Liked_def truthy_def ascii_def)

lemma offline_member: "ensureAuth offline member = (Inr (), member)"
  by (simp add: ensureAuth_authenticated member_simps offline_simps)

lemmas eval_handle = deriveHandle_def hashOr_def rkeyOf_def truthy_def pop_def ascii_def slash_def
        hashStep_def shl5_def toInt32_def charCodeAt0_def

lemma handle_post1: "deriveHandle (p_uri post1) = 1623838"
  by (simp add: post1_def eval_handle)

lemma handle_post2: "deriveHandle (p_uri post2) = 1623839"
  by (simp add: post2_def eval_handle)

lemma online_loggedIn: "ensureAuth online loggedIn = (Inr (), loggedIn)"
  by (simp add: ensureAuth_authenticated loggedIn_simps online_simps)

lemma sparse_simps:
  "agent_session sparse hist"
  "agent_getTimeline sparse hist n cur = Inr \<lparr>fp_posts = [post3], fp_cursor = None\<rparr>"
  "agent_deleteLike sparse hist u = None"
  by (simp_all add: sparse_def online_def)

lemma sparse_loggedIn: "ensureAuth sparse loggedIn = (Inr (), loggedIn)"
  by (simp add: ensureAuth_authenticated loggedIn_simps sparse_simps)

lemma handle_post3: "deriveHandle (p_uri post3) = 1623840"
  by (simp add: post3_def eval_handle)

lemma post3_simps: "truthy (p_uri post3)" "\<not> truthy (p_cid post3)"
  by (simp_all add: post3_def truthy_def ascii_def)

subsection \<open>The caches\<close>

lemma mapPostToPostView_cache:
  "postCache (snd (mapPostToPostView s post)) =
     (if truthy (p_uri post) \<and> truthy (p_cid post)
      then (postCache s)(deriveHandle (p_uri post) \<mapsto>
             \<lparr>uri = the (p_uri post), cid = the (p_cid post), likeUri = p_viewer_like post\<rparr>)
      else postCache s)"
  by (simp add: mapPostToPostView_def deriveHandle_def Let_def)

lemma mapPosts_other:
  "\<forall>q \<in> set ps. deriveHandle (p_uri q) \<noteq> h \<Longrightarrow> postCache (snd (mapPosts s ps)) h = postCache s h"
proof (induction ps arbitrary: s)
  case Nil
  then show ?case by simp
next
  case (Cons p ps)
  have "postCache (snd (mapPosts (snd (mapPostToPostView s p)) ps)) h
        = postCache (snd (mapPostToPostView s p)) h"
    using Cons by simp
  also have "\<dots> = postCache s h"
    using Cons.prems by (simp add: mapPostToPostView_cache)
  finally show ?case by (simp add: split_beta)
qed

text \<open>
  The derivation is not injective: two uris whose last segments are \<^verbatim>\<open>Aa\<close> and
  \<^verbatim>\<open>BB\<close> share the handle 2112, so the later of the two overwrites the earlier.
\<close>

lemma deriveHandle_collision:
  "deriveHandle (Some (ascii ''at://did:plc:abc/app.bsky.feed.post/Aa'')) = 2112
   \<and> deriveHandle (Some (ascii ''at://did:plc:abc/app.bsky.feed.post/BB'')) = 2112"
  by (simp add: eval_handle)

lemma cacheReply_other: "k \<noteq> replyId i post \<Longrightarrow> cacheReply c i post k = c k"
  by (simp add: cacheReply_def)


lemma replyView_id: "cv_id (replyView i path post) = replyId i post"
  by (simp add: replyView_def)

lemma walk_frame:
  "(k \<notin> cv_id ` set (fst (mapThreadToComments c t path))
      \<longrightarrow> snd (mapThreadToComments c t path) k = c k)"
  "(k \<notin> cv_id ` set (fst (mapReplies c ts i path'))
      \<longrightarrow> snd (mapReplies c ts i path') k = c k)"
proof (induction c t path and c ts i path' rule: mapThreadToComments_mapReplies.induct)
  case (11 c post r rs rest i path)
  let ?c2 = "snd (mapReplies (cacheReply c i post) (r # rs) 0 (path @ [replyId i post]))"
  have ih2: "k \<notin> cv_id ` set (fst (mapReplies ?c2 rest (i + 1) path)) \<longrightarrow>
             snd (mapReplies ?c2 rest (i + 1) path) k = ?c2 k"
    by (rule "11.IH"(2) [of "fst (mapReplies (cacheReply c i post) (r # rs) 0 (path @ [replyId i post]))"])
       simp
  from "11.IH"(1) ih2 show ?case
    by (simp add: split_beta cacheReply_other replyView_id image_Un)
qed (simp_all add: split_beta cacheReply_other replyView_id image_Un)


lemma mapThreadToComments_frame:
  "k \<notin> cv_id ` set (fst (mapThreadToComments c t path))
   \<Longrightarrow> snd (mapThreadToComments c t path) k = c k"
  using walk_frame(1) by blast






















lemma deletePost_success:
  assumes "deletePost E s h = (Inr v, s')"
  shows "postCache s' h = None"
  using assms
  by (auto simp: deletePost_def resolve_def logCall_def split: prod.splits sum.splits option.splits)

lemma newClient_caches: "postCache (newClient i pw a) = Map.empty \<and> commentCache (newClient i pw a) = Map.empty"
  by (simp add: newClient_def)

lemma deletePost_example:
  "deletePost online (snd (mapPostToPostView loggedIn post1)) 1623838
   = (Inr \<lparr>pv_id = 1623838, pv_my_vote = None, pv_deleted = True\<rparr>,
      loggedIn\<lparr>calls := [DeletePost (ascii ''at://did:plc:abc/app.bsky.feed.post/3k2x'')]\<rparr>)"
  by (simp add: deletePost_def ensureAuth_def mapPostToPostView_def loggedIn_def newClient_def
        online_def resolve_def logCall_def handle_post1 [unfolded deriveHandle_def] Let_def)
     (simp add: post1_def truthy_def ascii_def)

text \<open>
  C5: after a successful \<^verbatim>\<open>deletePost\<close>, which removes the handle's cache entry,
  resolving the handle fails with the not-found error, also after further posts were
  observed, provided none of them has that handle; and in a new client, a handle that no
  observed post has does not resolve either.
\<close>

theorem resolve_absent:
  "(deletePost E s h = (Inr v, s') \<and> (\<forall>q \<in> set later. deriveHandle (p_uri q) \<noteq> h)
      \<longrightarrow> resolve (postCache (snd (mapPosts s' later))) h msg = Inl (Error msg))
   \<and> ((\<forall>q \<in> set seen. deriveHandle (p_uri q) \<noteq> h)
      \<longrightarrow> resolve (postCache (snd (mapPosts (newClient ident pw auth) seen))) h msg = Inl (Error msg))"
  by (auto simp: resolve_def mapPosts_other newClient_caches dest: deletePost_success)

theorem resolve_absent_witness:
  "deletePost online (snd (mapPostToPostView loggedIn post1)) 1623838
     = (Inr \<lparr>pv_id = 1623838, pv_my_vote = None, pv_deleted = True\<rparr>,
        loggedIn\<lparr>calls := [DeletePost (ascii ''at://did:plc:abc/app.bsky.feed.post/3k2x'')]\<rparr>)
   \<and> deriveHandle (p_uri post2) \<noteq> 1623838
   \<and> resolve (postCache (snd (mapPosts
         (loggedIn\<lparr>calls := [DeletePost (ascii ''at://did:plc:abc/app.bsky.feed.post/3k2x'')]\<rparr>)
         [post2]))) 1623838 postNotCached = Inl (Error postNotCached)
   \<and> resolve (postCache (snd (mapPosts (newClient None None None) [post2]))) 1623838 postNotCached
       = Inl (Error postNotCached)"
proof -
  have d: "\<forall>q \<in> set [post2]. deriveHandle (p_uri q) \<noteq> 1623838"
    by (simp add: handle_post2)
  from resolve_absent [of online "snd (mapPostToPostView loggedIn post1)" 1623838
      "\<lparr>pv_id = 1623838, pv_my_vote = None, pv_deleted = True\<rparr>"
      "loggedIn\<lparr>calls := [DeletePost (ascii ''at://did:plc:abc/app.bsky.feed.post/3k2x'')]\<rparr>"
      "[post2]" postNotCached "[post2]" None None None]
    deletePost_example d
  show ?thesis by simp
qed

subsection \<open>The like marker\<close>

lemma applyScore_like:
  assumes "applyScore E hist c h r 1 = (Inr r1, c1, hist1)"
  shows "c1 = c(h \<mapsto> r1) \<and> uri r1 = uri r \<and> cid r1 = cid r \<and> likeUri r1 \<noteq> None
         \<and> hist1 = hist @ [Like (uri r) (cid r)]"
  using assms by (auto simp: applyScore_def split: sum.splits)

lemma applyScore_unlike:
  assumes "applyScore E hist c h r (- 1) = (Inr r2, c2, hist2)" and "truthy (likeUri r)"
  shows "c2 = c(h \<mapsto> r2) \<and> r2 = r\<lparr>likeUri := None\<rparr>
         \<and> hist2 = hist @ [DeleteLike (the (likeUri r))]"
  using assms by (auto simp: applyScore_def split: option.splits)

lemma applyScore_unlike_unmarked:
  "\<not> truthy (likeUri r) \<Longrightarrow> applyScore E hist c h r (- 1) = (Inr r, c, hist)"
  by (simp add: applyScore_def)

lemma likeComment_success:
  assumes "likeComment E s h sc = (Inr v, s')" and "commentCache s h = Some r"
  shows "\<exists>r'. applyScore E (calls (snd (ensureAuth E s))) (commentCache s) h r sc
               = (Inr r', commentCache s', calls s')"
proof -
  obtain res sa where ea: "ensureAuth E s = (res, sa)" by (cases "ensureAuth E s")
  have cc: "commentCache sa = commentCache s"
    using ensureAuth_caches [of E s] ea by simp
  show ?thesis
    using assms ea cc
    by (auto simp: likeComment_def resolve_def split: sum.splits prod.splits)
qed

lemma like_then_unlike_step:
  assumes "applyScore E hist c h r 1 = (Inr r1, c1, hist1)"
    and "truthy (likeUri r1)"
    and "applyScore E hist' c1 h r1 (- 1) = (Inr r2, c2, hist2)"
  shows "map_option uri (c1 h) = Some (uri r) \<and> map_option cid (c1 h) = Some (cid r)
         \<and> map_option likeUri (c1 h) = Some (likeUri r1)
         \<and> map_option uri (c2 h) = Some (uri r) \<and> map_option cid (c2 h) = Some (cid r)
         \<and> map_option likeUri (c2 h) = Some None"
  using applyScore_like [OF assms(1)] applyScore_unlike [OF assms(3) assms(2)] by simp

lemma applyScore_like_example:
  "applyScore online [] [5 \<mapsto> ref2] 5 ref2 1
   = (Inr ref2Liked, [5 \<mapsto> ref2Liked], [Like (uri ref2) (cid ref2)])"
  by (simp add: applyScore_def online_simps ref2Liked_def)

lemma applyScore_unlike_example:
  "applyScore online [Like (uri ref2) (cid ref2)] [5 \<mapsto> ref2Liked] 5 ref2Liked (- 1)
   = (Inr ref2, [5 \<mapsto> ref2],
      [Like (uri ref2) (cid ref2), DeleteLike (ascii ''at://did:plc:me/app.bsky.feed.like/8'')])"
  by (simp add: applyScore_def online_simps ref2Liked_def ref2_def truthy_def ascii_def)

lemma likeComment_like_example:
  "likeComment online commenter 5 1
   = (Inr \<lparr>cv_id = 5, cv_post_id = 0, cv_path = [0], cv_my_vote = Some 1\<rparr>,
      commenter\<lparr>commentCache := [5 \<mapsto> ref2Liked], calls := [Like (uri ref2) (cid ref2)]\<rparr>)"
  by (simp add: likeComment_def ensureAuth_def online_simps commenter_def loggedIn_def newClient_def
        resolve_def applyScore_def ref2Liked_def myVote_def truthy_def ascii_def)

lemma likeComment_unlike_example:
  "likeComment online
     (commenter\<lparr>commentCache := [5 \<mapsto> ref2Liked], calls := [Like (uri ref2) (cid ref2)]\<rparr>) 5 (- 1)
   = (Inr \<lparr>cv_id = 5, cv_post_id = 0, cv_path = [0], cv_my_vote = None\<rparr>,
      commenter\<lparr>commentCache := [5 \<mapsto> ref2],
                calls := [Like (uri ref2) (cid ref2),
                          DeleteLike (ascii ''at://did:plc:me/app.bsky.feed.like/8'')]\<rparr>)"
  by (simp add: likeComment_def ensureAuth_def online_simps commenter_def loggedIn_def newClient_def
        resolve_def applyScore_def ref2Liked_def ref2_def myVote_def truthy_def ascii_def)

lemma applyScore_unlike_twice:
  assumes "applyScore E hist c h r (- 1) = (Inr r', c', hist')"
  shows "applyScore E hist' c' h r' (- 1) = (Inr r', c', hist')"
proof (cases "truthy (likeUri r)")
  case True
  from applyScore_unlike [OF assms True] have "\<not> truthy (likeUri r')"
    by (simp add: truthy_def)
  then show ?thesis by (rule applyScore_unlike_unmarked)
next
  case False
  with assms have "r' = r" "c' = c" "hist' = hist"
    by (simp_all add: applyScore_unlike_unmarked)
  with False show ?thesis by (simp add: applyScore_unlike_unmarked)
qed

lemma likeComment_unlike_unmarked:
  assumes "ensureAuth E s = (Inr (), s1)" and "commentCache s h = Some r"
    and "\<not> truthy (likeUri r)"
  shows "likeComment E s h (- 1)
         = (Inr \<lparr>cv_id = h, cv_post_id = 0, cv_path = [0], cv_my_vote = None\<rparr>, s1)"
proof -
  have "commentCache s1 h = Some r"
    using ensureAuth_caches [of E s] assms(1,2) by simp
  then show ?thesis
    using assms(1,3)
    by (simp add: likeComment_def resolve_def applyScore_unlike_unmarked myVote_def)
qed

lemma likePost_unlike_unmarked:
  assumes "ensureAuth E s = (Inr (), s1)" and "postCache s h = Some r"
    and "\<not> truthy (likeUri r)"
  shows "likePost E s h (- 1) = getPost E s1 h"
proof -
  have "postCache s1 h = Some r"
    using ensureAuth_caches [of E s] assms(1,2) by simp
  then show ?thesis
    using assms(1,3) by (simp add: likePost_def applyScore_unlike_unmarked)
qed

lemma applyScore_unmarked_example:
  "applyScore online [] [5 \<mapsto> ref2] 5 ref2 (- 1) = (Inr ref2, [5 \<mapsto> ref2], [])"
  by (simp add: applyScore_def ref2_def truthy_def)

lemma find_handle:
  "find (\<lambda>p. deriveHandle (p_uri p) = h) ps = Some p \<Longrightarrow> deriveHandle (p_uri p) = h"
  by (auto simp: find_Some_iff)

lemma getPost_success:
  assumes "getPost E s h = (Inr v, s')"
  shows "\<exists>sa feed p. ensureAuth E s = (Inr (), sa)
           \<and> agent_getTimeline E (calls sa) 50 None = Inr feed
           \<and> find (\<lambda>p. deriveHandle (p_uri p) = h) (fp_posts feed) = Some p
           \<and> postCache s' = (if truthy (p_uri p) \<and> truthy (p_cid p)
                              then (postCache s)(h \<mapsto> \<lparr>uri = the (p_uri p), cid = the (p_cid p),
                                                         likeUri = p_viewer_like p\<rparr>)
                              else postCache s)"
proof -
  obtain res sa where ea: "ensureAuth E s = (res, sa)" by (cases "ensureAuth E s")
  with assms obtain u where res: "res = Inr u" by (cases res) (auto simp: getPost_def)
  have pc: "postCache sa = postCache s" using after_auth [OF ea] by simp
  from assms ea res obtain feed where t: "agent_getTimeline E (calls sa) 50 None = Inr feed"
    by (cases "agent_getTimeline E (calls sa) 50 None") (auto simp: getPost_def)
  from assms ea res t obtain p where
    f: "find (\<lambda>p. deriveHandle (p_uri p) = h) (fp_posts feed) = Some p"
    by (cases "find (\<lambda>p. deriveHandle (p_uri p) = h) (fp_posts feed)") (auto simp: getPost_def)
  from assms ea res t f
  have "s' = snd (mapPostToPostView (logCall (GetTimeline 50 None) sa) p)"
    by (auto simp: getPost_def split: prod.splits)
  then have "postCache s' = (if truthy (p_uri p) \<and> truthy (p_cid p)
                              then (postCache s)(h \<mapsto> \<lparr>uri = the (p_uri p), cid = the (p_cid p),
                                                         likeUri = p_viewer_like p\<rparr>)
                              else postCache s)"
    using find_handle [OF f] pc by (simp add: mapPostToPostView_cache logCall_def)
  with ea res t f show ?thesis by auto
qed

lemma getPost_calls_shape:
  "\<exists>extra. calls (snd (getPost E s h)) = calls s @ extra \<and> list_all isRefreshCall extra"
proof -
  obtain res sa where ea: "ensureAuth E s = (res, sa)" by (cases "ensureAuth E s")
  obtain pre where p: "calls sa = calls s @ pre" "list_all isAuthCall pre"
    using ensureAuth_calls [of E s] ea by auto
  then have q: "list_all isRefreshCall pre" "list_all isRefreshCall (pre @ [GetTimeline 50 None])"
    by (auto simp: isRefreshCall_def list_all_iff)
  have "calls (snd (getPost E s h)) = calls s @ pre
        \<or> calls (snd (getPost E s h)) = calls s @ (pre @ [GetTimeline 50 None])"
    using ea p(1)
    by (cases res)
       (auto simp: getPost_def logCall_def mapPostToPostView_def Let_def
             split: sum.splits option.splits)
  with q show ?thesis by blast
qed

lemma likeComment_unmarked_state:
  assumes "commentCache s h = Some r" and "\<not> truthy (likeUri r)"
  shows "snd (likeComment E s h (- 1)) = snd (ensureAuth E s)"
    and "fst (ensureAuth E s) = Inr () \<Longrightarrow>
         fst (likeComment E s h (- 1))
         = Inr \<lparr>cv_id = h, cv_post_id = 0, cv_path = [0], cv_my_vote = None\<rparr>"
proof -
  obtain res s1 where ea: "ensureAuth E s = (res, s1)" by (cases "ensureAuth E s")
  show "snd (likeComment E s h (- 1)) = snd (ensureAuth E s)"
  proof (cases res)
    case (Inl e)
    with ea show ?thesis by (simp add: likeComment_def)
  next
    case (Inr u)
    with ea likeComment_unlike_unmarked [of E s s1 h r] assms show ?thesis by simp
  qed
  show "fst (likeComment E s h (- 1))
         = Inr \<lparr>cv_id = h, cv_post_id = 0, cv_path = [0], cv_my_vote = None\<rparr>"
    if "fst (ensureAuth E s) = Inr ()"
    using that ea likeComment_unlike_unmarked [of E s s1 h r] assms by simp
qed

lemma likePost_unmarked_calls:
  assumes "postCache s h = Some r" and "\<not> truthy (likeUri r)"
  shows "\<exists>extra. calls (snd (likePost E s h (- 1))) = calls s @ extra
                 \<and> list_all isRefreshCall extra"
proof -
  obtain res s1 where ea: "ensureAuth E s = (res, s1)" by (cases "ensureAuth E s")
  obtain pre where p: "calls s1 = calls s @ pre" "list_all isAuthCall pre"
    using ensureAuth_calls [of E s] ea by auto
  then have q: "list_all isRefreshCall pre"
    by (auto simp: isRefreshCall_def list_all_iff)
  show ?thesis
  proof (cases res)
    case (Inl e)
    with ea have "calls (snd (likePost E s h (- 1))) = calls s @ pre"
      using p by (simp add: likePost_def)
    with q show ?thesis by blast
  next
    case (Inr u)
    with ea assms have "likePost E s h (- 1) = getPost E s1 h"
      using likePost_unlike_unmarked [of E s s1 h r] by simp
    moreover obtain post where "calls (snd (getPost E s1 h)) = calls s1 @ post"
      "list_all isRefreshCall post"
      using getPost_calls_shape [of E s1 h] by auto
    ultimately have "calls (snd (likePost E s h (- 1))) = calls s @ (pre @ post)"
      "list_all isRefreshCall (pre @ post)"
      using p q by simp_all
    then show ?thesis by blast
  qed
qed

lemma likePost_unmarked_entry:
  assumes "postCache s h = Some r" and "\<not> truthy (likeUri r)"
    and "likePost E s h (- 1) = (Inr v, s')"
  shows "\<exists>s1 sa feed p. ensureAuth E s = (Inr (), s1) \<and> ensureAuth E s1 = (Inr (), sa)
           \<and> agent_getTimeline E (calls sa) 50 None = Inr feed
           \<and> find (\<lambda>p. deriveHandle (p_uri p) = h) (fp_posts feed) = Some p
           \<and> postCache s' = (if truthy (p_uri p) \<and> truthy (p_cid p)
                              then (postCache s)(h \<mapsto> \<lparr>uri = the (p_uri p), cid = the (p_cid p),
                                                         likeUri = p_viewer_like p\<rparr>)
                              else postCache s)"
proof -
  obtain res s1 where ea: "ensureAuth E s = (res, s1)" by (cases "ensureAuth E s")
  with assms(3) obtain u where "res = Inr u" by (cases res) (auto simp: likePost_def)
  then have ea': "ensureAuth E s = (Inr (), s1)" using ea by simp
  with assms have g: "getPost E s1 h = (Inr v, s')"
    using likePost_unlike_unmarked [of E s s1 h r] by simp
  have pc: "postCache s1 = postCache s" using after_auth [OF ea] by simp
  from getPost_success [OF g] obtain sa feed p where
    "ensureAuth E s1 = (Inr (), sa)"
    "agent_getTimeline E (calls sa) 50 None = Inr feed"
    "find (\<lambda>p. deriveHandle (p_uri p) = h) (fp_posts feed) = Some p"
    "postCache s' = (if truthy (p_uri p) \<and> truthy (p_cid p)
                              then (postCache s1)(h \<mapsto> \<lparr>uri = the (p_uri p), cid = the (p_cid p),
                                                         likeUri = p_viewer_like p\<rparr>)
                              else postCache s1)"
    by (elim exE conjE) (rule that, assumption+)
  with ea' show ?thesis unfolding pc by (intro exI conjI)
qed

lemma likePost_cached_success:
  assumes "postCache s h = Some r" and "likePost E s h score = (Inr v, s')"
  shows "\<exists>s1 r' c hist. ensureAuth E s = (Inr (), s1)
           \<and> applyScore E (calls s1) (postCache s) h r score = (Inr r', c, hist)
           \<and> getPost E (s1\<lparr>postCache := c, calls := hist\<rparr>) h = (Inr v, s')"
proof -
  obtain res s1 where ea: "ensureAuth E s = (res, s1)" by (cases "ensureAuth E s")
  with assms(2) obtain u where "res = Inr u" by (cases res) (auto simp: likePost_def)
  then have ea': "ensureAuth E s = (Inr (), s1)" using ea by simp
  have pc: "postCache s1 = postCache s" using after_auth [OF ea] by simp
  obtain res' c hist where ap: "applyScore E (calls s1) (postCache s) h r score = (res', c, hist)"
    by (cases "applyScore E (calls s1) (postCache s) h r score")
  from assms ea' pc ap obtain r' where "res' = Inr r'"
    by (cases res') (auto simp: likePost_def)
  with assms ea' pc ap
  have "getPost E (s1\<lparr>postCache := c, calls := hist\<rparr>) h = (Inr v, s')"
    by (simp add: likePost_def)
  with ea' ap \<open>res' = Inr r'\<close> show ?thesis by blast
qed

lemma likePost_cached_entry:
  assumes "postCache s h = Some r" and "likePost E s h score = (Inr v, s')"
  shows "\<exists>s1 r' c hist sa feed p. ensureAuth E s = (Inr (), s1)
           \<and> applyScore E (calls s1) (postCache s) h r score = (Inr r', c, hist)
           \<and> ensureAuth E (s1\<lparr>postCache := c, calls := hist\<rparr>) = (Inr (), sa)
           \<and> agent_getTimeline E (calls sa) 50 None = Inr feed
           \<and> find (\<lambda>p. deriveHandle (p_uri p) = h) (fp_posts feed) = Some p
           \<and> postCache s' = (if truthy (p_uri p) \<and> truthy (p_cid p)
                              then c(h \<mapsto> \<lparr>uri = the (p_uri p), cid = the (p_cid p),
                                              likeUri = p_viewer_like p\<rparr>)
                              else c)"
proof -
  from likePost_cached_success [OF assms] obtain s1 r' c hist where
    1: "ensureAuth E s = (Inr (), s1)"
       "applyScore E (calls s1) (postCache s) h r score = (Inr r', c, hist)"
    and g: "getPost E (s1\<lparr>postCache := c, calls := hist\<rparr>) h = (Inr v, s')"
    by (elim exE conjE) (rule that, assumption+)
  from getPost_success [OF g] obtain sa feed p where
    2: "ensureAuth E (s1\<lparr>postCache := c, calls := hist\<rparr>) = (Inr (), sa)"
    "agent_getTimeline E (calls sa) 50 None = Inr feed"
    "find (\<lambda>p. deriveHandle (p_uri p) = h) (fp_posts feed) = Some p"
    and 3: "postCache s' = (if truthy (p_uri p) \<and> truthy (p_cid p)
                  then (postCache (s1\<lparr>postCache := c, calls := hist\<rparr>))(h \<mapsto> \<lparr>uri = the (p_uri p),
                         cid = the (p_cid p), likeUri = p_viewer_like p\<rparr>)
                  else postCache (s1\<lparr>postCache := c, calls := hist\<rparr>))"
    by (elim exE conjE) (rule that, assumption+)
  from 3 have "postCache s' = (if truthy (p_uri p) \<and> truthy (p_cid p)
                              then c(h \<mapsto> \<lparr>uri = the (p_uri p), cid = the (p_cid p),
                                              likeUri = p_viewer_like p\<rparr>)
                              else c)" by simp
  with 1 2 show ?thesis by (intro exI conjI)
qed

lemma mapPostToPostView_eval:
  "mapPostToPostView s post =
     (\<lparr>pv_id = deriveHandle (p_uri post), pv_my_vote = myVote (p_viewer_like post),
       pv_deleted = False\<rparr>,
      if truthy (p_uri post) \<and> truthy (p_cid post)
      then s\<lparr>postCache := (postCache s)(deriveHandle (p_uri post) \<mapsto>
              \<lparr>uri = the (p_uri post), cid = the (p_cid post), likeUri = p_viewer_like post\<rparr>)\<rparr>
      else s)"
  by (simp add: mapPostToPostView_def deriveHandle_def Let_def)

lemma getPost_one:
  assumes "authenticated s" and "agent_session E (calls s)"
    and "agent_getTimeline E (calls s) 50 None = Inr \<lparr>fp_posts = [p], fp_cursor = None\<rparr>"
    and "deriveHandle (p_uri p) = h"
  shows "getPost E s h = map_prod Inr id (mapPostToPostView (logCall (GetTimeline 50 None) s) p)"
  using assms by (simp add: getPost_def ensureAuth_authenticated split: prod.splits)

lemma likePost_one:
  assumes "authenticated s" and "agent_session E (calls s)" and "postCache s h = Some r"
    and "applyScore E (calls s) (postCache s) h r score = (Inr r', c, hist)"
    and "agent_session E hist"
    and "agent_getTimeline E hist 50 None = Inr \<lparr>fp_posts = [p], fp_cursor = None\<rparr>"
    and "deriveHandle (p_uri p) = h"
  shows "likePost E s h score
         = map_prod Inr id
             (mapPostToPostView (logCall (GetTimeline 50 None) (s\<lparr>postCache := c, calls := hist\<rparr>)) p)"
proof -
  have "getPost E (s\<lparr>postCache := c, calls := hist\<rparr>) h
        = map_prod Inr id
            (mapPostToPostView (logCall (GetTimeline 50 None) (s\<lparr>postCache := c, calls := hist\<rparr>)) p)"
    using assms by (intro getPost_one) (simp_all add: logCall_def)
  then show ?thesis
    using assms(1-4) by (simp add: likePost_def ensureAuth_authenticated)
qed

lemma liker_simps:
  "authenticated liker" "calls liker = []" "postCache liker = [1623838 \<mapsto> ref1]"
  "\<not> truthy (likeUri ref1)" "likeUri ref1 = None"
  by (simp_all add: liker_def loggedIn_simps ref1_def truthy_def)

lemma ref1Liked_post1:
  "\<lparr>uri = the (p_uri post1), cid = the (p_cid post1), likeUri = p_viewer_like post1\<rparr> = ref1Liked"
  by (simp add: post1_def ref1Liked_def ref1_def)

lemma likePost_liker_unlike:
  "likePost online liker 1623838 (- 1)
   = (Inr \<lparr>pv_id = 1623838, pv_my_vote = Some 1, pv_deleted = False\<rparr>,
      liker\<lparr>postCache := [1623838 \<mapsto> ref1Liked], calls := [GetTimeline 50 None]\<rparr>)"
proof -
  have "likePost online liker 1623838 (- 1)
        = map_prod Inr id (mapPostToPostView (logCall (GetTimeline 50 None)
            (liker\<lparr>postCache := postCache liker, calls := calls liker\<rparr>)) post1)"
    by (rule likePost_one [where r = ref1 and r' = ref1])
       (simp_all add: liker_simps online_simps applyScore_def truthy_def handle_post1)
  then show ?thesis
    by (simp add: mapPostToPostView_eval handle_post1 post1_simps ref1Liked_post1 myVote_def
          logCall_def liker_def loggedIn_def newClient_def)
qed

lemma truthy_simps: "\<not> truthy None" "truthy (Some (ascii (c # cs)))"
  by (simp_all add: truthy_def ascii_def)

lemma ref1Liked_simps:
  "likeUri ref1Liked = Some (ascii ''at://did:plc:me/app.bsky.feed.like/7'')"
  "truthy (likeUri ref1Liked)" "uri ref1Liked = uri ref1" "cid ref1Liked = cid ref1"
  by (simp_all add: ref1Liked_def truthy_def ascii_def)

lemma likePost_liker_unlike_again:
  "likePost online (liker\<lparr>postCache := [1623838 \<mapsto> ref1Liked], calls := [GetTimeline 50 None]\<rparr>)
     1623838 (- 1)
   = (Inr \<lparr>pv_id = 1623838, pv_my_vote = Some 1, pv_deleted = False\<rparr>,
      liker\<lparr>postCache := [1623838 \<mapsto> ref1Liked],
            calls := [GetTimeline 50 None,
                      DeleteLike (ascii ''at://did:plc:me/app.bsky.feed.like/7''),
                      GetTimeline 50 None]\<rparr>)"
  by (simp add: likePost_def getPost_def ensureAuth_def online_simps liker_def loggedIn_def
        newClient_def applyScore_def mapPostToPostView_eval handle_post1 post1_simps
        ref1Liked_post1 ref1Liked_simps myVote_def logCall_def truthy_simps)

lemma likePost_liker_like:
  "likePost online liker 1623838 1
   = (Inr \<lparr>pv_id = 1623838, pv_my_vote = Some 1, pv_deleted = False\<rparr>,
      liker\<lparr>postCache := [1623838 \<mapsto> ref1Liked],
            calls := [Like (uri ref1) (cid ref1), GetTimeline 50 None]\<rparr>)"
  by (simp add: likePost_def getPost_def ensureAuth_def online_simps liker_def loggedIn_def
        newClient_def applyScore_def mapPostToPostView_eval handle_post1 post1_simps
        ref1Liked_post1 myVote_def logCall_def)

lemma likePost_liker_like_unlike:
  "likePost online (liker\<lparr>postCache := [1623838 \<mapsto> ref1Liked],
                          calls := [Like (uri ref1) (cid ref1), GetTimeline 50 None]\<rparr>)
     1623838 (- 1)
   = (Inr \<lparr>pv_id = 1623838, pv_my_vote = Some 1, pv_deleted = False\<rparr>,
      liker\<lparr>postCache := [1623838 \<mapsto> ref1Liked],
            calls := [Like (uri ref1) (cid ref1), GetTimeline 50 None,
                      DeleteLike (ascii ''at://did:plc:me/app.bsky.feed.like/7''),
                      GetTimeline 50 None]\<rparr>)"
  by (simp add: likePost_def getPost_def ensureAuth_def online_simps liker_def loggedIn_def
        newClient_def applyScore_def mapPostToPostView_eval handle_post1 post1_simps
        ref1Liked_post1 ref1Liked_simps myVote_def logCall_def truthy_simps)

lemma crowded_simps:
  "agent_session crowded hist"
  "agent_getTimeline crowded hist n cur = Inr \<lparr>fp_posts = [postBB], fp_cursor = None\<rparr>"
  "agent_like crowded hist u c = Inr (ascii ''at://did:plc:me/app.bsky.feed.like/8'')"
  by (simp_all add: crowded_def online_def)

lemma handle_postBB: "deriveHandle (p_uri postBB) = 2112"
  by (simp add: postBB_def eval_handle)

lemma postBB_simps:
  "truthy (p_uri postBB)" "truthy (p_cid postBB)" "p_viewer_like postBB = None"
  "\<lparr>uri = the (p_uri postBB), cid = the (p_cid postBB), likeUri = None\<rparr> = refBB"
  by (simp_all add: postBB_def refBB_def truthy_def ascii_def)

lemma likePost_holder_like:
  "likePost crowded holder 2112 1
   = (Inr \<lparr>pv_id = 2112, pv_my_vote = None, pv_deleted = False\<rparr>,
      holder\<lparr>postCache := [2112 \<mapsto> refBB],
             calls := [Like (uri refAa) (cid refAa), GetTimeline 50 None]\<rparr>)"
  by (simp add: likePost_def getPost_def ensureAuth_def crowded_simps holder_def loggedIn_def
        newClient_def applyScore_def mapPostToPostView_eval handle_postBB postBB_simps
        myVote_def logCall_def truthy_simps)

lemma ref3_simps:
  "likeUri ref3Liked = Some (ascii ''at://did:plc:me/app.bsky.feed.like/9'')"
  "truthy (likeUri ref3Liked)" "ref3Liked\<lparr>likeUri := None\<rparr> = ref3"
  by (simp_all add: ref3Liked_def ref3_def truthy_def ascii_def)

lemma post3_like: "p_viewer_like post3 = None"
  by (simp add: post3_def)

lemma likePost_keeper_unlike:
  "likePost sparse keeper 1623840 (- 1)
   = (Inr \<lparr>pv_id = 1623840, pv_my_vote = None, pv_deleted = False\<rparr>,
      keeper\<lparr>postCache := [1623840 \<mapsto> ref3],
             calls := [DeleteLike (ascii ''at://did:plc:me/app.bsky.feed.like/9''),
                       GetTimeline 50 None]\<rparr>)"
  by (simp add: likePost_def getPost_def ensureAuth_def sparse_simps keeper_def loggedIn_def
        newClient_def applyScore_def mapPostToPostView_eval handle_post3 post3_simps
        ref3_simps myVote_def logCall_def truthy_simps post3_like)

lemma online_liker: "ensureAuth online liker = (Inr (), liker)"
  by (simp add: ensureAuth_authenticated liker_simps online_simps)

lemma online_commenter: "ensureAuth online commenter = (Inr (), commenter)"
  by (simp add: ensureAuth_authenticated commenter_def loggedIn_simps online_simps)

lemma applyScore_like_blank:
  assumes "agent_like E hist (uri r) (cid r) = Inr []"
  shows "applyScore E hist c h r 1
         = (Inr (r\<lparr>likeUri := Some []\<rparr>), c(h \<mapsto> r\<lparr>likeUri := Some []\<rparr>),
            hist @ [Like (uri r) (cid r)])"
    and "applyScore E hist' (c(h \<mapsto> r\<lparr>likeUri := Some []\<rparr>)) h (r\<lparr>likeUri := Some []\<rparr>) (- 1)
         = (Inr (r\<lparr>likeUri := Some []\<rparr>), c(h \<mapsto> r\<lparr>likeUri := Some []\<rparr>), hist')"
  using assms by (simp_all add: applyScore_def truthy_def)

lemma blank_like: "agent_like blank hist u c = Inr []"
  by (simp add: blank_def)

lemma sparse_keeper: "ensureAuth sparse keeper = (Inr (), keeper)"
  by (simp add: ensureAuth_authenticated keeper_def loggedIn_simps sparse_simps)

lemma applyScore_keeper_unlike:
  "applyScore sparse [] [1623840 \<mapsto> ref3Liked] 1623840 ref3Liked (- 1)
   = (Inr ref3, [1623840 \<mapsto> ref3], [DeleteLike (ascii ''at://did:plc:me/app.bsky.feed.like/9'')])"
  by (simp add: applyScore_def sparse_simps ref3_simps truthy_simps)

text \<open>
  C6, as stated, fails for \<^verbatim>\<open>likePost\<close>, which ends with a refresh through
  \<^verbatim>\<open>getPost\<close> that stores the timeline's copy of the post again. Here the timeline
  reports the first post as liked: after a like and then an unlike, both successful, the
  entry's like marker is not cleared but holds the timeline's like uri. And where the
  timeline's first post with the handle is another one (the handles of the uris ending in
  \<^verbatim>\<open>Aa\<close> and \<^verbatim>\<open>BB\<close> collide), a like replaces the entry's uri and cid.
\<close>

theorem likePost_toggle_counterexample:
  "postCache liker 1623838 = Some ref1
   \<and> likePost online liker 1623838 1
     = (Inr \<lparr>pv_id = 1623838, pv_my_vote = Some 1, pv_deleted = False\<rparr>,
        liker\<lparr>postCache := [1623838 \<mapsto> ref1Liked],
              calls := [Like (uri ref1) (cid ref1), GetTimeline 50 None]\<rparr>)
   \<and> likePost online (liker\<lparr>postCache := [1623838 \<mapsto> ref1Liked],
                            calls := [Like (uri ref1) (cid ref1), GetTimeline 50 None]\<rparr>)
        1623838 (- 1)
     = (Inr \<lparr>pv_id = 1623838, pv_my_vote = Some 1, pv_deleted = False\<rparr>,
        liker\<lparr>postCache := [1623838 \<mapsto> ref1Liked],
              calls := [Like (uri ref1) (cid ref1), GetTimeline 50 None,
                        DeleteLike (ascii ''at://did:plc:me/app.bsky.feed.like/7''),
                        GetTimeline 50 None]\<rparr>)
   \<and> likeUri ref1Liked = Some (ascii ''at://did:plc:me/app.bsky.feed.like/7'')
   \<and> postCache holder 2112 = Some refAa
   \<and> likePost crowded holder 2112 1
     = (Inr \<lparr>pv_id = 2112, pv_my_vote = None, pv_deleted = False\<rparr>,
        holder\<lparr>postCache := [2112 \<mapsto> refBB],
               calls := [Like (uri refAa) (cid refAa), GetTimeline 50 None]\<rparr>)
   \<and> uri refBB \<noteq> uri refAa \<and> cid refBB \<noteq> cid refAa"
proof -
  have "uri refBB \<noteq> uri refAa" "cid refBB \<noteq> cid refAa"
    by (simp_all add: refBB_def refAa_def ascii_def)
  moreover have "postCache holder 2112 = Some refAa"
    by (simp add: holder_def)
  ultimately show ?thesis
    by (simp add: liker_simps likePost_liker_like likePost_liker_like_unlike ref1Liked_simps
          likePost_holder_like)
qed

text \<open>
  C6, amended. The step shared by \<^verbatim>\<open>likePost\<close> and \<^verbatim>\<open>likeComment\<close>, on
  either cache: a like that stores a non-empty like uri followed by an unlike leaves the
  entry's uri and cid as they were after each of the two and the marker undefined at the
  end; when the like call returns the empty string, that is stored as the marker and the
  unlike leaves it there, without a call. \<^verbatim>\<open>likeComment\<close> as a whole, called with
  score 1 and then -1: the same as the step, for a non-empty like uri. \<^verbatim>\<open>likePost\<close>
  as a whole on a cached handle: when it succeeds, the step has been applied to the entry
  and the refresh has then found a post with this handle in the timeline; the entry is
  that post's uri, cid and viewer like when it has a uri and a cid, and what the step left
  otherwise.
\<close>

theorem like_then_unlike:
  "(applyScore E hist c h r 1 = (Inr r1, c1, hist1) \<and> truthy (likeUri r1)
      \<and> applyScore E hist' c1 h r1 (- 1) = (Inr r2, c2, hist2)
    \<longrightarrow> map_option uri (c1 h) = Some (uri r) \<and> map_option cid (c1 h) = Some (cid r)
        \<and> map_option likeUri (c1 h) = Some (likeUri r1)
        \<and> map_option uri (c2 h) = Some (uri r) \<and> map_option cid (c2 h) = Some (cid r)
        \<and> map_option likeUri (c2 h) = Some None)
   \<and> (agent_like E hist (uri r) (cid r) = Inr []
    \<longrightarrow> applyScore E hist c h r 1
          = (Inr (r\<lparr>likeUri := Some []\<rparr>), c(h \<mapsto> r\<lparr>likeUri := Some []\<rparr>),
             hist @ [Like (uri r) (cid r)])
        \<and> applyScore E hist' (c(h \<mapsto> r\<lparr>likeUri := Some []\<rparr>)) h (r\<lparr>likeUri := Some []\<rparr>) (- 1)
          = (Inr (r\<lparr>likeUri := Some []\<rparr>), c(h \<mapsto> r\<lparr>likeUri := Some []\<rparr>), hist'))
   \<and> (commentCache s h = Some r \<and> likeComment E s h 1 = (Inr v1, s1)
      \<and> (\<exists>l. map_option likeUri (commentCache s1 h) = Some (Some l) \<and> l \<noteq> [])
      \<and> likeComment E s1 h (- 1) = (Inr v2, s2)
    \<longrightarrow> map_option uri (commentCache s1 h) = Some (uri r)
        \<and> map_option cid (commentCache s1 h) = Some (cid r)
        \<and> map_option uri (commentCache s2 h) = Some (uri r)
        \<and> map_option cid (commentCache s2 h) = Some (cid r)
        \<and> map_option likeUri (commentCache s2 h) = Some None)
   \<and> (postCache s h = Some r \<and> likePost E s h score = (Inr v, s')
    \<longrightarrow> (\<exists>sa r' c' hist'' sb feed p.
           ensureAuth E s = (Inr (), sa)
           \<and> applyScore E (calls sa) (postCache s) h r score = (Inr r', c', hist'')
           \<and> ensureAuth E (sa\<lparr>postCache := c', calls := hist''\<rparr>) = (Inr (), sb)
           \<and> agent_getTimeline E (calls sb) 50 None = Inr feed
           \<and> find (\<lambda>p. deriveHandle (p_uri p) = h) (fp_posts feed) = Some p
           \<and> postCache s' = (if truthy (p_uri p) \<and> truthy (p_cid p)
                              then c'(h \<mapsto> \<lparr>uri = the (p_uri p), cid = the (p_cid p),
                                               likeUri = p_viewer_like p\<rparr>)
                              else c')))"
proof (intro conjI impI)
  assume a: "commentCache s h = Some r \<and> likeComment E s h 1 = (Inr v1, s1)
      \<and> (\<exists>l. map_option likeUri (commentCache s1 h) = Some (Some l) \<and> l \<noteq> [])
      \<and> likeComment E s1 h (- 1) = (Inr v2, s2)"
  from a obtain r1 where
    1: "applyScore E (calls (snd (ensureAuth E s))) (commentCache s) h r 1
          = (Inr r1, commentCache s1, calls s1)"
    using likeComment_success by blast
  from applyScore_like [OF 1] have c1: "commentCache s1 h = Some r1" by simp
  with a have t: "truthy (likeUri r1)" by (auto simp: truthy_def)
  from a c1 obtain r2 where
    2: "applyScore E (calls (snd (ensureAuth E s1))) (commentCache s1) h r1 (- 1)
          = (Inr r2, commentCache s2, calls s2)"
    using likeComment_success by blast
  from like_then_unlike_step [OF 1 t 2]
  show "map_option uri (commentCache s1 h) = Some (uri r)"
    and "map_option cid (commentCache s1 h) = Some (cid r)"
    and "map_option uri (commentCache s2 h) = Some (uri r)"
    and "map_option cid (commentCache s2 h) = Some (cid r)"
    and "map_option likeUri (commentCache s2 h) = Some None"
    by simp_all
next
  assume "agent_like E hist (uri r) (cid r) = Inr []"
  then show "applyScore E hist c h r 1
          = (Inr (r\<lparr>likeUri := Some []\<rparr>), c(h \<mapsto> r\<lparr>likeUri := Some []\<rparr>),
             hist @ [Like (uri r) (cid r)])"
    and "applyScore E hist' (c(h \<mapsto> r\<lparr>likeUri := Some []\<rparr>)) h (r\<lparr>likeUri := Some []\<rparr>) (- 1)
          = (Inr (r\<lparr>likeUri := Some []\<rparr>), c(h \<mapsto> r\<lparr>likeUri := Some []\<rparr>), hist')"
    by (rule applyScore_like_blank)+
next
  assume "postCache s h = Some r \<and> likePost E s h score = (Inr v, s')"
  then show "\<exists>sa r' c' hist'' sb feed p.
           ensureAuth E s = (Inr (), sa)
           \<and> applyScore E (calls sa) (postCache s) h r score = (Inr r', c', hist'')
           \<and> ensureAuth E (sa\<lparr>postCache := c', calls := hist''\<rparr>) = (Inr (), sb)
           \<and> agent_getTimeline E (calls sb) 50 None = Inr feed
           \<and> find (\<lambda>p. deriveHandle (p_uri p) = h) (fp_posts feed) = Some p
           \<and> postCache s' = (if truthy (p_uri p) \<and> truthy (p_cid p)
                              then c'(h \<mapsto> \<lparr>uri = the (p_uri p), cid = the (p_cid p),
                                               likeUri = p_viewer_like p\<rparr>)
                              else c')"
    using likePost_cached_entry [of s h r E score v s'] by simp
qed (use like_then_unlike_step in blast)+

theorem like_then_unlike_witness:
  "applyScore online [] [5 \<mapsto> ref2] 5 ref2 1
     = (Inr ref2Liked, [5 \<mapsto> ref2Liked], [Like (uri ref2) (cid ref2)])
   \<and> truthy (likeUri ref2Liked)
   \<and> applyScore online [Like (uri ref2) (cid ref2)] [5 \<mapsto> ref2Liked] 5 ref2Liked (- 1)
     = (Inr ref2, [5 \<mapsto> ref2],
        [Like (uri ref2) (cid ref2), DeleteLike (ascii ''at://did:plc:me/app.bsky.feed.like/8'')])
   \<and> commentCache commenter 5 = Some ref2
   \<and> likeComment online commenter 5 1
     = (Inr \<lparr>cv_id = 5, cv_post_id = 0, cv_path = [0], cv_my_vote = Some 1\<rparr>,
        commenter\<lparr>commentCache := [5 \<mapsto> ref2Liked], calls := [Like (uri ref2) (cid ref2)]\<rparr>)
   \<and> likeComment online
       (commenter\<lparr>commentCache := [5 \<mapsto> ref2Liked], calls := [Like (uri ref2) (cid ref2)]\<rparr>) 5 (- 1)
     = (Inr \<lparr>cv_id = 5, cv_post_id = 0, cv_path = [0], cv_my_vote = None\<rparr>,
        commenter\<lparr>commentCache := [5 \<mapsto> ref2],
                  calls := [Like (uri ref2) (cid ref2),
                            DeleteLike (ascii ''at://did:plc:me/app.bsky.feed.like/8'')]\<rparr>)
   \<and> map_option uri ([5 \<mapsto> ref2Liked] (5::int)) = Some (uri ref2)
   \<and> map_option cid ([5 \<mapsto> ref2Liked] (5::int)) = Some (cid ref2)
   \<and> map_option likeUri ([5 \<mapsto> ref2] (5::int)) = Some None
   \<and> agent_like blank [] (uri ref2) (cid ref2) = Inr []
   \<and> applyScore blank [] [5 \<mapsto> ref2] 5 ref2 1
     = (Inr (ref2\<lparr>likeUri := Some []\<rparr>), [5 \<mapsto> ref2\<lparr>likeUri := Some []\<rparr>],
        [Like (uri ref2) (cid ref2)])
   \<and> applyScore blank [Like (uri ref2) (cid ref2)] [5 \<mapsto> ref2\<lparr>likeUri := Some []\<rparr>] 5
        (ref2\<lparr>likeUri := Some []\<rparr>) (- 1)
     = (Inr (ref2\<lparr>likeUri := Some []\<rparr>), [5 \<mapsto> ref2\<lparr>likeUri := Some []\<rparr>],
        [Like (uri ref2) (cid ref2)])
   \<and> postCache keeper 1623840 = Some ref3Liked
   \<and> likePost sparse keeper 1623840 (- 1)
     = (Inr \<lparr>pv_id = 1623840, pv_my_vote = None, pv_deleted = False\<rparr>,
        keeper\<lparr>postCache := [1623840 \<mapsto> ref3],
               calls := [DeleteLike (ascii ''at://did:plc:me/app.bsky.feed.like/9''),
                         GetTimeline 50 None]\<rparr>)
   \<and> postCache (snd (likePost sparse keeper 1623840 (- 1))) = [1623840 \<mapsto> ref3]"
proof -
  have t: "truthy (likeUri ref2Liked)"
    by (simp add: ref2Liked_def truthy_def ascii_def)
  have c: "commentCache commenter 5 = Some ref2"
    by (simp add: commenter_def)
  have l: "\<exists>l. map_option likeUri (commentCache
             (commenter\<lparr>commentCache := [5 \<mapsto> ref2Liked], calls := [Like (uri ref2) (cid ref2)]\<rparr>) 5)
             = Some (Some l) \<and> l \<noteq> []"
    by (simp add: ref2Liked_def ascii_def)
  have k: "postCache keeper 1623840 = Some ref3Liked" "postCache keeper = [1623840 \<mapsto> ref3Liked]"
    "calls keeper = []"
    by (simp_all add: keeper_def loggedIn_simps)
  from like_then_unlike [of online "[]" "[5 \<mapsto> ref2]" 5 ref2 ref2Liked "[5 \<mapsto> ref2Liked]"
      "[Like (uri ref2) (cid ref2)]" "[Like (uri ref2) (cid ref2)]" ref2 "[5 \<mapsto> ref2]"
      "[Like (uri ref2) (cid ref2), DeleteLike (ascii ''at://did:plc:me/app.bsky.feed.like/8'')]"
      commenter
      "\<lparr>cv_id = 5, cv_post_id = 0, cv_path = [0], cv_my_vote = Some 1\<rparr>"
      "commenter\<lparr>commentCache := [5 \<mapsto> ref2Liked], calls := [Like (uri ref2) (cid ref2)]\<rparr>"
      "\<lparr>cv_id = 5, cv_post_id = 0, cv_path = [0], cv_my_vote = None\<rparr>"
      "commenter\<lparr>commentCache := [5 \<mapsto> ref2],
                  calls := [Like (uri ref2) (cid ref2),
                            DeleteLike (ascii ''at://did:plc:me/app.bsky.feed.like/8'')]\<rparr>"]
    applyScore_like_example applyScore_unlike_example likeComment_like_example
    likeComment_unlike_example t c l
  have 1: "map_option uri ([5 \<mapsto> ref2Liked] (5::int)) = Some (uri ref2)
   \<and> map_option cid ([5 \<mapsto> ref2Liked] (5::int)) = Some (cid ref2)
   \<and> map_option likeUri ([5 \<mapsto> ref2] (5::int)) = Some None"
    by simp
  from like_then_unlike [where E = blank and hist = "[]" and r = ref2 and c = "[5 \<mapsto> ref2]"
      and h = 5 and hist' = "[Like (uri ref2) (cid ref2)]"] blank_like
  have 2: "applyScore blank [] [5 \<mapsto> ref2] 5 ref2 1
     = (Inr (ref2\<lparr>likeUri := Some []\<rparr>), [5 \<mapsto> ref2\<lparr>likeUri := Some []\<rparr>],
        [Like (uri ref2) (cid ref2)])
   \<and> applyScore blank [Like (uri ref2) (cid ref2)] [5 \<mapsto> ref2\<lparr>likeUri := Some []\<rparr>] 5
        (ref2\<lparr>likeUri := Some []\<rparr>) (- 1)
     = (Inr (ref2\<lparr>likeUri := Some []\<rparr>), [5 \<mapsto> ref2\<lparr>likeUri := Some []\<rparr>],
        [Like (uri ref2) (cid ref2)])"
    by simp
  note w = like_then_unlike [where E = sparse and s = keeper and h = 1623840 and r = ref3Liked
      and score = "- 1"
      and v = "\<lparr>pv_id = 1623840, pv_my_vote = None, pv_deleted = False\<rparr>"
      and s' = "keeper\<lparr>postCache := [1623840 \<mapsto> ref3],
               calls := [DeleteLike (ascii ''at://did:plc:me/app.bsky.feed.like/9''),
                         GetTimeline 50 None]\<rparr>"]
  from w [THEN conjunct2, THEN conjunct2, THEN conjunct2, THEN mp, OF conjI, OF k(1) likePost_keeper_unlike]
  obtain sa r' c' hist'' sb feed p where
    e: "ensureAuth sparse keeper = (Inr (), sa)"
    and a: "applyScore sparse (calls sa) (postCache keeper) 1623840 ref3Liked (- 1) = (Inr r', c', hist'')"
    and f: "agent_getTimeline sparse (calls (sb::client)) 50 None = Inr feed"
      "find (\<lambda>p. deriveHandle (p_uri p) = 1623840) (fp_posts feed) = Some p"
    and pc: "postCache (keeper\<lparr>postCache := [1623840 \<mapsto> ref3],
               calls := [DeleteLike (ascii ''at://did:plc:me/app.bsky.feed.like/9''),
                         GetTimeline 50 None]\<rparr>)
             = (if truthy (p_uri p) \<and> truthy (p_cid p)
                then c'(1623840 \<mapsto> \<lparr>uri = the (p_uri p), cid = the (p_cid p),
                                       likeUri = p_viewer_like p\<rparr>)
                else c')"
    by (elim exE conjE) (rule that, assumption+)
  from e have "sa = keeper" by (simp add: sparse_keeper)
  with a have c': "c' = [1623840 \<mapsto> ref3]"
    by (simp add: k applyScore_keeper_unlike)
  from f(1) have "feed = \<lparr>fp_posts = [post3], fp_cursor = None\<rparr>"
    by (simp add: sparse_simps)
  with f(2) have "p = post3" by (simp add: handle_post3)
  with pc c' have "postCache (snd (likePost sparse keeper 1623840 (- 1))) = c'"
    by (simp add: likePost_keeper_unlike post3_simps)
  with c' have 3: "postCache (snd (likePost sparse keeper 1623840 (- 1))) = [1623840 \<mapsto> ref3]"
    by simp
  from 1 2 3 show ?thesis
    by (simp add: applyScore_like_example applyScore_unlike_example likeComment_like_example
          likeComment_unlike_example t c k(1) blank_like likePost_keeper_unlike)
qed

text \<open>
  C10, as stated, fails for \<^verbatim>\<open>likePost\<close>: the clear itself makes no call, but the
  refresh that ends the operation stores the timeline's copy of the post. Here the cached
  entry has no like marker and the timeline reports a like: after the first clear the
  entry holds that like uri, and the second clear calls \<^verbatim>\<open>deleteLike\<close> with it.
\<close>

theorem unlike_unmarked_counterexample:
  "postCache liker 1623838 = Some ref1 \<and> likeUri ref1 = None
   \<and> likePost online liker 1623838 (- 1)
     = (Inr \<lparr>pv_id = 1623838, pv_my_vote = Some 1, pv_deleted = False\<rparr>,
        liker\<lparr>postCache := [1623838 \<mapsto> ref1Liked], calls := [GetTimeline 50 None]\<rparr>)
   \<and> ref1Liked \<noteq> ref1
   \<and> likePost online (liker\<lparr>postCache := [1623838 \<mapsto> ref1Liked], calls := [GetTimeline 50 None]\<rparr>)
        1623838 (- 1)
     = (Inr \<lparr>pv_id = 1623838, pv_my_vote = Some 1, pv_deleted = False\<rparr>,
        liker\<lparr>postCache := [1623838 \<mapsto> ref1Liked],
              calls := [GetTimeline 50 None,
                        DeleteLike (ascii ''at://did:plc:me/app.bsky.feed.like/7''),
                        GetTimeline 50 None]\<rparr>)"
proof -
  have "ref1Liked \<noteq> ref1" by (simp add: ref1Liked_def ref1_def)
  then show ?thesis
    by (simp add: liker_simps likePost_liker_unlike likePost_liker_unlike_again)
qed

text \<open>
  C10, amended. Clearing a like (score -1) on an entry without a like marker makes no call
  and leaves the cache as it is, and a second clear after any clear is such a no-op (the
  step). \<^verbatim>\<open>likeComment\<close> then does nothing beyond the authentication step: the
  caches are unchanged, the only calls are that step's, the result is the comment without
  a vote once it succeeded, and a second clear leaves the comment cache unchanged again;
  on an authenticated client the client is unchanged, so that twice equals once.
  \<^verbatim>\<open>likePost\<close> is then nothing but the refresh through \<^verbatim>\<open>getPost\<close> that
  ends it: its calls are those of authentication and the timeline fetch, never
  \<^verbatim>\<open>deleteLike\<close>, and when it succeeds the entry is the timeline's copy of the
  first post with this handle if that has a uri and a cid, and unchanged otherwise.
\<close>

theorem unlike_unmarked_noop:
  "(\<not> truthy (likeUri r) \<longrightarrow> applyScore E hist c h r (- 1) = (Inr r, c, hist))
   \<and> (applyScore E hist c h r (- 1) = (Inr r', c', hist')
        \<longrightarrow> applyScore E hist' c' h r' (- 1) = (Inr r', c', hist'))
   \<and> (commentCache s h = Some r \<and> \<not> truthy (likeUri r)
        \<longrightarrow> snd (likeComment E s h (- 1)) = snd (ensureAuth E s)
            \<and> commentCache (snd (likeComment E s h (- 1))) = commentCache s
            \<and> postCache (snd (likeComment E s h (- 1))) = postCache s
            \<and> (\<exists>extra. calls (snd (likeComment E s h (- 1))) = calls s @ extra
                         \<and> list_all isAuthCall extra)
            \<and> (fst (ensureAuth E s) = Inr () \<longrightarrow>
                 fst (likeComment E s h (- 1))
                 = Inr \<lparr>cv_id = h, cv_post_id = 0, cv_path = [0], cv_my_vote = None\<rparr>)
            \<and> commentCache (snd (likeComment E (snd (likeComment E s h (- 1))) h (- 1)))
                = commentCache s)
   \<and> (commentCache s h = Some r \<and> \<not> truthy (likeUri r) \<and> authenticated s
        \<and> agent_session E (calls s)
        \<longrightarrow> likeComment E s h (- 1)
              = (Inr \<lparr>cv_id = h, cv_post_id = 0, cv_path = [0], cv_my_vote = None\<rparr>, s)
            \<and> likeComment E (snd (likeComment E s h (- 1))) h (- 1) = likeComment E s h (- 1))
   \<and> (postCache s h = Some r \<and> \<not> truthy (likeUri r) \<and> ensureAuth E s = (Inr (), s1)
        \<longrightarrow> likePost E s h (- 1) = getPost E s1 h)
   \<and> (postCache s h = Some r \<and> \<not> truthy (likeUri r)
        \<longrightarrow> (\<exists>extra. calls (snd (likePost E s h (- 1))) = calls s @ extra
                       \<and> list_all isRefreshCall extra))
   \<and> (postCache s h = Some r \<and> \<not> truthy (likeUri r) \<and> likePost E s h (- 1) = (Inr v, s')
        \<longrightarrow> (\<exists>s1 sa feed p. ensureAuth E s = (Inr (), s1)
                \<and> ensureAuth E s1 = (Inr (), sa)
                \<and> agent_getTimeline E (calls sa) 50 None = Inr feed
                \<and> find (\<lambda>p. deriveHandle (p_uri p) = h) (fp_posts feed) = Some p
                \<and> postCache s' = (if truthy (p_uri p) \<and> truthy (p_cid p)
                                   then (postCache s)(h \<mapsto> \<lparr>uri = the (p_uri p),
                                          cid = the (p_cid p), likeUri = p_viewer_like p\<rparr>)
                                   else postCache s)))"
proof (intro conjI impI)
  show "applyScore E hist c h r (- 1) = (Inr r, c, hist)" if "\<not> truthy (likeUri r)"
    using that by (rule applyScore_unlike_unmarked)
  show "applyScore E hist' c' h r' (- 1) = (Inr r', c', hist')"
    if "applyScore E hist c h r (- 1) = (Inr r', c', hist')"
    using that by (rule applyScore_unlike_twice)
next
  assume a: "commentCache s h = Some r \<and> \<not> truthy (likeUri r)"
  then show st: "snd (likeComment E s h (- 1)) = snd (ensureAuth E s)"
    using likeComment_unmarked_state(1) by blast
  show cc: "commentCache (snd (likeComment E s h (- 1))) = commentCache s"
    unfolding st using ensureAuth_caches [of E s] by simp
  show "postCache (snd (likeComment E s h (- 1))) = postCache s"
    unfolding st using ensureAuth_caches [of E s] by simp
  show "\<exists>extra. calls (snd (likeComment E s h (- 1))) = calls s @ extra
                         \<and> list_all isAuthCall extra"
    unfolding st by (rule ensureAuth_calls)
  show "fst (likeComment E s h (- 1))
                 = Inr \<lparr>cv_id = h, cv_post_id = 0, cv_path = [0], cv_my_vote = None\<rparr>"
    if "fst (ensureAuth E s) = Inr ()"
    using a that likeComment_unmarked_state(2) by blast
  have "commentCache (snd (likeComment E s h (- 1))) h = Some r"
    using a cc by simp
  with a have "snd (likeComment E (snd (likeComment E s h (- 1))) h (- 1))
               = snd (ensureAuth E (snd (likeComment E s h (- 1))))"
    using likeComment_unmarked_state(1) by blast
  then show "commentCache (snd (likeComment E (snd (likeComment E s h (- 1))) h (- 1)))
                = commentCache s"
    using ensureAuth_caches [of E "snd (likeComment E s h (- 1))"] cc by simp
next
  assume a: "commentCache s h = Some r \<and> \<not> truthy (likeUri r) \<and> authenticated s
             \<and> agent_session E (calls s)"
  then have ea: "ensureAuth E s = (Inr (), s)" by (simp add: ensureAuth_authenticated)
  from likeComment_unlike_unmarked [OF ea] a
  show 1: "likeComment E s h (- 1)
           = (Inr \<lparr>cv_id = h, cv_post_id = 0, cv_path = [0], cv_my_vote = None\<rparr>, s)"
    by simp
  show "likeComment E (snd (likeComment E s h (- 1))) h (- 1) = likeComment E s h (- 1)"
    by (simp add: 1)
next
  assume "postCache s h = Some r \<and> \<not> truthy (likeUri r) \<and> ensureAuth E s = (Inr (), s1)"
  then show "likePost E s h (- 1) = getPost E s1 h"
    using likePost_unlike_unmarked [of E s s1 h r] by simp
next
  assume "postCache s h = Some r \<and> \<not> truthy (likeUri r)"
  then show "\<exists>extra. calls (snd (likePost E s h (- 1))) = calls s @ extra
                       \<and> list_all isRefreshCall extra"
    using likePost_unmarked_calls by blast
next
  assume "postCache s h = Some r \<and> \<not> truthy (likeUri r) \<and> likePost E s h (- 1) = (Inr v, s')"
  then show "\<exists>s1 sa feed p. ensureAuth E s = (Inr (), s1)
                \<and> ensureAuth E s1 = (Inr (), sa)
                \<and> agent_getTimeline E (calls sa) 50 None = Inr feed
                \<and> find (\<lambda>p. deriveHandle (p_uri p) = h) (fp_posts feed) = Some p
                \<and> postCache s' = (if truthy (p_uri p) \<and> truthy (p_cid p)
                                   then (postCache s)(h \<mapsto> \<lparr>uri = the (p_uri p),
                                          cid = the (p_cid p), likeUri = p_viewer_like p\<rparr>)
                                   else postCache s)"
    using likePost_unmarked_entry [of s h r E v s'] by simp
qed

theorem unlike_unmarked_noop_witness:
  "\<not> truthy (likeUri ref2)
   \<and> applyScore online [] [5 \<mapsto> ref2] 5 ref2 (- 1) = (Inr ref2, [5 \<mapsto> ref2], [])
   \<and> commentCache commenter 5 = Some ref2 \<and> authenticated commenter
   \<and> agent_session online (calls commenter)
   \<and> fst (ensureAuth online commenter) = Inr ()
   \<and> likeComment online commenter 5 (- 1)
       = (Inr \<lparr>cv_id = 5, cv_post_id = 0, cv_path = [0], cv_my_vote = None\<rparr>, commenter)
   \<and> commentCache (snd (likeComment online (snd (likeComment online commenter 5 (- 1))) 5 (- 1)))
       = commentCache commenter
   \<and> postCache liker 1623838 = Some ref1 \<and> \<not> truthy (likeUri ref1)
   \<and> ensureAuth online liker = (Inr (), liker)
   \<and> likePost online liker 1623838 (- 1)
       = (Inr \<lparr>pv_id = 1623838, pv_my_vote = Some 1, pv_deleted = False\<rparr>,
          liker\<lparr>postCache := [1623838 \<mapsto> ref1Liked], calls := [GetTimeline 50 None]\<rparr>)
   \<and> likePost online liker 1623838 (- 1) = getPost online liker 1623838
   \<and> list_all isRefreshCall (calls (snd (likePost online liker 1623838 (- 1))))"
proof -
  have u: "\<not> truthy (likeUri ref2)" by (simp add: ref2_def truthy_def)
  have c: "commentCache commenter 5 = Some ref2" "authenticated commenter"
    "agent_session online (calls commenter)"
    by (simp_all add: commenter_def loggedIn_def newClient_def online_simps)
  have e: "fst (ensureAuth online commenter) = Inr ()" by (simp add: online_commenter)
  have p: "postCache liker 1623838 = Some ref1" "\<not> truthy (likeUri ref1)"
    by (simp_all add: liker_simps truthy_simps)
  note w1 = unlike_unmarked_noop [where r = ref2 and E = online and hist = "[]"
      and c = "[5 \<mapsto> ref2]" and h = 5 and r' = ref2 and c' = "[5 \<mapsto> ref2]" and hist' = "[]"
      and s = commenter]
  note w2 = unlike_unmarked_noop [where r = ref1 and E = online and h = 1623838 and s = liker
      and ?s1.0 = liker
      and v = "\<lparr>pv_id = 1623838, pv_my_vote = Some 1, pv_deleted = False\<rparr>"
      and s' = "liker\<lparr>postCache := [1623838 \<mapsto> ref1Liked], calls := [GetTimeline 50 None]\<rparr>"]
  from w1 u c have 1: "likeComment online commenter 5 (- 1)
       = (Inr \<lparr>cv_id = 5, cv_post_id = 0, cv_path = [0], cv_my_vote = None\<rparr>, commenter)"
    by blast
  from w1 u c have 2: "commentCache (snd (likeComment online (snd (likeComment online commenter 5 (- 1))) 5 (- 1)))
       = commentCache commenter"
    by blast
  from w2 p online_liker
  have 3: "likePost online liker 1623838 (- 1) = getPost online liker 1623838" by blast
  from w2 p obtain extra where
    "calls (snd (likePost online liker 1623838 (- 1))) = calls liker @ extra"
    "list_all isRefreshCall extra" by blast
  then have 4: "list_all isRefreshCall (calls (snd (likePost online liker 1623838 (- 1))))"
    by (simp add: liker_simps)
  show ?thesis
    by (intro conjI)
       (fact u c e p applyScore_unmarked_example 1 2 3 4 online_liker likePost_liker_unlike)+
qed

subsection \<open>Resuming a session\<close>

lemma truthy_value_present: "truthy_value v \<Longrightarrow> v \<noteq> None"
  by (cases v) simp_all

lemma requiredFields_True:
  assumes "requiredFields session = Inr True"
  shows "hasField session accessJwt \<and> hasField session refreshJwt \<and> hasField session did"
proof (cases session)
  case (JObj kvs)
  with assms show ?thesis
    by (auto simp: requiredFields_def split: if_splits dest: truthy_value_present)
qed (use assms in \<open>simp_all add: requiredFields_def\<close>)

lemma restoreSession_True:
  assumes "fst (restoreSession E s blob)"
  shows "\<exists>session. JSON_parse E blob = Some session \<and> requiredFields session = Inr True
           \<and> agent_resumeSession E (calls s) session = None
           \<and> authenticated (snd (restoreSession E s blob))"
  using assms
  by (auto simp: restoreSession_def split: option.splits sum.splits bool.splits)

lemma restoreSession_no_fields:
  assumes "JSON_parse E blob = Some session" and "requiredFields session \<noteq> Inr True"
  shows "\<not> fst (restoreSession E s blob) \<and> calls (snd (restoreSession E s blob)) = calls s
         \<and> (authenticated (snd (restoreSession E s blob)) \<longrightarrow> authenticated s)"
  using assms
  by (auto simp: restoreSession_def split: option.splits sum.splits bool.splits)

lemmas eval_session = resuming_def online_def fullSession_def partSession_def stranger_def
  newClient_def restoreSession_def requiredFields_def accessJwt_def refreshJwt_def did_def
  ascii_def logCall_def truthy_def

lemma restore_full_example:
  "restoreSession resuming stranger (ascii ''full'')
   = (True, stranger\<lparr>authenticated := True, calls := [ResumeSession fullSession]\<rparr>)"
  by (simp add: eval_session)

text \<open>
  C8: \<^verbatim>\<open>#restoreSession\<close> returns true only when the blob parses and the parsed
  value has the three fields \<^verbatim>\<open>accessJwt\<close>, \<^verbatim>\<open>refreshJwt\<close> and
  \<^verbatim>\<open>did\<close> (it then has marked the client authenticated); when the blob does not
  parse or one of the three fields is missing it returns false, has called nothing and
  has not marked the client authenticated.
\<close>

theorem restoreSession_needs_fields:
  "(fst (restoreSession E s blob) \<longrightarrow>
      (\<exists>session. JSON_parse E blob = Some session \<and> hasField session accessJwt
                 \<and> hasField session refreshJwt \<and> hasField session did)
      \<and> authenticated (snd (restoreSession E s blob)))
   \<and> (JSON_parse E blob = None
       \<or> (\<exists>session. JSON_parse E blob = Some session
             \<and> (\<not> hasField session accessJwt \<or> \<not> hasField session refreshJwt
                  \<or> \<not> hasField session did))
      \<longrightarrow> \<not> fst (restoreSession E s blob)
          \<and> calls (snd (restoreSession E s blob)) = calls s
          \<and> (authenticated (snd (restoreSession E s blob)) \<longrightarrow> authenticated s))"
proof (intro conjI impI)
  assume a: "fst (restoreSession E s blob)"
  from restoreSession_True [OF a] requiredFields_True
  show "\<exists>session. JSON_parse E blob = Some session \<and> hasField session accessJwt
                 \<and> hasField session refreshJwt \<and> hasField session did"
    by blast
  from restoreSession_True [OF a] show "authenticated (snd (restoreSession E s blob))"
    by blast
next
  assume b: "JSON_parse E blob = None
       \<or> (\<exists>session. JSON_parse E blob = Some session
             \<and> (\<not> hasField session accessJwt \<or> \<not> hasField session refreshJwt
                  \<or> \<not> hasField session did))"
  have r: "\<not> fst (restoreSession E s blob) \<and> calls (snd (restoreSession E s blob)) = calls s
         \<and> (authenticated (snd (restoreSession E s blob)) \<longrightarrow> authenticated s)"
  proof (cases "JSON_parse E blob")
    case None
    then show ?thesis by (simp add: restoreSession_def)
  next
    case (Some session)
    with b have "requiredFields session \<noteq> Inr True"
      using requiredFields_True by auto
    with Some show ?thesis by (rule restoreSession_no_fields)
  qed
  from r show "\<not> fst (restoreSession E s blob)" by simp
  from r show "calls (snd (restoreSession E s blob)) = calls s" by simp
  from r show "authenticated s" if "authenticated (snd (restoreSession E s blob))"
    using that by simp
qed

theorem restoreSession_needs_fields_witness:
  "fst (restoreSession resuming stranger (ascii ''full''))
   \<and> JSON_parse resuming (ascii ''full'') = Some fullSession
   \<and> hasField fullSession accessJwt \<and> hasField fullSession refreshJwt \<and> hasField fullSession did
   \<and> authenticated (snd (restoreSession resuming stranger (ascii ''full'')))
   \<and> JSON_parse resuming (ascii ''Bearer'') = None
   \<and> \<not> fst (restoreSession resuming stranger (ascii ''Bearer''))
   \<and> JSON_parse resuming (ascii ''part'') = Some partSession
   \<and> \<not> hasField partSession did
   \<and> \<not> fst (restoreSession resuming stranger (ascii ''part''))
   \<and> calls (snd (restoreSession resuming stranger (ascii ''part''))) = []
   \<and> \<not> authenticated (snd (restoreSession resuming stranger (ascii ''part'')))"
proof -
  have f: "fst (restoreSession resuming stranger (ascii ''full''))"
    by (simp add: restore_full_example)
  have p: "JSON_parse resuming (ascii ''full'') = Some fullSession"
    "JSON_parse resuming (ascii ''Bearer'') = None"
    "JSON_parse resuming (ascii ''part'') = Some partSession"
    by (simp_all add: resuming_def ascii_def)
  have h: "hasField fullSession accessJwt" "hasField fullSession refreshJwt"
    "hasField fullSession did" "\<not> hasField partSession did"
    by (simp_all add: fullSession_def partSession_def accessJwt_def refreshJwt_def did_def ascii_def)
  have s: "calls stranger = []" "\<not> authenticated stranger"
    by (simp_all add: stranger_def newClient_def)
  from restoreSession_needs_fields [of resuming stranger "ascii ''full''"] f
  have 1: "authenticated (snd (restoreSession resuming stranger (ascii ''full'')))"
    by blast
  from restoreSession_needs_fields [of resuming stranger "ascii ''Bearer''"] p(2) s
  have 2: "\<not> fst (restoreSession resuming stranger (ascii ''Bearer''))"
    by blast
  from restoreSession_needs_fields [of resuming stranger "ascii ''part''"] p(3) h(4)
  have 3: "\<not> fst (restoreSession resuming stranger (ascii ''part''))"
     and 4: "calls (snd (restoreSession resuming stranger (ascii ''part''))) = calls stranger"
     and 5: "authenticated (snd (restoreSession resuming stranger (ascii ''part''))) \<longrightarrow> authenticated stranger"
    by blast+
  from 4 5 s have 6: "calls (snd (restoreSession resuming stranger (ascii ''part''))) = []"
    and 7: "\<not> authenticated (snd (restoreSession resuming stranger (ascii ''part'')))"
    by auto
  show ?thesis
    by (intro conjI) (fact f p h 1 2 3 6 7)+
qed

subsection \<open>Unsupported operations\<close>

text \<open>
  C7, as stated, fails: not every operation the remote system has no capability for
  throws. \<^verbatim>\<open>markPostAsRead\<close> (``Bluesky doesn't track read status'') reports
  success and \<^verbatim>\<open>getPrivateMessages\<close> (``Bluesky doesn't have DMs'') returns an
  empty list; \<^verbatim>\<open>listRegistrationApplications\<close> returns an empty list where
  \<^verbatim>\<open>approveRegistrationApplication\<close> throws that Bluesky has no registration
  applications.
\<close>

theorem unsupported_counterexample:
  "answered online loggedIn MarkPostAsRead = (Inr Succeeded, loggedIn)
   \<and> answered online loggedIn GetPrivateMessages = (Inr Empty, loggedIn)
   \<and> answered online loggedIn ListRegistrationApplications = (Inr Empty, loggedIn)
   \<and> unsupported online loggedIn (PersonMethod ApproveRegistrationApplication)
       = (Inl (Error ''Bluesky does not have registration applications''), loggedIn)"
  by (simp add: answered_def unsupported_def)

text \<open>
  C7, amended: every operation the adapter rejects as unsupported (among them
  \<^verbatim>\<open>editPost\<close>, \<^verbatim>\<open>editComment\<close>, \<^verbatim>\<open>createCommunity\<close>,
  \<^verbatim>\<open>followCommunity\<close>, \<^verbatim>\<open>lockPost\<close>, \<^verbatim>\<open>removePost\<close> and
  \<^verbatim>\<open>generateTotpSecret\<close>) throws its error at once: the client is returned as it
  was, with no call added, the caches and the authentication flag untouched. The
  operations answered with a constant return it at once, and the client as it was.
\<close>

theorem unsupported_fails_immediately:
  "unsupported E s m = (Inl (Error (stubMessage m)), s)
   \<and> calls (snd (unsupported E s m)) = calls s
   \<and> postCache (snd (unsupported E s m)) = postCache s
   \<and> commentCache (snd (unsupported E s m)) = commentCache s
   \<and> authenticated (snd (unsupported E s m)) = authenticated s
   \<and> fst (unsupported E s (PostMethod EditPost))
       = Inl (Error ''Bluesky does not support post editing in the same way'')
   \<and> fst (unsupported E s (CommentMethod EditComment))
       = Inl (Error ''Bluesky does not support comment editing'')
   \<and> fst (unsupported E s (CommunityMethod CreateCommunity))
       = Inl (Error ''Bluesky does not have communities'')
   \<and> fst (unsupported E s (CommunityMethod FollowCommunity))
       = Inl (Error ''Bluesky does not have communities'')
   \<and> fst (unsupported E s (PostMethod LockPost))
       = Inl (Error ''Bluesky does not support locking posts'')
   \<and> fst (unsupported E s (PostMethod RemovePost))
       = Inl (Error ''Bluesky does not have moderation removal'')
   \<and> fst (unsupported E s (SiteMethod GenerateTotpSecret))
       = Inl (Error ''Bluesky does not support TOTP'')
   \<and> answered E s q = (Inr (constantAnswer q), s)"
  by (simp add: unsupported_def answered_def)

subsection \<open>Liking what is not cached\<close>

lemma likeComment_uncached:
  assumes "ensureAuth E s = (Inr (), s1)" and "commentCache s h = None"
  shows "likeComment E s h score = (Inl (Error commentNotCached), s1)"
  using assms after_auth [OF assms(1)] by (simp add: likeComment_def resolve_def)

lemma likeComment_uncached_any:
  assumes "commentCache s h = None"
  shows "(\<exists>e. fst (likeComment E s h score) = Inl e)
         \<and> likeCalls (calls (snd (likeComment E s h score))) = likeCalls (calls s)"
proof -
  obtain res s1 where ea: "ensureAuth E s = (res, s1)" by (cases "ensureAuth E s")
  have lc: "likeCalls (calls s1) = likeCalls (calls s)"
    using ensureAuth_likeCalls [of E s] ea by simp
  show ?thesis
  proof (cases res)
    case (Inl e)
    with ea lc show ?thesis by (simp add: likeComment_def)
  next
    case (Inr u)
    with ea have "likeComment E s h score = (Inl (Error commentNotCached), s1)"
      using likeComment_uncached [of E s s1 h score] assms by simp
    with lc show ?thesis by simp
  qed
qed

text \<open>
  C1, as stated, fails for \<^verbatim>\<open>likePost\<close>: for a handle without a cache entry it
  fetches the recent timeline and looks for a post with that handle. Here the timeline
  holds such a post: the operation caches it, likes it remotely and succeeds.
\<close>

theorem likePost_uncached_counterexample:
  "postCache loggedIn 1623838 = None
   \<and> fst (likePost online loggedIn 1623838 1)
       = Inr \<lparr>pv_id = 1623838, pv_my_vote = Some 1, pv_deleted = False\<rparr>
   \<and> calls (snd (likePost online loggedIn 1623838 1))
       = [GetTimeline 50 None, Like (the (p_uri post1)) (the (p_cid post1)), GetTimeline 50 None]"
proof -
  have ea: "\<And>s. authenticated s \<Longrightarrow> ensureAuth online s = (Inr (), s)"
    by (simp add: ensureAuth_authenticated online_simps)
  have f: "findInTimeline online loggedIn 1623838
           = (Some \<lparr>uri = the (p_uri post1), cid = the (p_cid post1), likeUri = p_viewer_like post1\<rparr>,
              loggedIn\<lparr>calls := [GetTimeline 50 None],
                       postCache := [1623838 \<mapsto> \<lparr>uri = the (p_uri post1), cid = the (p_cid post1),
                                                    likeUri = p_viewer_like post1\<rparr>]\<rparr>)"
    by (simp add: findInTimeline_def online_simps handle_post1 post1_simps loggedIn_simps logCall_def Let_def)
  have g: "\<And>s. authenticated s \<Longrightarrow>
             fst (getPost online s 1623838) = Inr \<lparr>pv_id = 1623838, pv_my_vote = Some 1, pv_deleted = False\<rparr>
             \<and> calls (snd (getPost online s 1623838)) = calls s @ [GetTimeline 50 None]"
    by (simp add: getPost_def ea online_simps handle_post1 mapPostToPostView_def
          handle_post1 [unfolded deriveHandle_def] post1_simps myVote_def logCall_def Let_def)
  have l: "likePost online loggedIn 1623838 1
           = getPost online
               (loggedIn\<lparr>postCache := [1623838 \<mapsto> \<lparr>uri = the (p_uri post1), cid = the (p_cid post1),
                            likeUri = Some (ascii ''at://did:plc:me/app.bsky.feed.like/8'')\<rparr>],
                        calls := [GetTimeline 50 None, Like (the (p_uri post1)) (the (p_cid post1))]\<rparr>)
               1623838"
    by (simp add: likePost_def ea loggedIn_simps f applyScore_def online_simps)
  show ?thesis
    unfolding l using g by (simp add: loggedIn_simps)
qed

lemma getPost_calls_prefix:
  "\<exists>extra. calls (snd (getPost E s h)) = calls s @ extra"
proof -
  obtain res sa where ea: "ensureAuth E s = (res, sa)" by (cases "ensureAuth E s")
  obtain pre where p: "calls sa = calls s @ pre"
    using ensureAuth_calls [of E s] ea by auto
  show ?thesis
    using ea p
    by (cases res)
       (auto simp: getPost_def logCall_def mapPostToPostView_def Let_def
             split: sum.splits option.splits)
qed

lemma likePost_search_fails:
  assumes ea: "ensureAuth E s = (Inr (), s1)" and un: "postCache s h = None"
    and t: "agent_getTimeline E (calls s1) 50 None = Inl e
            \<or> (\<exists>feed. agent_getTimeline E (calls s1) 50 None = Inr feed
                  \<and> (find (\<lambda>p. deriveHandle (p_uri p) = h) (fp_posts feed) = None
                      \<or> (\<exists>p. find (\<lambda>p. deriveHandle (p_uri p) = h) (fp_posts feed) = Some p
                            \<and> \<not> (truthy (p_uri p) \<and> truthy (p_cid p)))))"
  shows "likePost E s h score = (Inl (Error postNotFound), logCall (GetTimeline 50 None) s1)"
proof -
  have c: "postCache s1 h = None" using after_auth [OF ea] un by simp
  from t have "findInTimeline E s1 h = (None, logCall (GetTimeline 50 None) s1)"
    by (auto simp: findInTimeline_def)
  with ea c show ?thesis by (simp add: likePost_def)
qed

lemma likePost_search_finds:
  assumes ea: "ensureAuth E s = (Inr (), s1)" and un: "postCache s h = None"
    and t: "agent_getTimeline E (calls s1) 50 None = Inr feed"
    and f: "find (\<lambda>p. deriveHandle (p_uri p) = h) (fp_posts feed) = Some p"
    and u: "truthy (p_uri p)" "truthy (p_cid p)"
  shows "likePost E s h score =
         (case applyScore E (calls s1 @ [GetTimeline 50 None])
                 ((postCache s)(h \<mapsto> \<lparr>uri = the (p_uri p), cid = the (p_cid p),
                                          likeUri = p_viewer_like p\<rparr>))
                 h \<lparr>uri = the (p_uri p), cid = the (p_cid p), likeUri = p_viewer_like p\<rparr> score of
            (Inl e, c, hist) \<Rightarrow> (Inl e, s1\<lparr>postCache := c, calls := hist\<rparr>)
          | (Inr r', c, hist) \<Rightarrow> getPost E (s1\<lparr>postCache := c, calls := hist\<rparr>) h)"
proof -
  have c: "postCache s1 = postCache s" using after_auth [OF ea] by simp
  have "findInTimeline E s1 h
        = (Some \<lparr>uri = the (p_uri p), cid = the (p_cid p), likeUri = p_viewer_like p\<rparr>,
           (logCall (GetTimeline 50 None) s1)\<lparr>postCache := (postCache s1)(h \<mapsto>
               \<lparr>uri = the (p_uri p), cid = the (p_cid p), likeUri = p_viewer_like p\<rparr>)\<rparr>)"
    using t f u by (simp add: findInTimeline_def Let_def)
  with ea un c show ?thesis
    by (simp add: likePost_def logCall_def split: prod.splits sum.splits)
qed

lemma likePost_search_likes:
  assumes ea: "ensureAuth E s = (Inr (), s1)" and un: "postCache s h = None"
    and t: "agent_getTimeline E (calls s1) 50 None = Inr feed"
    and f: "find (\<lambda>p. deriveHandle (p_uri p) = h) (fp_posts feed) = Some p"
    and u: "truthy (p_uri p)" "truthy (p_cid p)"
  shows "Like (the (p_uri p)) (the (p_cid p)) \<in> set (calls (snd (likePost E s h 1)))"
proof -
  let ?r = "\<lparr>uri = the (p_uri p), cid = the (p_cid p), likeUri = p_viewer_like p\<rparr>"
  let ?c = "(postCache s)(h \<mapsto> ?r)"
  let ?hist = "calls s1 @ [GetTimeline 50 None]"
  note eq = likePost_search_finds [OF assms, of 1]
  show ?thesis
  proof (cases "agent_like E ?hist (the (p_uri p)) (the (p_cid p))")
    case (Inl e)
    then have "applyScore E ?hist ?c h ?r 1 = (Inl e, ?c, ?hist @ [Like (the (p_uri p)) (the (p_cid p))])"
      by (simp add: applyScore_def)
    with eq show ?thesis by simp
  next
    case (Inr l)
    then have a: "applyScore E ?hist ?c h ?r 1
                  = (Inr (?r\<lparr>likeUri := Some l\<rparr>), ?c(h \<mapsto> ?r\<lparr>likeUri := Some l\<rparr>),
                     ?hist @ [Like (the (p_uri p)) (the (p_cid p))])"
      by (simp add: applyScore_def)
    obtain extra where
      "calls (snd (getPost E (s1\<lparr>postCache := ?c(h \<mapsto> ?r\<lparr>likeUri := Some l\<rparr>),
                                  calls := ?hist @ [Like (the (p_uri p)) (the (p_cid p))]\<rparr>) h))
       = (?hist @ [Like (the (p_uri p)) (the (p_cid p))]) @ extra"
      using getPost_calls_prefix
        [of E "s1\<lparr>postCache := ?c(h \<mapsto> ?r\<lparr>likeUri := Some l\<rparr>),
                   calls := ?hist @ [Like (the (p_uri p)) (the (p_cid p))]\<rparr>" h]
      by auto
    with eq a show ?thesis by simp
  qed
qed

text \<open>
  C1, amended: a \<^verbatim>\<open>likeComment\<close> on a handle without a cache entry always fails
  and makes no like call, and once authentication has succeeded its error is the
  not-found one. A \<^verbatim>\<open>likePost\<close> on a handle without a cache entry first fetches
  the recent timeline and takes the first post whose handle is the one asked for. When the
  fetch is rejected, when the timeline has no such post, or when that post lacks its uri or
  its cid, the operation fails with its not-found error and the fetch is its only call.
  When that post has both, the operation caches it and goes on as for a cached handle:
  with score 1 it makes the like call.
\<close>

theorem like_uncached:
  "(commentCache s h = None \<longrightarrow>
      (\<exists>e. fst (likeComment E s h score) = Inl e)
      \<and> likeCalls (calls (snd (likeComment E s h score))) = likeCalls (calls s))
   \<and> (ensureAuth E s = (Inr (), s1) \<and> commentCache s h = None \<longrightarrow>
      likeComment E s h score = (Inl (Error commentNotCached), s1))
   \<and> (ensureAuth E s = (Inr (), s1) \<and> postCache s h = None
       \<and> agent_getTimeline E (calls s1) 50 None = Inl e \<longrightarrow>
      likePost E s h score = (Inl (Error postNotFound), logCall (GetTimeline 50 None) s1))
   \<and> (ensureAuth E s = (Inr (), s1) \<and> postCache s h = None
       \<and> agent_getTimeline E (calls s1) 50 None = Inr feed
       \<and> find (\<lambda>p. deriveHandle (p_uri p) = h) (fp_posts feed) = None \<longrightarrow>
      likePost E s h score = (Inl (Error postNotFound), logCall (GetTimeline 50 None) s1))
   \<and> (ensureAuth E s = (Inr (), s1) \<and> postCache s h = None
       \<and> agent_getTimeline E (calls s1) 50 None = Inr feed
       \<and> find (\<lambda>p. deriveHandle (p_uri p) = h) (fp_posts feed) = Some p
       \<and> \<not> (truthy (p_uri p) \<and> truthy (p_cid p)) \<longrightarrow>
      likePost E s h score = (Inl (Error postNotFound), logCall (GetTimeline 50 None) s1))
   \<and> (ensureAuth E s = (Inr (), s1) \<and> postCache s h = None
       \<and> agent_getTimeline E (calls s1) 50 None = Inr feed
       \<and> find (\<lambda>p. deriveHandle (p_uri p) = h) (fp_posts feed) = Some p
       \<and> truthy (p_uri p) \<and> truthy (p_cid p) \<longrightarrow>
      likePost E s h score =
        (case applyScore E (calls s1 @ [GetTimeline 50 None])
                ((postCache s)(h \<mapsto> \<lparr>uri = the (p_uri p), cid = the (p_cid p),
                                         likeUri = p_viewer_like p\<rparr>))
                h \<lparr>uri = the (p_uri p), cid = the (p_cid p), likeUri = p_viewer_like p\<rparr> score of
           (Inl e, c, hist) \<Rightarrow> (Inl e, s1\<lparr>postCache := c, calls := hist\<rparr>)
         | (Inr r', c, hist) \<Rightarrow> getPost E (s1\<lparr>postCache := c, calls := hist\<rparr>) h)
      \<and> Like (the (p_uri p)) (the (p_cid p)) \<in> set (calls (snd (likePost E s h 1))))"
proof (intro conjI impI)
  assume "commentCache s h = None"
  then show "\<exists>e. fst (likeComment E s h score) = Inl e"
    and "likeCalls (calls (snd (likeComment E s h score))) = likeCalls (calls s)"
    using likeComment_uncached_any [of s h E score] by simp_all
next
  assume "ensureAuth E s = (Inr (), s1) \<and> commentCache s h = None"
  then show "likeComment E s h score = (Inl (Error commentNotCached), s1)"
    using likeComment_uncached [of E s s1 h score] by simp
next
  assume "ensureAuth E s = (Inr (), s1) \<and> postCache s h = None
       \<and> agent_getTimeline E (calls s1) 50 None = Inl e"
  then show "likePost E s h score = (Inl (Error postNotFound), logCall (GetTimeline 50 None) s1)"
    using likePost_search_fails [of E s s1 h e score] by simp
next
  assume "ensureAuth E s = (Inr (), s1) \<and> postCache s h = None
       \<and> agent_getTimeline E (calls s1) 50 None = Inr feed
       \<and> find (\<lambda>p. deriveHandle (p_uri p) = h) (fp_posts feed) = None"
  then show "likePost E s h score = (Inl (Error postNotFound), logCall (GetTimeline 50 None) s1)"
    using likePost_search_fails [of E s s1 h e score] by simp
next
  assume "ensureAuth E s = (Inr (), s1) \<and> postCache s h = None
       \<and> agent_getTimeline E (calls s1) 50 None = Inr feed
       \<and> find (\<lambda>p. deriveHandle (p_uri p) = h) (fp_posts feed) = Some p
       \<and> \<not> (truthy (p_uri p) \<and> truthy (p_cid p))"
  then show "likePost E s h score = (Inl (Error postNotFound), logCall (GetTimeline 50 None) s1)"
    using likePost_search_fails [of E s s1 h e score] by simp
next
  assume a: "ensureAuth E s = (Inr (), s1) \<and> postCache s h = None
       \<and> agent_getTimeline E (calls s1) 50 None = Inr feed
       \<and> find (\<lambda>p. deriveHandle (p_uri p) = h) (fp_posts feed) = Some p
       \<and> truthy (p_uri p) \<and> truthy (p_cid p)"
  then show "likePost E s h score =
        (case applyScore E (calls s1 @ [GetTimeline 50 None])
                ((postCache s)(h \<mapsto> \<lparr>uri = the (p_uri p), cid = the (p_cid p),
                                         likeUri = p_viewer_like p\<rparr>))
                h \<lparr>uri = the (p_uri p), cid = the (p_cid p), likeUri = p_viewer_like p\<rparr> score of
           (Inl e, c, hist) \<Rightarrow> (Inl e, s1\<lparr>postCache := c, calls := hist\<rparr>)
         | (Inr r', c, hist) \<Rightarrow> getPost E (s1\<lparr>postCache := c, calls := hist\<rparr>) h)"
    using likePost_search_finds [of E s s1 h feed p score] by simp
  from a show "Like (the (p_uri p)) (the (p_cid p)) \<in> set (calls (snd (likePost E s h 1)))"
    using likePost_search_likes [of E s s1 h feed p] by simp
qed

theorem like_uncached_witness:
  "commentCache loggedIn 7 = None \<and> postCache loggedIn 7 = None
   \<and> postCache loggedIn 1623840 = None \<and> postCache loggedIn 1623838 = None
   \<and> ensureAuth offline loggedIn = (Inr (), loggedIn)
   \<and> likeComment offline loggedIn 7 1 = (Inl (Error commentNotCached), loggedIn)
   \<and> likeCalls (calls (snd (likeComment offline loggedIn 7 1))) = []
   \<and> agent_getTimeline offline (calls loggedIn) 50 None = Inl (Rejected 503)
   \<and> likePost offline loggedIn 7 1
       = (Inl (Error postNotFound), loggedIn\<lparr>calls := [GetTimeline 50 None]\<rparr>)
   \<and> ensureAuth online loggedIn = (Inr (), loggedIn)
   \<and> agent_getTimeline online (calls loggedIn) 50 None
       = Inr \<lparr>fp_posts = [post1], fp_cursor = None\<rparr>
   \<and> find (\<lambda>p. deriveHandle (p_uri p) = 7) [post1] = None
   \<and> likePost online loggedIn 7 1
       = (Inl (Error postNotFound), loggedIn\<lparr>calls := [GetTimeline 50 None]\<rparr>)
   \<and> ensureAuth sparse loggedIn = (Inr (), loggedIn)
   \<and> agent_getTimeline sparse (calls loggedIn) 50 None
       = Inr \<lparr>fp_posts = [post3], fp_cursor = None\<rparr>
   \<and> find (\<lambda>p. deriveHandle (p_uri p) = 1623840) [post3] = Some post3
   \<and> \<not> truthy (p_cid post3)
   \<and> likePost sparse loggedIn 1623840 1
       = (Inl (Error postNotFound), loggedIn\<lparr>calls := [GetTimeline 50 None]\<rparr>)
   \<and> find (\<lambda>p. deriveHandle (p_uri p) = 1623838) [post1] = Some post1
   \<and> truthy (p_uri post1) \<and> truthy (p_cid post1)
   \<and> Like (the (p_uri post1)) (the (p_cid post1))
       \<in> set (calls (snd (likePost online loggedIn 1623838 1)))"
proof -
  have c: "commentCache loggedIn 7 = None" "postCache loggedIn 7 = None"
    "postCache loggedIn 1623840 = None" "postCache loggedIn 1623838 = None"
    by (simp_all add: loggedIn_simps)
  have t: "agent_getTimeline offline (calls loggedIn) 50 None = Inl (Rejected 503)"
    "agent_getTimeline online (calls loggedIn) 50 None = Inr \<lparr>fp_posts = [post1], fp_cursor = None\<rparr>"
    "agent_getTimeline sparse (calls loggedIn) 50 None = Inr \<lparr>fp_posts = [post3], fp_cursor = None\<rparr>"
    by (simp_all add: offline_simps online_simps sparse_simps)
  have f: "find (\<lambda>p. deriveHandle (p_uri p) = 7) [post1] = None"
    "find (\<lambda>p. deriveHandle (p_uri p) = 1623840) [post3] = Some post3"
    "find (\<lambda>p. deriveHandle (p_uri p) = 1623838) [post1] = Some post1"
    by (simp_all add: handle_post1 handle_post3)
  note w1 = like_uncached [of loggedIn 7 offline 1 loggedIn "Rejected 503"]
  note w2 = like_uncached [of loggedIn 7 online 1 loggedIn _ "\<lparr>fp_posts = [post1], fp_cursor = None\<rparr>"]
  note w3 = like_uncached [of loggedIn 1623840 sparse 1 loggedIn _
              "\<lparr>fp_posts = [post3], fp_cursor = None\<rparr>" post3]
  note w4 = like_uncached [of loggedIn 1623838 online 1 loggedIn _
              "\<lparr>fp_posts = [post1], fp_cursor = None\<rparr>" post1]
  from w1 c offline_loggedIn
  have 1: "likeComment offline loggedIn 7 1 = (Inl (Error commentNotCached), loggedIn)" by blast
  from w1 c have "likeCalls (calls (snd (likeComment offline loggedIn 7 1))) = likeCalls (calls loggedIn)"
    by blast
  then have 2: "likeCalls (calls (snd (likeComment offline loggedIn 7 1))) = []"
    by (simp add: loggedIn_simps likeCalls_def)
  from w1 c offline_loggedIn t(1)
  have "likePost offline loggedIn 7 1 = (Inl (Error postNotFound), logCall (GetTimeline 50 None) loggedIn)"
    by blast
  then have 3: "likePost offline loggedIn 7 1
       = (Inl (Error postNotFound), loggedIn\<lparr>calls := [GetTimeline 50 None]\<rparr>)"
    by (simp add: logCall_def loggedIn_simps)
  from w2 c online_loggedIn t(2) f(1)
  have "likePost online loggedIn 7 1 = (Inl (Error postNotFound), logCall (GetTimeline 50 None) loggedIn)"
    by simp
  then have 4: "likePost online loggedIn 7 1
       = (Inl (Error postNotFound), loggedIn\<lparr>calls := [GetTimeline 50 None]\<rparr>)"
    by (simp add: logCall_def loggedIn_simps)
  from w3 c sparse_loggedIn t(3) f(2) post3_simps
  have "likePost sparse loggedIn 1623840 1 = (Inl (Error postNotFound), logCall (GetTimeline 50 None) loggedIn)"
    by simp
  then have 5: "likePost sparse loggedIn 1623840 1
       = (Inl (Error postNotFound), loggedIn\<lparr>calls := [GetTimeline 50 None]\<rparr>)"
    by (simp add: logCall_def loggedIn_simps)
  have "ensureAuth online loggedIn = (Inr (), loggedIn) \<and> postCache loggedIn 1623838 = None
       \<and> agent_getTimeline online (calls loggedIn) 50 None
           = Inr \<lparr>fp_posts = [post1], fp_cursor = None\<rparr>
       \<and> find (\<lambda>p. deriveHandle (p_uri p) = 1623838)
             (fp_posts \<lparr>fp_posts = [post1], fp_cursor = None\<rparr>) = Some post1
       \<and> truthy (p_uri post1) \<and> truthy (p_cid post1)"
    using c online_loggedIn t(2) f(3) post1_simps by simp
  with w4
  have 6: "Like (the (p_uri post1)) (the (p_cid post1))
       \<in> set (calls (snd (likePost online loggedIn 1623838 1)))"
    by blast
  show ?thesis
    by (intro conjI) (fact c offline_loggedIn online_loggedIn sparse_loggedIn t f post3_simps
          post1_simps 1 2 3 4 5 6)+
qed

subsection \<open>Replying to a comment\<close>

lemma createComment_reply:
  assumes "parent_id = Some n" and "n \<noteq> 0"
  shows "snd (createComment E s post_id parent_id content) = snd (ensureAuth E s)
         \<and> fst (createComment E s post_id parent_id content)
             = (case fst (ensureAuth E s) of Inl e \<Rightarrow> Inl e | Inr u \<Rightarrow> Inl (Error replyUnsupported))"
proof -
  obtain res s1 where ea: "ensureAuth E s = (res, s1)" by (cases "ensureAuth E s")
  show ?thesis
    using assms ea by (cases res) (simp_all add: createComment_def truthy_num_def)
qed

text \<open>
  For the parent id 0, which \<^verbatim>\<open>if (form.parent_id)\<close> takes for absent, the reply
  is posted to the post.
\<close>

lemma createComment_parent_zero:
  "createComment online reader 1623839 (Some 0) (ascii ''hi'')
   = (Inr \<lparr>cv_id = 1623840, cv_post_id = 1623839, cv_path = [0, 1623840], cv_my_vote = None\<rparr>,
      reader\<lparr>calls := [Post (ascii ''hi'') (uri ref2) (cid ref2)]\<rparr>)"
  by (simp add: createComment_def ensureAuth_def reader_def loggedIn_def newClient_def online_def
        truthy_num_def resolve_def logCall_def Let_def)
     (simp add: hashOr_def pop_def truthy_def ascii_def slash_def hashStep_def shl5_def
        toInt32_def charCodeAt0_def)

text \<open>
  C9, as stated, fails: \<^verbatim>\<open>createComment\<close> authenticates before it looks at
  \<^verbatim>\<open>parent_id\<close>. A client that holds credentials and has not logged in yet makes the
  remote login call, and is marked authenticated, before the reply is rejected. And the
  parent id 0, which is not null, is not rejected at all.
\<close>

theorem createComment_reply_counterexample:
  "calls newcomer = [] \<and> \<not> authenticated newcomer
   \<and> fst (createComment online newcomer 1623838 (Some 5) (ascii ''hi'')) = Inl (Error replyUnsupported)
   \<and> calls (snd (createComment online newcomer 1623838 (Some 5) (ascii ''hi'')))
       = [Login (ascii ''alice'') (ascii ''app-password'')]
   \<and> authenticated (snd (createComment online newcomer 1623838 (Some 5) (ascii ''hi'')))
   \<and> createComment online reader 1623839 (Some 0) (ascii ''hi'')
       = (Inr \<lparr>cv_id = 1623840, cv_post_id = 1623839, cv_path = [0, 1623840], cv_my_vote = None\<rparr>,
          reader\<lparr>calls := [Post (ascii ''hi'') (uri ref2) (cid ref2)]\<rparr>)"
proof -
  have "fst (createComment online newcomer 1623838 (Some 5) (ascii ''hi'')) = Inl (Error replyUnsupported)
   \<and> calls (snd (createComment online newcomer 1623838 (Some 5) (ascii ''hi'')))
       = [Login (ascii ''alice'') (ascii ''app-password'')]
   \<and> authenticated (snd (createComment online newcomer 1623838 (Some 5) (ascii ''hi'')))"
    by (simp add: createComment_def ensureAuth_newcomer truthy_num_def)
  with newcomer_simps(1,2) createComment_parent_zero show ?thesis
    by (intro conjI) blast+
qed

text \<open>
  C9, amended: a \<^verbatim>\<open>createComment\<close> whose \<^verbatim>\<open>parent_id\<close> is a number other
  than 0 always throws; it leaves the client as the authentication step
  (\<^verbatim>\<open>#ensureAuth\<close>) left it, so its only calls are that step's, it posts nothing
  and both caches are as before; when
  authentication succeeds the error is the one that rejects replies to comments, and on a
  client that is already authenticated nothing at all has changed.
\<close>

theorem createComment_reply_rejected:
  "parent_id = Some n \<and> n \<noteq> 0 \<longrightarrow>
     (\<exists>e. fst (createComment E s post_id parent_id content) = Inl e)
     \<and> snd (createComment E s post_id parent_id content) = snd (ensureAuth E s)
     \<and> (\<exists>extra. calls (snd (createComment E s post_id parent_id content)) = calls s @ extra
                  \<and> list_all isAuthCall extra)
     \<and> postCache (snd (createComment E s post_id parent_id content)) = postCache s
     \<and> commentCache (snd (createComment E s post_id parent_id content)) = commentCache s
     \<and> (fst (ensureAuth E s) = Inr () \<longrightarrow>
          fst (createComment E s post_id parent_id content) = Inl (Error replyUnsupported))
     \<and> (authenticated s \<and> agent_session E (calls s) \<longrightarrow>
          createComment E s post_id parent_id content = (Inl (Error replyUnsupported), s))"
proof (intro impI)
  assume a: "parent_id = Some n \<and> n \<noteq> 0"
  then have r: "snd (createComment E s post_id parent_id content) = snd (ensureAuth E s)"
    and f: "fst (createComment E s post_id parent_id content)
             = (case fst (ensureAuth E s) of Inl e \<Rightarrow> Inl e | Inr u \<Rightarrow> Inl (Error replyUnsupported))"
    using createComment_reply [of parent_id n E s post_id content] by simp_all
  have 1: "\<exists>e. fst (createComment E s post_id parent_id content) = Inl e"
    unfolding f by (cases "fst (ensureAuth E s)") simp_all
  have 2: "postCache (snd (createComment E s post_id parent_id content)) = postCache s"
    "commentCache (snd (createComment E s post_id parent_id content)) = commentCache s"
    unfolding r using ensureAuth_caches [of E s] by simp_all
  have 3: "fst (createComment E s post_id parent_id content) = Inl (Error replyUnsupported)"
    if "fst (ensureAuth E s) = Inr ()"
    unfolding f using that by simp
  have 4: "createComment E s post_id parent_id content = (Inl (Error replyUnsupported), s)"
    if "authenticated s \<and> agent_session E (calls s)"
  proof -
    from that have "ensureAuth E s = (Inr (), s)" by (simp add: ensureAuth_authenticated)
    with r f show ?thesis by (simp add: prod_eq_iff)
  qed
  have 5: "\<exists>extra. calls (snd (createComment E s post_id parent_id content)) = calls s @ extra
                  \<and> list_all isAuthCall extra"
    unfolding r by (rule ensureAuth_calls)
  from 1 r 2 3 4 5
  show "(\<exists>e. fst (createComment E s post_id parent_id content) = Inl e)
     \<and> snd (createComment E s post_id parent_id content) = snd (ensureAuth E s)
     \<and> (\<exists>extra. calls (snd (createComment E s post_id parent_id content)) = calls s @ extra
                  \<and> list_all isAuthCall extra)
     \<and> postCache (snd (createComment E s post_id parent_id content)) = postCache s
     \<and> commentCache (snd (createComment E s post_id parent_id content)) = commentCache s
     \<and> (fst (ensureAuth E s) = Inr () \<longrightarrow>
          fst (createComment E s post_id parent_id content) = Inl (Error replyUnsupported))
     \<and> (authenticated s \<and> agent_session E (calls s) \<longrightarrow>
          createComment E s post_id parent_id content = (Inl (Error replyUnsupported), s))"
    by blast
qed

theorem createComment_reply_rejected_witness:
  "truthy_num (Some 5) \<and> authenticated commenter \<and> agent_session online (calls commenter)
   \<and> fst (ensureAuth online commenter) = Inr ()
   \<and> createComment online commenter 1623839 (Some 5) (ascii ''hi'')
       = (Inl (Error replyUnsupported), commenter)"
proof -
  have a: "authenticated commenter" "agent_session online (calls commenter)"
    by (simp_all add: commenter_def loggedIn_simps online_simps)
  then have e: "fst (ensureAuth online commenter) = Inr ()"
    by (simp add: ensureAuth_authenticated)
  from createComment_reply_rejected [of "Some 5" 5 online commenter 1623839 "ascii ''hi''"] a
  have "createComment online commenter 1623839 (Some 5) (ascii ''hi'')
       = (Inl (Error replyUnsupported), commenter)"
    by simp
  with a e show ?thesis by (simp add: truthy_num_def)
qed

subsection \<open>Failures of the remote calls\<close>

text \<open>
  C2, as stated, fails: \<^verbatim>\<open>getUnreadCount\<close> catches the failure of its remote call
  and returns a count of zero, a successful result.
\<close>

theorem getUnreadCount_swallows_counterexample:
  "agent_countUnreadNotifications offline (calls loggedIn) = Inl (Rejected 503)
   \<and> getUnreadCount offline loggedIn
       = (Inr \<lparr>replies = 0, mentions = 0, private_messages = 0\<rparr>,
          loggedIn\<lparr>calls := [CountUnreadNotifications]\<rparr>)"
  by (simp add: getUnreadCount_def offline_loggedIn offline_simps logCall_def loggedIn_simps)

lemma auth_failure_propagates:
  assumes "ensureAuth E s = (Inl e, s1)"
  shows "deletePost E s h = (Inl e, s1)" and "likePost E s h score = (Inl e, s1)"
    and "likeComment E s h score = (Inl e, s1)"
    and "createComment E s h parent content = (Inl e, s1)"
    and "getPost E s h = (Inl e, s1)" and "getPosts E s listing limit page_cursor = (Inl e, s1)"
    and "createPostReport E s h reason = (Inl e, s1)"
    and "createCommentReport E s h reason = (Inl e, s1)"
    and "getComments E s oh = (Inl e, s1)" and "getUnreadCount E s = (Inl e, s1)"
    and "getPersonMentions E s limit = (Inl e, s1)" and "getReplies E s limit = (Inl e, s1)"
    and "getSite E s = (Inl e, s1)" and "search E s kind q limit = (Inl e, s1)"
    and "createPost E s name body url image_urls = (Inl e, s1)"
    and "getPersonDetails E s username person_id limit = (Inl e, s1)"
    and "blockPerson E s actor block = (Inl e, s1)"
    and "saveUserSettings E s display_name bio = (Inl e, s1)"
    and "uploadImage E s img = (Inl e, s1)"
  using assms
  by (simp_all add: deletePost_def likePost_def likeComment_def createComment_def getPost_def
        getPosts_def createPostReport_def createCommentReport_def getComments_def
        getUnreadCount_def getPersonMentions_def getReplies_def notificationIds_def
        getSite_def search_def createPost_def getPersonDetails_def blockPerson_def
        saveUserSettings_def uploadImage_def)

lemma restoreSession_rejected:
  assumes "JSON_parse E blob = Some session" and "requiredFields session = Inr True"
    and "agent_resumeSession E (calls s) session = Some e"
  shows "restoreSession E s blob
         = (False, (logCall (ResumeSession session) s)\<lparr>authenticated := False\<rparr>)"
  using assms by (simp add: restoreSession_def)

lemma ensureAuth_after_restore:
  assumes "\<not> authenticated s" and "truthy (sessionData s)"
    and "restoreSession E s (the (sessionData s)) = (False, s0)"
    and "truthy (opt_identifier s0)" and "truthy (opt_password s0)"
  shows "agent_login E (calls s0) (the (opt_identifier s0)) (the (opt_password s0)) = Some e
         \<Longrightarrow> ensureAuth E s
             = (Inl e, logCall (Login (the (opt_identifier s0)) (the (opt_password s0))) s0)"
    and "agent_login E (calls s0) (the (opt_identifier s0)) (the (opt_password s0)) = None
         \<Longrightarrow> ensureAuth E s
             = (Inr (), (logCall (Login (the (opt_identifier s0)) (the (opt_password s0))) s0)
                          \<lparr>authenticated := True\<rparr>)"
  using assms by (simp_all add: ensureAuth_def)

lemma ensureAuth_login_rejected:
  assumes "\<not> authenticated s" and "\<not> truthy (sessionData s)"
    and "truthy (opt_identifier s)" and "truthy (opt_password s)"
    and "agent_login E (calls s) (the (opt_identifier s)) (the (opt_password s)) = Some e"
  shows "ensureAuth E s
         = (Inl e, logCall (Login (the (opt_identifier s)) (the (opt_password s))) s)"
  using assms by (simp add: ensureAuth_def)

lemma ensureAuth_call_shapes:
  "calls (snd (ensureAuth E s)) = calls s
   \<or> (\<exists>v. calls (snd (ensureAuth E s)) = calls s @ [ResumeSession v])
   \<or> (\<exists>i p. calls (snd (ensureAuth E s)) = calls s @ [Login i p])
   \<or> (\<exists>v i p. calls (snd (ensureAuth E s)) = calls s @ [ResumeSession v, Login i p])"
proof -
  define rs where "rs = (if truthy (sessionData s) \<and> \<not> authenticated s
               then restoreSession E s (the (sessionData s)) else (False, s))"
  have 1: "calls (snd rs) = calls s \<or> (\<exists>v. calls (snd rs) = calls s @ [ResumeSession v])"
    using restoreSession_calls [of E s "the (sessionData s)"] by (simp add: rs_def)
  have 2: "calls (snd (ensureAuth E s)) = calls s
        \<or> calls (snd (ensureAuth E s)) = calls (snd rs)
        \<or> (\<exists>i p. calls (snd (ensureAuth E s)) = calls (snd rs) @ [Login i p])"
    unfolding ensureAuth_def rs_def [symmetric]
    by (cases rs) (simp add: logCall_def split: option.splits)
  from 1 2 show ?thesis by auto
qed

lemma deletePost_rejected:
  assumes "ensureAuth E s = (Inr (), s1)" and "postCache s h = Some r"
    and "agent_deletePost E (calls s1) (uri r) = Some e"
  shows "deletePost E s h = (Inl e, logCall (DeletePost (uri r)) s1)"
  using assms after_auth [OF assms(1)] by (simp add: deletePost_def resolve_def)

lemma applyScore_rejected:
  "agent_like E hist (uri r) (cid r) = Inl e \<Longrightarrow>
     applyScore E hist c h r 1 = (Inl e, c, hist @ [Like (uri r) (cid r)])"
  "truthy (likeUri r) \<Longrightarrow> agent_deleteLike E hist (the (likeUri r)) = Some e \<Longrightarrow>
     applyScore E hist c h r (- 1) = (Inl e, c, hist @ [DeleteLike (the (likeUri r))])"
  by (simp_all add: applyScore_def)

lemma likeComment_rejected:
  assumes "ensureAuth E s = (Inr (), s1)" and "commentCache s h = Some r"
  shows "agent_like E (calls s1) (uri r) (cid r) = Inl e \<Longrightarrow>
           likeComment E s h 1 = (Inl e, logCall (Like (uri r) (cid r)) s1)"
    and "truthy (likeUri r) \<Longrightarrow> agent_deleteLike E (calls s1) (the (likeUri r)) = Some e \<Longrightarrow>
           likeComment E s h (- 1) = (Inl e, logCall (DeleteLike (the (likeUri r))) s1)"
  using assms after_auth [OF assms(1)]
  by (simp_all add: likeComment_def resolve_def applyScore_rejected logCall_def)

lemma likePost_rejected:
  assumes "ensureAuth E s = (Inr (), s1)" and "postCache s h = Some r"
  shows "agent_like E (calls s1) (uri r) (cid r) = Inl e \<Longrightarrow>
           likePost E s h 1 = (Inl e, logCall (Like (uri r) (cid r)) s1)"
    and "truthy (likeUri r) \<Longrightarrow> agent_deleteLike E (calls s1) (the (likeUri r)) = Some e \<Longrightarrow>
           likePost E s h (- 1) = (Inl e, logCall (DeleteLike (the (likeUri r))) s1)"
  using assms after_auth [OF assms(1)]
  by (simp_all add: likePost_def applyScore_rejected logCall_def)

lemma likePost_refresh:
  assumes "ensureAuth E s = (Inr (), s1)" and "postCache s h = Some r"
    and "applyScore E (calls s1) (postCache s) h r score = (Inr r', c, hist)"
  shows "likePost E s h score = getPost E (s1\<lparr>postCache := c, calls := hist\<rparr>) h"
  using assms after_auth [OF assms(1)] by (simp add: likePost_def)

lemma likePost_fetch_rejected:
  assumes "ensureAuth E s = (Inr (), s1)" and "postCache s h = None"
    and "agent_getTimeline E (calls s1) 50 None = Inl e"
  shows "likePost E s h score = (Inl (Error postNotFound), logCall (GetTimeline 50 None) s1)"
  using assms after_auth [OF assms(1)] by (simp add: likePost_def findInTimeline_def)

lemma createComment_rejected:
  assumes "ensureAuth E s = (Inr (), s1)" and "postCache s h = Some r"
    and "\<not> truthy_num parent"
    and "agent_post E (calls s1) content (uri r) (cid r) = Inl e"
  shows "createComment E s h parent content = (Inl e, logCall (Post content (uri r) (cid r)) s1)"
  using assms after_auth [OF assms(1)] by (simp add: createComment_def resolve_def)

lemma getPost_rejected:
  assumes "ensureAuth E s = (Inr (), s1)" and "agent_getTimeline E (calls s1) 50 None = Inl e"
  shows "getPost E s h = (Inl e, logCall (GetTimeline 50 None) s1)"
  using assms by (simp add: getPost_def)

lemma getPosts_rejected:
  assumes "ensureAuth E s = (Inr (), s1)"
  shows "(if truthy listing then the listing else ascii ''All'') = ascii ''Subscribed''
         \<Longrightarrow> agent_getTimeline E (calls s1) (orElse limit 20) (cursorOf page_cursor) = Inl e
         \<Longrightarrow> getPosts E s listing limit page_cursor
             = (Inl e, logCall (GetTimeline (orElse limit 20) (cursorOf page_cursor)) s1)"
    and "(if truthy listing then the listing else ascii ''All'') \<noteq> ascii ''Subscribed''
         \<Longrightarrow> agent_getFeed E (calls s1) whatsHot (orElse limit 20) (cursorOf page_cursor) = Inl e
         \<Longrightarrow> getPosts E s listing limit page_cursor
             = (Inl e, logCall (GetFeed whatsHot (orElse limit 20) (cursorOf page_cursor)) s1)"
  using assms by (simp_all add: getPosts_def Let_def)

lemma createReport_rejected:
  assumes "ensureAuth E s = (Inr (), s1)"
  shows "postCache s h = Some r \<Longrightarrow> agent_createReport E (calls s1) reason (uri r) (cid r) = Some e
           \<Longrightarrow> createPostReport E s h reason = (Inl e, logCall (CreateReport reason (uri r) (cid r)) s1)"
    and "commentCache s h = Some r \<Longrightarrow> agent_createReport E (calls s1) reason (uri r) (cid r) = Some e
           \<Longrightarrow> createCommentReport E s h reason = (Inl e, logCall (CreateReport reason (uri r) (cid r)) s1)"
  using assms after_auth [OF assms]
  by (simp_all add: createPostReport_def createCommentReport_def createReportOn_def resolve_def)

lemma createPost_rejected:
  assumes "ensureAuth E s = (Inr (), s1)"
    and "agent_postRecord E (calls s1) (if truthy body then the body else name)
           (embedOf E name body url image_urls) = Inl e"
  shows "createPost E s name body url image_urls
         = (Inl e, logCall (PostRecord (if truthy body then the body else name)
                              (embedOf E name body url image_urls)) s1)"
  using assms by (simp add: createPost_def Let_def)

lemma getPersonDetails_rejected:
  assumes "ensureAuth E s = (Inr (), s1)" and "handleOf E s1 username person_id = Inr handle"
  shows "agent_getProfile E (calls s1) handle = Inl e
         \<Longrightarrow> getPersonDetails E s username person_id limit
             = (Inl e, logCall (GetProfile handle) s1)"
    and "agent_getProfile E (calls s1) handle = Inr prof
         \<Longrightarrow> agent_getAuthorFeed E (calls s1 @ [GetProfile handle]) handle (orElse limit 20) = Inl e
         \<Longrightarrow> getPersonDetails E s username person_id limit
             = (Inl e, logCall (GetAuthorFeed handle (orElse limit 20))
                         (logCall (GetProfile handle) s1))"
  using assms by (simp_all add: getPersonDetails_def Let_def logCall_def)

lemma blockPerson_rejected:
  assumes "ensureAuth E s = (Inr (), s1)"
    and "\<not> (case actor of Some (IdNum n) \<Rightarrow> n \<noteq> 0 | _ \<Rightarrow> False)" and "actorOf actor \<noteq> []"
  shows "agent_getProfile E (calls s1) (actorOf actor) = Inl e
         \<Longrightarrow> blockPerson E s actor block = (Inl e, logCall (GetProfile (actorOf actor)) s1)"
    and "agent_getProfile E (calls s1) (actorOf actor) = Inr prof
         \<Longrightarrow> agent_session E (calls s1 @ [GetProfile (actorOf actor)])
         \<Longrightarrow> agent_blockCreate E (calls s1 @ [GetProfile (actorOf actor)])
               (agent_session_did E (calls s1 @ [GetProfile (actorOf actor)])) (pr_did prof) = Some e
         \<Longrightarrow> blockPerson E s actor True
             = (Inl e, logCall (BlockCreate (agent_session_did E (calls s1 @ [GetProfile (actorOf actor)]))
                                  (pr_did prof))
                         (logCall (GetProfile (actorOf actor)) s1))"
  using assms by (simp_all add: blockPerson_def Let_def logCall_def)

lemma saveUserSettings_rejected:
  assumes "ensureAuth E s = (Inr (), s1)" and "agent_session E (calls s1)"
  shows "agent_getProfile E (calls s1) (agent_session_did E (calls s1)) = Inl e
         \<Longrightarrow> saveUserSettings E s display_name bio
             = (Inl e, logCall (GetProfile (agent_session_did E (calls s1))) s1)"
    and "agent_getProfile E (calls s1) (agent_session_did E (calls s1)) = Inr prof
         \<Longrightarrow> agent_upsertProfile E (calls s1 @ [GetProfile (agent_session_did E (calls s1))])
               (orOpt display_name (pr_displayName prof)) (orOpt bio (pr_description prof))
               (whenSet (pr_avatar prof)) (whenSet (pr_banner prof)) = Some e
         \<Longrightarrow> saveUserSettings E s display_name bio
             = (Inl e, logCall (UpsertProfile (orOpt display_name (pr_displayName prof))
                                  (orOpt bio (pr_description prof))
                                  (whenSet (pr_avatar prof)) (whenSet (pr_banner prof)))
                         (logCall (GetProfile (agent_session_did E (calls s1))) s1))"
  using assms by (simp_all add: saveUserSettings_def Let_def logCall_def)

lemma uploadImage_rejected:
  assumes "ensureAuth E s = (Inr (), s1)"
  shows "agent_uploadBlob E (calls s1) b (if b_type b \<noteq> [] then b_type b else ascii ''image/jpeg'')
           = Inl e
         \<Longrightarrow> uploadImage E s (ImageBlob b)
             = (Inl e, logCall (UploadBlob b (if b_type b \<noteq> [] then b_type b
                                              else ascii ''image/jpeg'')) s1)"
    and "fetch E (calls s1) u = Inl e
         \<Longrightarrow> uploadImage E s (ImageString u) = (Inl e, logCall (Fetch u) s1)"
    and "fetch E (calls s1) u = Inr b
         \<Longrightarrow> agent_uploadBlob E (calls s1 @ [Fetch u]) b
               (if b_type b \<noteq> [] then b_type b else ascii ''image/jpeg'') = Inl e
         \<Longrightarrow> uploadImage E s (ImageString u)
             = (Inl e, logCall (UploadBlob b (if b_type b \<noteq> [] then b_type b
                                              else ascii ''image/jpeg''))
                         (logCall (Fetch u) s1))"
  using assms by (simp_all add: uploadImage_def uploadBlob_def Let_def logCall_def)

lemma login_rejected:
  assumes "agent_login E (calls s) u p = Some e"
  shows "login E s u p = (Inl (Error (loginFailure E e)), logCall (Login u p) s)"
  using assms by (simp add: login_def)

lemma getUnreadCount_rejected:
  assumes "ensureAuth E s = (Inr (), s1)" and "agent_countUnreadNotifications E (calls s1) = Inl e"
  shows "getUnreadCount E s
         = (Inr \<lparr>replies = 0, mentions = 0, private_messages = 0\<rparr>, logCall CountUnreadNotifications s1)"
  using assms by (simp add: getUnreadCount_def)

lemma getComments_rejected:
  assumes "ensureAuth E s = (Inr (), s1)" and "postCache s h = Some r"
    and "agent_getPostThread E (calls s1) (uri r) 10 = Inl e"
  shows "getComments E s (Some h) = (Inr [], logCall (GetPostThread (uri r) 10) s1)"
  using assms after_auth [OF assms(1)] by (simp add: getComments_def)

lemma notifications_rejected:
  assumes "ensureAuth E s = (Inr (), s1)"
    and "agent_listNotifications E (calls s1) (orElse limit 20) = Inl e"
  shows "getPersonMentions E s limit = (Inr [], logCall (ListNotifications (orElse limit 20)) s1)"
    and "getReplies E s limit = (Inr [], logCall (ListNotifications (orElse limit 20)) s1)"
  using assms by (simp_all add: getPersonMentions_def getReplies_def notificationIds_def)

lemma search_rejected:
  assumes "ensureAuth E s = (Inr (), s1)"
    and "(if truthy kind then the kind else ascii ''All'') = ascii ''All''"
    and "agent_searchPosts E (calls s1) (orEmpty q) limit = Inl e"
    and "agent_searchActors E (calls s1 @ [SearchPosts (orEmpty q) limit]) (orEmpty q) (orElse limit 20)
         = Inl e'"
  shows "search E s kind q limit
         = (Inr ([], []), logCall (SearchActors (orEmpty q) (orElse limit 20))
                            (logCall (SearchPosts (orEmpty q) limit) s1))"
  using assms by (simp add: search_def Let_def logCall_def)

lemma search_succeeds:
  assumes "ensureAuth E s = (Inr (), s1)"
  shows "\<exists>res. fst (search E s kind q limit) = Inr res"
  using assms by (simp add: search_def Let_def split_beta)

lemma offline_more:
  "agent_searchPosts offline hist q n = Inl (Rejected 503)"
  "agent_searchActors offline hist q m = Inl (Rejected 503)"
  "agent_postRecord offline hist t em = Inl (Rejected 503)"
  "agent_getProfile offline hist a = Inl (Rejected 503)"
  "agent_uploadBlob offline hist b enc = Inl (Rejected 503)"
  "fetch offline hist u = Inl (Rejected 503)"
  by (simp_all add: offline_def)

lemma halfway_simps:
  "agent_session halfway hist"
  "agent_like halfway hist u c = Inr (ascii ''at://did:plc:me/app.bsky.feed.like/8'')"
  "agent_getProfile halfway hist a = Inr me"
  "fetch halfway hist u = Inr \<lparr>b_content = 1, b_type = []\<rparr>"
  "agent_getTimeline halfway hist n cur = Inl (Rejected 503)"
  "agent_getAuthorFeed halfway hist a n = Inl (Rejected 503)"
  "agent_blockCreate halfway hist repo subject = Some (Rejected 503)"
  "agent_upsertProfile halfway hist dn de av ba = Some (Rejected 503)"
  "agent_uploadBlob halfway hist b enc = Inl (Rejected 503)"
  by (simp_all add: halfway_def offline_def)

lemma returning_simps:
  "\<not> authenticated returning" "calls returning = []"
  "sessionData returning = Some (ascii ''full'')"
  "opt_identifier returning = Some (ascii ''alice'')"
  "opt_password returning = Some (ascii ''app-password'')"
  by (simp_all add: returning_def newClient_def truthy_def ascii_def)

lemma requiredFields_fullSession: "requiredFields fullSession = Inr True"
  by (simp add: requiredFields_def fullSession_def accessJwt_def refreshJwt_def
        did_def ascii_def)

lemma restoreSession_expired:
  "restoreSession expired returning (ascii ''full'')
   = (False, (logCall (ResumeSession fullSession) returning)\<lparr>authenticated := False\<rparr>)"
  by (simp add: restoreSession_def expired_def resuming_def requiredFields_fullSession)

text \<open>
  C2, amended. No operation retries a failed remote call: after a failure the calls made
  are those made before plus the failed one. A failure of the authentication step is the
  error of every operation that runs it (all but \<^verbatim>\<open>login\<close> and
  \<^verbatim>\<open>logout\<close>). In that step a rejected \<^verbatim>\<open>resumeSession\<close> is caught: the
  restore answers false and clears the authenticated flag, the step goes on to log in with
  the stored credentials, and it fails only when that login is rejected (or there are no
  credentials); it makes at most one \<^verbatim>\<open>resumeSession\<close> and one
  \<^verbatim>\<open>login\<close> call. \<^verbatim>\<open>login\<close> itself answers a rejected login with a new
  error that carries its own message. After the authentication step succeeded, a failure
  of a remote call is the operation's error, unchanged, in \<^verbatim>\<open>deletePost\<close>,
  \<^verbatim>\<open>likePost\<close> (the like, the unlike and the refresh that ends it),
  \<^verbatim>\<open>likeComment\<close>, \<^verbatim>\<open>createComment\<close>, \<^verbatim>\<open>getPost\<close>,
  \<^verbatim>\<open>getPosts\<close> (the timeline of the listing \<^verbatim>\<open>Subscribed\<close> and the feed of
  the others), \<^verbatim>\<open>createPostReport\<close>, \<^verbatim>\<open>createCommentReport\<close>,
  \<^verbatim>\<open>createPost\<close>, \<^verbatim>\<open>getPersonDetails\<close> (profile and author feed),
  \<^verbatim>\<open>blockPerson\<close> (profile and block record), \<^verbatim>\<open>saveUserSettings\<close>
  (profile read and write) and \<^verbatim>\<open>uploadImage\<close> (fetch and upload). The timeline
  fetch of \<^verbatim>\<open>likePost\<close> for a handle that is not cached is answered with the
  not-found error instead. \<^verbatim>\<open>getUnreadCount\<close>, \<^verbatim>\<open>getComments\<close>,
  \<^verbatim>\<open>getPersonMentions\<close>, \<^verbatim>\<open>getReplies\<close> and \<^verbatim>\<open>search\<close> (which
  never fails once authenticated) answer a failure of their remote calls with the zero
  count or the empty lists.
\<close>

theorem remote_failure_policy:
  "(ensureAuth E s = (Inl e, s1) \<longrightarrow>
      deletePost E s h = (Inl e, s1) \<and> likePost E s h score = (Inl e, s1)
      \<and> likeComment E s h score = (Inl e, s1)
      \<and> createComment E s h parent content = (Inl e, s1)
      \<and> getPost E s h = (Inl e, s1) \<and> getPosts E s listing limit page_cursor = (Inl e, s1)
      \<and> createPostReport E s h reason = (Inl e, s1)
      \<and> createCommentReport E s h reason = (Inl e, s1)
      \<and> getComments E s oh = (Inl e, s1) \<and> getUnreadCount E s = (Inl e, s1)
      \<and> getPersonMentions E s limit = (Inl e, s1) \<and> getReplies E s limit = (Inl e, s1)
      \<and> getSite E s = (Inl e, s1) \<and> search E s kind q limit = (Inl e, s1)
      \<and> createPost E s name body url image_urls = (Inl e, s1)
      \<and> getPersonDetails E s username person_id limit = (Inl e, s1)
      \<and> blockPerson E s actor block = (Inl e, s1)
      \<and> saveUserSettings E s display_name bio = (Inl e, s1)
      \<and> uploadImage E s img = (Inl e, s1))
   \<and> (JSON_parse E blob = Some session \<and> requiredFields session = Inr True
       \<and> agent_resumeSession E (calls s) session = Some e \<longrightarrow>
      restoreSession E s blob
      = (False, (logCall (ResumeSession session) s)\<lparr>authenticated := False\<rparr>))
   \<and> (\<not> authenticated s \<and> truthy (sessionData s)
       \<and> restoreSession E s (the (sessionData s)) = (False, s0)
       \<and> truthy (opt_identifier s0) \<and> truthy (opt_password s0)
       \<and> agent_login E (calls s0) (the (opt_identifier s0)) (the (opt_password s0)) = Some e \<longrightarrow>
      ensureAuth E s
      = (Inl e, logCall (Login (the (opt_identifier s0)) (the (opt_password s0))) s0))
   \<and> (\<not> authenticated s \<and> truthy (sessionData s)
       \<and> restoreSession E s (the (sessionData s)) = (False, s0)
       \<and> truthy (opt_identifier s0) \<and> truthy (opt_password s0)
       \<and> agent_login E (calls s0) (the (opt_identifier s0)) (the (opt_password s0)) = None \<longrightarrow>
      ensureAuth E s
      = (Inr (), (logCall (Login (the (opt_identifier s0)) (the (opt_password s0))) s0)
                   \<lparr>authenticated := True\<rparr>))
   \<and> (\<not> authenticated s \<and> \<not> truthy (sessionData s)
       \<and> truthy (opt_identifier s) \<and> truthy (opt_password s)
       \<and> agent_login E (calls s) (the (opt_identifier s)) (the (opt_password s)) = Some e \<longrightarrow>
      ensureAuth E s
      = (Inl e, logCall (Login (the (opt_identifier s)) (the (opt_password s))) s))
   \<and> (calls (snd (ensureAuth E s)) = calls s
       \<or> (\<exists>v. calls (snd (ensureAuth E s)) = calls s @ [ResumeSession v])
       \<or> (\<exists>i p. calls (snd (ensureAuth E s)) = calls s @ [Login i p])
       \<or> (\<exists>v i p. calls (snd (ensureAuth E s)) = calls s @ [ResumeSession v, Login i p]))
   \<and> (agent_login E (calls s) u p = Some e \<longrightarrow>
      login E s u p = (Inl (Error (loginFailure E e)), logCall (Login u p) s))
   \<and> (ensureAuth E s = (Inr (), s1) \<longrightarrow>
        (postCache s h = Some r \<and> agent_deletePost E (calls s1) (uri r) = Some e \<longrightarrow>
           deletePost E s h = (Inl e, logCall (DeletePost (uri r)) s1))
      \<and> (postCache s h = Some r \<and> agent_like E (calls s1) (uri r) (cid r) = Inl e \<longrightarrow>
           likePost E s h 1 = (Inl e, logCall (Like (uri r) (cid r)) s1))
      \<and> (postCache s h = Some r \<and> truthy (likeUri r)
           \<and> agent_deleteLike E (calls s1) (the (likeUri r)) = Some e \<longrightarrow>
           likePost E s h (- 1) = (Inl e, logCall (DeleteLike (the (likeUri r))) s1))
      \<and> (postCache s h = Some r
           \<and> applyScore E (calls s1) (postCache s) h r score = (Inr r', c, hist) \<longrightarrow>
           likePost E s h score = getPost E (s1\<lparr>postCache := c, calls := hist\<rparr>) h)
      \<and> (postCache s h = None \<and> agent_getTimeline E (calls s1) 50 None = Inl e \<longrightarrow>
           likePost E s h score
           = (Inl (Error postNotFound), logCall (GetTimeline 50 None) s1))
      \<and> (commentCache s h = Some r \<and> agent_like E (calls s1) (uri r) (cid r) = Inl e \<longrightarrow>
           likeComment E s h 1 = (Inl e, logCall (Like (uri r) (cid r)) s1))
      \<and> (commentCache s h = Some r \<and> truthy (likeUri r)
           \<and> agent_deleteLike E (calls s1) (the (likeUri r)) = Some e \<longrightarrow>
           likeComment E s h (- 1) = (Inl e, logCall (DeleteLike (the (likeUri r))) s1))
      \<and> (postCache s h = Some r \<and> \<not> truthy_num parent
           \<and> agent_post E (calls s1) content (uri r) (cid r) = Inl e \<longrightarrow>
           createComment E s h parent content
           = (Inl e, logCall (Post content (uri r) (cid r)) s1))
      \<and> (agent_getTimeline E (calls s1) 50 None = Inl e \<longrightarrow>
           getPost E s h = (Inl e, logCall (GetTimeline 50 None) s1))
      \<and> ((if truthy listing then the listing else ascii ''All'') = ascii ''Subscribed''
           \<and> agent_getTimeline E (calls s1) (orElse limit 20) (cursorOf page_cursor) = Inl e \<longrightarrow>
           getPosts E s listing limit page_cursor
           = (Inl e, logCall (GetTimeline (orElse limit 20) (cursorOf page_cursor)) s1))
      \<and> ((if truthy listing then the listing else ascii ''All'') \<noteq> ascii ''Subscribed''
           \<and> agent_getFeed E (calls s1) whatsHot (orElse limit 20) (cursorOf page_cursor) = Inl e \<longrightarrow>
           getPosts E s listing limit page_cursor
           = (Inl e, logCall (GetFeed whatsHot (orElse limit 20) (cursorOf page_cursor)) s1))
      \<and> (postCache s h = Some r
           \<and> agent_createReport E (calls s1) reason (uri r) (cid r) = Some e \<longrightarrow>
           createPostReport E s h reason
           = (Inl e, logCall (CreateReport reason (uri r) (cid r)) s1))
      \<and> (commentCache s h = Some r
           \<and> agent_createReport E (calls s1) reason (uri r) (cid r) = Some e \<longrightarrow>
           createCommentReport E s h reason
           = (Inl e, logCall (CreateReport reason (uri r) (cid r)) s1))
      \<and> (agent_postRecord E (calls s1) (if truthy body then the body else name)
             (embedOf E name body url image_urls) = Inl e \<longrightarrow>
           createPost E s name body url image_urls
           = (Inl e, logCall (PostRecord (if truthy body then the body else name)
                                (embedOf E name body url image_urls)) s1))
      \<and> (handleOf E s1 username person_id = Inr handle
           \<and> agent_getProfile E (calls s1) handle = Inl e \<longrightarrow>
           getPersonDetails E s username person_id limit
           = (Inl e, logCall (GetProfile handle) s1))
      \<and> (handleOf E s1 username person_id = Inr handle
           \<and> agent_getProfile E (calls s1) handle = Inr prof
           \<and> agent_getAuthorFeed E (calls s1 @ [GetProfile handle]) handle (orElse limit 20)
               = Inl e \<longrightarrow>
           getPersonDetails E s username person_id limit
           = (Inl e, logCall (GetAuthorFeed handle (orElse limit 20))
                       (logCall (GetProfile handle) s1)))
      \<and> (\<not> (case actor of Some (IdNum n) \<Rightarrow> n \<noteq> 0 | _ \<Rightarrow> False) \<and> actorOf actor \<noteq> []
           \<and> agent_getProfile E (calls s1) (actorOf actor) = Inl e \<longrightarrow>
           blockPerson E s actor block = (Inl e, logCall (GetProfile (actorOf actor)) s1))
      \<and> (\<not> (case actor of Some (IdNum n) \<Rightarrow> n \<noteq> 0 | _ \<Rightarrow> False) \<and> actorOf actor \<noteq> []
           \<and> agent_getProfile E (calls s1) (actorOf actor) = Inr prof
           \<and> agent_session E (calls s1 @ [GetProfile (actorOf actor)])
           \<and> agent_blockCreate E (calls s1 @ [GetProfile (actorOf actor)])
                (agent_session_did E (calls s1 @ [GetProfile (actorOf actor)])) (pr_did prof)
               = Some e \<longrightarrow>
           blockPerson E s actor True
           = (Inl e, logCall (BlockCreate
                                (agent_session_did E (calls s1 @ [GetProfile (actorOf actor)]))
                                (pr_did prof))
                       (logCall (GetProfile (actorOf actor)) s1)))
      \<and> (agent_session E (calls s1)
           \<and> agent_getProfile E (calls s1) (agent_session_did E (calls s1)) = Inl e \<longrightarrow>
           saveUserSettings E s display_name bio
           = (Inl e, logCall (GetProfile (agent_session_did E (calls s1))) s1))
      \<and> (agent_session E (calls s1)
           \<and> agent_getProfile E (calls s1) (agent_session_did E (calls s1)) = Inr prof
           \<and> agent_upsertProfile E (calls s1 @ [GetProfile (agent_session_did E (calls s1))])
                (orOpt display_name (pr_displayName prof)) (orOpt bio (pr_description prof))
                (whenSet (pr_avatar prof)) (whenSet (pr_banner prof)) = Some e \<longrightarrow>
           saveUserSettings E s display_name bio
           = (Inl e, logCall (UpsertProfile (orOpt display_name (pr_displayName prof))
                                (orOpt bio (pr_description prof))
                                (whenSet (pr_avatar prof)) (whenSet (pr_banner prof)))
                       (logCall (GetProfile (agent_session_did E (calls s1))) s1)))
      \<and> (agent_uploadBlob E (calls s1) b
             (if b_type b \<noteq> [] then b_type b else ascii ''image/jpeg'') = Inl e \<longrightarrow>
           uploadImage E s (ImageBlob b)
           = (Inl e, logCall (UploadBlob b (if b_type b \<noteq> [] then b_type b
                                            else ascii ''image/jpeg'')) s1))
      \<and> (fetch E (calls s1) u = Inl e \<longrightarrow>
           uploadImage E s (ImageString u) = (Inl e, logCall (Fetch u) s1))
      \<and> (fetch E (calls s1) u = Inr b
           \<and> agent_uploadBlob E (calls s1 @ [Fetch u]) b
                (if b_type b \<noteq> [] then b_type b else ascii ''image/jpeg'') = Inl e \<longrightarrow>
           uploadImage E s (ImageString u)
           = (Inl e, logCall (UploadBlob b (if b_type b \<noteq> [] then b_type b
                                            else ascii ''image/jpeg''))
                       (logCall (Fetch u) s1)))
      \<and> (agent_countUnreadNotifications E (calls s1) = Inl e \<longrightarrow>
           getUnreadCount E s
           = (Inr \<lparr>replies = 0, mentions = 0, private_messages = 0\<rparr>,
              logCall CountUnreadNotifications s1))
      \<and> (postCache s h = Some r \<and> agent_getPostThread E (calls s1) (uri r) 10 = Inl e \<longrightarrow>
           getComments E s (Some h) = (Inr [], logCall (GetPostThread (uri r) 10) s1))
      \<and> (agent_listNotifications E (calls s1) (orElse limit 20) = Inl e \<longrightarrow>
           getPersonMentions E s limit
           = (Inr [], logCall (ListNotifications (orElse limit 20)) s1)
           \<and> getReplies E s limit
             = (Inr [], logCall (ListNotifications (orElse limit 20)) s1))
      \<and> ((if truthy kind then the kind else ascii ''All'') = ascii ''All''
           \<and> agent_searchPosts E (calls s1) (orEmpty q) limit = Inl e
           \<and> agent_searchActors E (calls s1 @ [SearchPosts (orEmpty q) limit]) (orEmpty q)
                (orElse limit 20) = Inl e' \<longrightarrow>
           search E s kind q limit
           = (Inr ([], []), logCall (SearchActors (orEmpty q) (orElse limit 20))
                              (logCall (SearchPosts (orEmpty q) limit) s1)))
      \<and> (\<exists>res. fst (search E s kind q limit) = Inr res))"
  apply (intro conjI impI; (elim conjE)?)
  apply (rule auth_failure_propagates restoreSession_rejected ensureAuth_login_rejected
        ensureAuth_after_restore ensureAuth_call_shapes login_rejected
        deletePost_rejected likePost_rejected likePost_refresh likePost_fetch_rejected
        likeComment_rejected createComment_rejected getPost_rejected getPosts_rejected
        createReport_rejected createPost_rejected getPersonDetails_rejected
        blockPerson_rejected saveUserSettings_rejected uploadImage_rejected
        getUnreadCount_rejected getComments_rejected notifications_rejected
        search_rejected search_succeeds; assumption)+
  done

theorem remote_failure_policy_witness:
  "ensureAuth offline newcomer = (Inl (Rejected 503), newcomer\<lparr>calls := [Login (ascii ''alice'') (ascii ''app-password'')]\<rparr>)
   \<and> \<not> authenticated newcomer
   \<and> \<not> truthy (sessionData newcomer)
   \<and> truthy (opt_identifier newcomer)
   \<and> truthy (opt_password newcomer)
   \<and> agent_login offline (calls newcomer) (the (opt_identifier newcomer)) (the (opt_password newcomer)) = Some (Rejected 503)
   \<and> agent_login offline (calls newcomer) (ascii ''alice'') (ascii ''app-password'') = Some (Rejected 503)
   \<and> ensureAuth offline member = (Inr (), member)
   \<and> postCache member 5 = Some ref2Liked
   \<and> agent_deletePost offline (calls member) (uri ref2Liked) = Some (Rejected 503)
   \<and> agent_like offline (calls member) (uri ref2Liked) (cid ref2Liked) = Inl (Rejected 503)
   \<and> truthy (likeUri ref2Liked)
   \<and> agent_deleteLike offline (calls member) (the (likeUri ref2Liked)) = Some (Rejected 503)
   \<and> commentCache member 5 = Some ref2Liked
   \<and> \<not> truthy_num None
   \<and> agent_post offline (calls member) (ascii ''hi'') (uri ref2Liked) (cid ref2Liked) = Inl (Rejected 503)
   \<and> agent_getTimeline offline (calls member) 50 None = Inl (Rejected 503)
   \<and> (if truthy None then the None else ascii ''All'') \<noteq> ascii ''Subscribed''
   \<and> agent_getFeed offline (calls member) whatsHot (orElse None 20) (cursorOf None) = Inl (Rejected 503)
   \<and> agent_createReport offline (calls member) (ascii ''spam'') (uri ref2Liked) (cid ref2Liked) = Some (Rejected 503)
   \<and> agent_postRecord offline (calls member) (if truthy None then the None else ascii ''title'') (embedOf offline (ascii ''title'') None None None) = Inl (Rejected 503)
   \<and> handleOf offline member (Some (ascii ''alice.bsky.social'')) None = Inr (ascii ''alice.bsky.social'')
   \<and> agent_getProfile offline (calls member) (ascii ''alice.bsky.social'') = Inl (Rejected 503)
   \<and> \<not> (case Some (IdStr (ascii ''alice.bsky.social'')) of Some (IdNum n) \<Rightarrow> n \<noteq> 0 | _ \<Rightarrow> False)
   \<and> actorOf (Some (IdStr (ascii ''alice.bsky.social''))) \<noteq> []
   \<and> agent_getProfile offline (calls member) (actorOf (Some (IdStr (ascii ''alice.bsky.social'')))) = Inl (Rejected 503)
   \<and> agent_session offline (calls member)
   \<and> agent_getProfile offline (calls member) (agent_session_did offline (calls member)) = Inl (Rejected 503)
   \<and> agent_uploadBlob offline (calls member) \<lparr>b_content = 1, b_type = []\<rparr> (if b_type \<lparr>b_content = 1, b_type = []\<rparr> \<noteq> [] then b_type \<lparr>b_content = 1, b_type = []\<rparr> else ascii ''image/jpeg'') = Inl (Rejected 503)
   \<and> fetch offline (calls member) (ascii ''https://example.com/a.png'') = Inl (Rejected 503)
   \<and> agent_countUnreadNotifications offline (calls member) = Inl (Rejected 503)
   \<and> agent_getPostThread offline (calls member) (uri ref2Liked) 10 = Inl (Rejected 503)
   \<and> agent_listNotifications offline (calls member) (orElse None 20) = Inl (Rejected 503)
   \<and> (if truthy None then the None else ascii ''All'') = ascii ''All''
   \<and> agent_searchPosts offline (calls member) (orEmpty None) None = Inl (Rejected 503)
   \<and> agent_searchActors offline (calls member @ [SearchPosts (orEmpty None) None]) (orEmpty None) (orElse None 20) = Inl (Rejected 503)
   \<and> (if truthy (Some (ascii ''Subscribed'')) then the (Some (ascii ''Subscribed'')) else ascii ''All'') = ascii ''Subscribed''
   \<and> agent_getTimeline offline (calls member) (orElse None 20) (cursorOf None) = Inl (Rejected 503)
   \<and> postCache member 7 = None
   \<and> ensureAuth halfway member = (Inr (), member)
   \<and> applyScore halfway (calls member) (postCache member) 5 ref2Liked 1 = (Inr ref2Liked, [5 \<mapsto> ref2Liked], [Like (uri ref2Liked) (cid ref2Liked)])
   \<and> handleOf halfway member (Some (ascii ''alice.bsky.social'')) None = Inr (ascii ''alice.bsky.social'')
   \<and> agent_getProfile halfway (calls member) (ascii ''alice.bsky.social'') = Inr me
   \<and> agent_getAuthorFeed halfway (calls member @ [GetProfile (ascii ''alice.bsky.social'')]) (ascii ''alice.bsky.social'') (orElse None 20) = Inl (Rejected 503)
   \<and> agent_getProfile halfway (calls member) (actorOf (Some (IdStr (ascii ''alice.bsky.social'')))) = Inr me
   \<and> agent_session halfway (calls member @ [GetProfile (actorOf (Some (IdStr (ascii ''alice.bsky.social''))))])
   \<and> agent_blockCreate halfway (calls member @ [GetProfile (actorOf (Some (IdStr (ascii ''alice.bsky.social''))))]) (agent_session_did halfway (calls member @ [GetProfile (actorOf (Some (IdStr (ascii ''alice.bsky.social''))))])) (pr_did me) = Some (Rejected 503)
   \<and> agent_session halfway (calls member)
   \<and> agent_getProfile halfway (calls member) (agent_session_did halfway (calls member)) = Inr me
   \<and> agent_upsertProfile halfway (calls member @ [GetProfile (agent_session_did halfway (calls member))]) (orOpt None (pr_displayName me)) (orOpt None (pr_description me)) (whenSet (pr_avatar me)) (whenSet (pr_banner me)) = Some (Rejected 503)
   \<and> fetch halfway (calls member) (ascii ''https://example.com/a.png'') = Inr \<lparr>b_content = 1, b_type = []\<rparr>
   \<and> agent_uploadBlob halfway (calls member @ [Fetch (ascii ''https://example.com/a.png'')]) \<lparr>b_content = 1, b_type = []\<rparr> (if b_type \<lparr>b_content = 1, b_type = []\<rparr> \<noteq> [] then b_type \<lparr>b_content = 1, b_type = []\<rparr> else ascii ''image/jpeg'') = Inl (Rejected 503)
   \<and> JSON_parse expired (ascii ''full'') = Some fullSession
   \<and> requiredFields fullSession = Inr True
   \<and> agent_resumeSession expired (calls returning) fullSession = Some (Rejected 401)
   \<and> \<not> authenticated returning
   \<and> truthy (sessionData returning)
   \<and> restoreSession expired returning (the (sessionData returning)) = (False, (logCall (ResumeSession fullSession) returning)\<lparr>authenticated := False\<rparr>)
   \<and> truthy (opt_identifier ((logCall (ResumeSession fullSession) returning)\<lparr>authenticated := False\<rparr>))
   \<and> truthy (opt_password ((logCall (ResumeSession fullSession) returning)\<lparr>authenticated := False\<rparr>))
   \<and> agent_login expired (calls ((logCall (ResumeSession fullSession) returning)\<lparr>authenticated := False\<rparr>)) (the (opt_identifier ((logCall (ResumeSession fullSession) returning)\<lparr>authenticated := False\<rparr>))) (the (opt_password ((logCall (ResumeSession fullSession) returning)\<lparr>authenticated := False\<rparr>))) = None
   \<and> restoreSession offline returning (the (sessionData returning)) = (False, returning)
   \<and> truthy (opt_identifier returning)
   \<and> truthy (opt_password returning)
   \<and> agent_login offline (calls returning) (the (opt_identifier returning)) (the (opt_password returning)) = Some (Rejected 503)
   \<and> deletePost offline newcomer 5 = (Inl (Rejected 503), newcomer\<lparr>calls := [Login (ascii ''alice'') (ascii ''app-password'')]\<rparr>)
   \<and> likePost offline newcomer 5 1 = (Inl (Rejected 503), newcomer\<lparr>calls := [Login (ascii ''alice'') (ascii ''app-password'')]\<rparr>)
   \<and> likeComment offline newcomer 5 1 = (Inl (Rejected 503), newcomer\<lparr>calls := [Login (ascii ''alice'') (ascii ''app-password'')]\<rparr>)
   \<and> createComment offline newcomer 5 None (ascii ''hi'') = (Inl (Rejected 503), newcomer\<lparr>calls := [Login (ascii ''alice'') (ascii ''app-password'')]\<rparr>)
   \<and> getPost offline newcomer 5 = (Inl (Rejected 503), newcomer\<lparr>calls := [Login (ascii ''alice'') (ascii ''app-password'')]\<rparr>)
   \<and> getPosts offline newcomer None None None = (Inl (Rejected 503), newcomer\<lparr>calls := [Login (ascii ''alice'') (ascii ''app-password'')]\<rparr>)
   \<and> createPostReport offline newcomer 5 (ascii ''spam'') = (Inl (Rejected 503), newcomer\<lparr>calls := [Login (ascii ''alice'') (ascii ''app-password'')]\<rparr>)
   \<and> createCommentReport offline newcomer 5 (ascii ''spam'') = (Inl (Rejected 503), newcomer\<lparr>calls := [Login (ascii ''alice'') (ascii ''app-password'')]\<rparr>)
   \<and> getComments offline newcomer (Some 5) = (Inl (Rejected 503), newcomer\<lparr>calls := [Login (ascii ''alice'') (ascii ''app-password'')]\<rparr>)
   \<and> getUnreadCount offline newcomer = (Inl (Rejected 503), newcomer\<lparr>calls := [Login (ascii ''alice'') (ascii ''app-password'')]\<rparr>)
   \<and> getPersonMentions offline newcomer None = (Inl (Rejected 503), newcomer\<lparr>calls := [Login (ascii ''alice'') (ascii ''app-password'')]\<rparr>)
   \<and> getReplies offline newcomer None = (Inl (Rejected 503), newcomer\<lparr>calls := [Login (ascii ''alice'') (ascii ''app-password'')]\<rparr>)
   \<and> getSite offline newcomer = (Inl (Rejected 503), newcomer\<lparr>calls := [Login (ascii ''alice'') (ascii ''app-password'')]\<rparr>)
   \<and> search offline newcomer None None None = (Inl (Rejected 503), newcomer\<lparr>calls := [Login (ascii ''alice'') (ascii ''app-password'')]\<rparr>)
   \<and> createPost offline newcomer (ascii ''title'') None None None = (Inl (Rejected 503), newcomer\<lparr>calls := [Login (ascii ''alice'') (ascii ''app-password'')]\<rparr>)
   \<and> getPersonDetails offline newcomer None None None = (Inl (Rejected 503), newcomer\<lparr>calls := [Login (ascii ''alice'') (ascii ''app-password'')]\<rparr>)
   \<and> blockPerson offline newcomer None True = (Inl (Rejected 503), newcomer\<lparr>calls := [Login (ascii ''alice'') (ascii ''app-password'')]\<rparr>)
   \<and> saveUserSettings offline newcomer None None = (Inl (Rejected 503), newcomer\<lparr>calls := [Login (ascii ''alice'') (ascii ''app-password'')]\<rparr>)
   \<and> uploadImage offline newcomer ImageOther = (Inl (Rejected 503), newcomer\<lparr>calls := [Login (ascii ''alice'') (ascii ''app-password'')]\<rparr>)
   \<and> ensureAuth offline newcomer = (Inl (Rejected 503), logCall (Login (the (opt_identifier newcomer)) (the (opt_password newcomer))) newcomer)
   \<and> login offline newcomer (ascii ''alice'') (ascii ''app-password'') = (Inl (Error (loginFailure offline (Rejected 503))), logCall (Login (ascii ''alice'') (ascii ''app-password'')) newcomer)
   \<and> deletePost offline member 5 = (Inl (Rejected 503), logCall (DeletePost (uri ref2Liked)) member)
   \<and> likePost offline member 5 1 = (Inl (Rejected 503), logCall (Like (uri ref2Liked) (cid ref2Liked)) member)
   \<and> likePost offline member 5 (- 1) = (Inl (Rejected 503), logCall (DeleteLike (the (likeUri ref2Liked))) member)
   \<and> likeComment offline member 5 1 = (Inl (Rejected 503), logCall (Like (uri ref2Liked) (cid ref2Liked)) member)
   \<and> likeComment offline member 5 (- 1) = (Inl (Rejected 503), logCall (DeleteLike (the (likeUri ref2Liked))) member)
   \<and> createComment offline member 5 None (ascii ''hi'') = (Inl (Rejected 503), logCall (Post (ascii ''hi'') (uri ref2Liked) (cid ref2Liked)) member)
   \<and> getPost offline member 5 = (Inl (Rejected 503), logCall (GetTimeline 50 None) member)
   \<and> getPosts offline member None None None = (Inl (Rejected 503), logCall (GetFeed whatsHot (orElse None 20) (cursorOf None)) member)
   \<and> createPostReport offline member 5 (ascii ''spam'') = (Inl (Rejected 503), logCall (CreateReport (ascii ''spam'') (uri ref2Liked) (cid ref2Liked)) member)
   \<and> createCommentReport offline member 5 (ascii ''spam'') = (Inl (Rejected 503), logCall (CreateReport (ascii ''spam'') (uri ref2Liked) (cid ref2Liked)) member)
   \<and> createPost offline member (ascii ''title'') None None None = (Inl (Rejected 503), logCall (PostRecord (if truthy None then the None else ascii ''title'') (embedOf offline (ascii ''title'') None None None)) member)
   \<and> getPersonDetails offline member (Some (ascii ''alice.bsky.social'')) None None = (Inl (Rejected 503), logCall (GetProfile (ascii ''alice.bsky.social'')) member)
   \<and> blockPerson offline member (Some (IdStr (ascii ''alice.bsky.social''))) True = (Inl (Rejected 503), logCall (GetProfile (actorOf (Some (IdStr (ascii ''alice.bsky.social''))))) member)
   \<and> saveUserSettings offline member None None = (Inl (Rejected 503), logCall (GetProfile (agent_session_did offline (calls member))) member)
   \<and> uploadImage offline member (ImageBlob \<lparr>b_content = 1, b_type = []\<rparr>) = (Inl (Rejected 503), logCall (UploadBlob \<lparr>b_content = 1, b_type = []\<rparr> (if b_type \<lparr>b_content = 1, b_type = []\<rparr> \<noteq> [] then b_type \<lparr>b_content = 1, b_type = []\<rparr> else ascii ''image/jpeg'')) member)
   \<and> uploadImage offline member (ImageString (ascii ''https://example.com/a.png'')) = (Inl (Rejected 503), logCall (Fetch (ascii ''https://example.com/a.png'')) member)
   \<and> getUnreadCount offline member = (Inr \<lparr>replies = 0, mentions = 0, private_messages = 0\<rparr>, logCall (CountUnreadNotifications) member)
   \<and> getComments offline member (Some 5) = (Inr [], logCall (GetPostThread (uri ref2Liked) 10) member)
   \<and> getPersonMentions offline member None = (Inr [], logCall (ListNotifications (orElse None 20)) member)
   \<and> getReplies offline member None = (Inr [], logCall (ListNotifications (orElse None 20)) member)
   \<and> search offline member None None None = (Inr ([], []), logCall (SearchActors (orEmpty None) (orElse None 20)) (logCall (SearchPosts (orEmpty None) None) member))
   \<and> getPosts offline member (Some (ascii ''Subscribed'')) None None = (Inl (Rejected 503), logCall (GetTimeline (orElse None 20) (cursorOf None)) member)
   \<and> likePost offline member 7 1 = (Inl (Error postNotFound), logCall (GetTimeline 50 None) member)
   \<and> likePost halfway member 5 1 = getPost halfway (member\<lparr>postCache := [5 \<mapsto> ref2Liked], calls := [Like (uri ref2Liked) (cid ref2Liked)]\<rparr>) 5
   \<and> getPersonDetails halfway member (Some (ascii ''alice.bsky.social'')) None None = (Inl (Rejected 503), logCall (GetAuthorFeed (ascii ''alice.bsky.social'') (orElse None 20)) (logCall (GetProfile (ascii ''alice.bsky.social'')) member))
   \<and> blockPerson halfway member (Some (IdStr (ascii ''alice.bsky.social''))) True = (Inl (Rejected 503), logCall (BlockCreate (agent_session_did halfway (calls member @ [GetProfile (actorOf (Some (IdStr (ascii ''alice.bsky.social''))))])) (pr_did me)) (logCall (GetProfile (actorOf (Some (IdStr (ascii ''alice.bsky.social''))))) member))
   \<and> saveUserSettings halfway member None None = (Inl (Rejected 503), logCall (UpsertProfile (orOpt None (pr_displayName me)) (orOpt None (pr_description me)) (whenSet (pr_avatar me)) (whenSet (pr_banner me))) (logCall (GetProfile (agent_session_did halfway (calls member))) member))
   \<and> uploadImage halfway member (ImageString (ascii ''https://example.com/a.png'')) = (Inl (Rejected 503), logCall (UploadBlob \<lparr>b_content = 1, b_type = []\<rparr> (if b_type \<lparr>b_content = 1, b_type = []\<rparr> \<noteq> [] then b_type \<lparr>b_content = 1, b_type = []\<rparr> else ascii ''image/jpeg'')) (logCall (Fetch (ascii ''https://example.com/a.png'')) member))
   \<and> restoreSession expired returning (ascii ''full'') = (False, (logCall (ResumeSession fullSession) returning)\<lparr>authenticated := False\<rparr>)
   \<and> ensureAuth expired returning = (Inr (), (logCall (Login (the (opt_identifier ((logCall (ResumeSession fullSession) returning)\<lparr>authenticated := False\<rparr>))) (the (opt_password ((logCall (ResumeSession fullSession) returning)\<lparr>authenticated := False\<rparr>)))) ((logCall (ResumeSession fullSession) returning)\<lparr>authenticated := False\<rparr>))\<lparr>authenticated := True\<rparr>)
   \<and> ensureAuth offline returning = (Inl (Rejected 503), logCall (Login (the (opt_identifier returning)) (the (opt_password returning))) returning)"
proof -
  note wA = remote_failure_policy [where E = "offline" and s = "newcomer" and e = "Rejected 503" and ?s1.0 = "newcomer\<lparr>calls := [Login (ascii ''alice'') (ascii ''app-password'')]\<rparr>" and h = "5" and score = "1" and parent = "None" and content = "ascii ''hi''" and listing = "None" and limit = "None" and page_cursor = "None" and reason = "ascii ''spam''" and oh = "Some 5" and kind = "None" and q = "None" and name = "ascii ''title''" and body = "None" and url = "None" and image_urls = "None" and username = "None" and person_id = "None" and actor = "None" and block = "True" and display_name = "None" and bio = "None" and img = "ImageOther" and u = "ascii ''alice''" and p = "ascii ''app-password''"]
  note wB = remote_failure_policy [where E = "offline" and s = "member" and ?s1.0 = "member" and listing = "None" and h = "5" and r = "ref2Liked" and e = "Rejected 503" and parent = "None" and content = "ascii ''hi''" and limit = "None" and page_cursor = "None" and reason = "ascii ''spam''" and kind = "None" and q = "None" and name = "ascii ''title''" and body = "None" and url = "None" and image_urls = "None" and username = "Some (ascii ''alice.bsky.social'')" and person_id = "None" and handle = "ascii ''alice.bsky.social''" and actor = "Some (IdStr (ascii ''alice.bsky.social''))" and display_name = "None" and bio = "None" and b = "\<lparr>b_content = 1, b_type = []\<rparr>" and u = "ascii ''https://example.com/a.png''" and e' = "Rejected 503"]
  note wB2 = remote_failure_policy [where E = "offline" and s = "member" and ?s1.0 = "member" and listing = "Some (ascii ''Subscribed'')" and limit = "None" and page_cursor = "None" and e = "Rejected 503"]
  note wB3 = remote_failure_policy [where E = "offline" and s = "member" and ?s1.0 = "member" and h = "7" and score = "1" and e = "Rejected 503"]
  note wC = remote_failure_policy [where E = "halfway" and s = "member" and ?s1.0 = "member" and score = "1" and r' = "ref2Liked" and c = "[5 \<mapsto> ref2Liked]" and hist = "[Like (uri ref2Liked) (cid ref2Liked)]" and prof = "me" and h = "5" and r = "ref2Liked" and e = "Rejected 503" and parent = "None" and content = "ascii ''hi''" and limit = "None" and page_cursor = "None" and reason = "ascii ''spam''" and kind = "None" and q = "None" and name = "ascii ''title''" and body = "None" and url = "None" and image_urls = "None" and username = "Some (ascii ''alice.bsky.social'')" and person_id = "None" and handle = "ascii ''alice.bsky.social''" and actor = "Some (IdStr (ascii ''alice.bsky.social''))" and display_name = "None" and bio = "None" and b = "\<lparr>b_content = 1, b_type = []\<rparr>" and u = "ascii ''https://example.com/a.png''"]
  note wD = remote_failure_policy [where E = "expired" and s = "returning" and blob = "ascii ''full''" and session = "fullSession" and e = "Rejected 401" and ?s0.0 = "(logCall (ResumeSession fullSession) returning)\<lparr>authenticated := False\<rparr>"]
  note wE = remote_failure_policy [where E = "offline" and s = "returning" and ?s0.0 = "returning" and e = "Rejected 503"]
  have a0: "ensureAuth offline newcomer = (Inl (Rejected 503), newcomer\<lparr>calls := [Login (ascii ''alice'') (ascii ''app-password'')]\<rparr>)"
    by (rule ensureAuth_newcomer_offline)
  have n1: "\<not> authenticated newcomer"
    by (simp add: newcomer_simps)
  have n2: "\<not> truthy (sessionData newcomer)"
    by (simp add: newcomer_simps truthy_def)
  have n3: "truthy (opt_identifier newcomer)"
    by (simp add: newcomer_simps truthy_def ascii_def)
  have n4: "truthy (opt_password newcomer)"
    by (simp add: newcomer_simps truthy_def ascii_def)
  have n5: "agent_login offline (calls newcomer) (the (opt_identifier newcomer)) (the (opt_password newcomer)) = Some (Rejected 503)"
    by (simp add: offline_simps)
  have n6: "agent_login offline (calls newcomer) (ascii ''alice'') (ascii ''app-password'') = Some (Rejected 503)"
    by (simp add: offline_simps)
  have bea: "ensureAuth offline member = (Inr (), member)"
    by (simp add: ensureAuth_authenticated member_simps offline_simps)
  have m1: "postCache member 5 = Some ref2Liked"
    by (simp add: member_simps)
  have b1: "agent_deletePost offline (calls member) (uri ref2Liked) = Some (Rejected 503)"
    by (simp add: offline_simps offline_more)
  have b2: "agent_like offline (calls member) (uri ref2Liked) (cid ref2Liked) = Inl (Rejected 503)"
    by (simp add: offline_simps offline_more)
  have m3: "truthy (likeUri ref2Liked)"
    by (simp add: member_simps)
  have b3: "agent_deleteLike offline (calls member) (the (likeUri ref2Liked)) = Some (Rejected 503)"
    by (simp add: offline_simps offline_more)
  have m2: "commentCache member 5 = Some ref2Liked"
    by (simp add: member_simps)
  have m4: "\<not> truthy_num None"
    by (simp add: truthy_num_def)
  have b4: "agent_post offline (calls member) (ascii ''hi'') (uri ref2Liked) (cid ref2Liked) = Inl (Rejected 503)"
    by (simp add: offline_simps offline_more)
  have b5: "agent_getTimeline offline (calls member) 50 None = Inl (Rejected 503)"
    by (simp add: offline_simps offline_more)
  have l1: "(if truthy None then the None else ascii ''All'') \<noteq> ascii ''Subscribed''"
    by (simp add: truthy_def ascii_def)
  have b6: "agent_getFeed offline (calls member) whatsHot (orElse None 20) (cursorOf None) = Inl (Rejected 503)"
    by (simp add: offline_simps offline_more)
  have b7: "agent_createReport offline (calls member) (ascii ''spam'') (uri ref2Liked) (cid ref2Liked) = Some (Rejected 503)"
    by (simp add: offline_simps offline_more)
  have b8: "agent_postRecord offline (calls member) (if truthy None then the None else ascii ''title'') (embedOf offline (ascii ''title'') None None None) = Inl (Rejected 503)"
    by (simp add: offline_simps offline_more)
  have p1: "handleOf offline member (Some (ascii ''alice.bsky.social'')) None = Inr (ascii ''alice.bsky.social'')"
    by (simp add: handleOf_def truthy_def truthy_num_def ascii_def)
  have b9: "agent_getProfile offline (calls member) (ascii ''alice.bsky.social'') = Inl (Rejected 503)"
    by (simp add: offline_simps offline_more)
  have k1: "\<not> (case Some (IdStr (ascii ''alice.bsky.social'')) of Some (IdNum n) \<Rightarrow> n \<noteq> 0 | _ \<Rightarrow> False)"
    by simp
  have k2: "actorOf (Some (IdStr (ascii ''alice.bsky.social''))) \<noteq> []"
    by (simp add: actorOf_def ascii_def)
  have b10: "agent_getProfile offline (calls member) (actorOf (Some (IdStr (ascii ''alice.bsky.social'')))) = Inl (Rejected 503)"
    by (simp add: offline_simps offline_more)
  have g1: "agent_session offline (calls member)"
    by (simp add: offline_simps)
  have b11: "agent_getProfile offline (calls member) (agent_session_did offline (calls member)) = Inl (Rejected 503)"
    by (simp add: offline_simps offline_more)
  have b12: "agent_uploadBlob offline (calls member) \<lparr>b_content = 1, b_type = []\<rparr> (if b_type \<lparr>b_content = 1, b_type = []\<rparr> \<noteq> [] then b_type \<lparr>b_content = 1, b_type = []\<rparr> else ascii ''image/jpeg'') = Inl (Rejected 503)"
    by (simp add: offline_simps offline_more)
  have b13: "fetch offline (calls member) (ascii ''https://example.com/a.png'') = Inl (Rejected 503)"
    by (simp add: offline_simps offline_more)
  have b14: "agent_countUnreadNotifications offline (calls member) = Inl (Rejected 503)"
    by (simp add: offline_simps offline_more)
  have b15: "agent_getPostThread offline (calls member) (uri ref2Liked) 10 = Inl (Rejected 503)"
    by (simp add: offline_simps offline_more)
  have b16: "agent_listNotifications offline (calls member) (orElse None 20) = Inl (Rejected 503)"
    by (simp add: offline_simps offline_more)
  have q1: "(if truthy None then the None else ascii ''All'') = ascii ''All''"
    by (simp add: truthy_def)
  have b17: "agent_searchPosts offline (calls member) (orEmpty None) None = Inl (Rejected 503)"
    by (simp add: offline_simps offline_more)
  have b18: "agent_searchActors offline (calls member @ [SearchPosts (orEmpty None) None]) (orEmpty None) (orElse None 20) = Inl (Rejected 503)"
    by (simp add: offline_simps offline_more)
  have l2: "(if truthy (Some (ascii ''Subscribed'')) then the (Some (ascii ''Subscribed'')) else ascii ''All'') = ascii ''Subscribed''"
    by (simp add: truthy_def ascii_def)
  have b19: "agent_getTimeline offline (calls member) (orElse None 20) (cursorOf None) = Inl (Rejected 503)"
    by (simp add: offline_simps offline_more)
  have m5: "postCache member 7 = None"
    by (simp add: member_def)
  have cea: "ensureAuth halfway member = (Inr (), member)"
    by (simp add: ensureAuth_authenticated member_simps halfway_simps)
  have c1: "applyScore halfway (calls member) (postCache member) 5 ref2Liked 1 = (Inr ref2Liked, [5 \<mapsto> ref2Liked], [Like (uri ref2Liked) (cid ref2Liked)])"
    by (simp add: applyScore_def halfway_simps member_def loggedIn_simps ref2Liked_def)
  have p2: "handleOf halfway member (Some (ascii ''alice.bsky.social'')) None = Inr (ascii ''alice.bsky.social'')"
    by (simp add: handleOf_def truthy_def truthy_num_def ascii_def)
  have c2: "agent_getProfile halfway (calls member) (ascii ''alice.bsky.social'') = Inr me"
    by (simp add: halfway_simps)
  have c3: "agent_getAuthorFeed halfway (calls member @ [GetProfile (ascii ''alice.bsky.social'')]) (ascii ''alice.bsky.social'') (orElse None 20) = Inl (Rejected 503)"
    by (simp add: halfway_simps)
  have c4: "agent_getProfile halfway (calls member) (actorOf (Some (IdStr (ascii ''alice.bsky.social'')))) = Inr me"
    by (simp add: halfway_simps)
  have c5: "agent_session halfway (calls member @ [GetProfile (actorOf (Some (IdStr (ascii ''alice.bsky.social''))))])"
    by (simp add: halfway_simps)
  have c6: "agent_blockCreate halfway (calls member @ [GetProfile (actorOf (Some (IdStr (ascii ''alice.bsky.social''))))]) (agent_session_did halfway (calls member @ [GetProfile (actorOf (Some (IdStr (ascii ''alice.bsky.social''))))])) (pr_did me) = Some (Rejected 503)"
    by (simp add: halfway_simps)
  have c7: "agent_session halfway (calls member)"
    by (simp add: halfway_simps)
  have c8: "agent_getProfile halfway (calls member) (agent_session_did halfway (calls member)) = Inr me"
    by (simp add: halfway_simps)
  have c9: "agent_upsertProfile halfway (calls member @ [GetProfile (agent_session_did halfway (calls member))]) (orOpt None (pr_displayName me)) (orOpt None (pr_description me)) (whenSet (pr_avatar me)) (whenSet (pr_banner me)) = Some (Rejected 503)"
    by (simp add: halfway_simps)
  have c10: "fetch halfway (calls member) (ascii ''https://example.com/a.png'') = Inr \<lparr>b_content = 1, b_type = []\<rparr>"
    by (simp add: halfway_simps)
  have c11: "agent_uploadBlob halfway (calls member @ [Fetch (ascii ''https://example.com/a.png'')]) \<lparr>b_content = 1, b_type = []\<rparr> (if b_type \<lparr>b_content = 1, b_type = []\<rparr> \<noteq> [] then b_type \<lparr>b_content = 1, b_type = []\<rparr> else ascii ''image/jpeg'') = Inl (Rejected 503)"
    by (simp add: halfway_simps)
  have d1: "JSON_parse expired (ascii ''full'') = Some fullSession"
    by (simp add: expired_def resuming_def)
  have d2: "requiredFields fullSession = Inr True"
    by (rule requiredFields_fullSession)
  have d3: "agent_resumeSession expired (calls returning) fullSession = Some (Rejected 401)"
    by (simp add: expired_def resuming_def)
  have r1: "\<not> authenticated returning"
    by (simp add: returning_simps)
  have r2: "truthy (sessionData returning)"
    by (simp add: returning_simps truthy_simps)
  have d4: "restoreSession expired returning (the (sessionData returning)) = (False, (logCall (ResumeSession fullSession) returning)\<lparr>authenticated := False\<rparr>)"
    by (simp add: returning_simps restoreSession_expired)
  have d5: "truthy (opt_identifier ((logCall (ResumeSession fullSession) returning)\<lparr>authenticated := False\<rparr>))"
    by (simp add: returning_simps logCall_def truthy_simps)
  have d6: "truthy (opt_password ((logCall (ResumeSession fullSession) returning)\<lparr>authenticated := False\<rparr>))"
    by (simp add: returning_simps logCall_def truthy_simps)
  have d7: "agent_login expired (calls ((logCall (ResumeSession fullSession) returning)\<lparr>authenticated := False\<rparr>)) (the (opt_identifier ((logCall (ResumeSession fullSession) returning)\<lparr>authenticated := False\<rparr>))) (the (opt_password ((logCall (ResumeSession fullSession) returning)\<lparr>authenticated := False\<rparr>))) = None"
    by (simp add: expired_def resuming_def online_def)
  have e1: "restoreSession offline returning (the (sessionData returning)) = (False, returning)"
    by (simp add: restoreSession_def offline_def)
  have e2: "truthy (opt_identifier returning)"
    by (simp add: returning_simps truthy_simps)
  have e3: "truthy (opt_password returning)"
    by (simp add: returning_simps truthy_simps)
  have e4: "agent_login offline (calls returning) (the (opt_identifier returning)) (the (opt_password returning)) = Some (Rejected 503)"
    by (simp add: offline_simps)
  have x1: "deletePost offline newcomer 5 = (Inl (Rejected 503), newcomer\<lparr>calls := [Login (ascii ''alice'') (ascii ''app-password'')]\<rparr>)"
    by (rule wA [THEN conjunct1, THEN mp, OF a0, THEN conjunct1])
  have x2: "likePost offline newcomer 5 1 = (Inl (Rejected 503), newcomer\<lparr>calls := [Login (ascii ''alice'') (ascii ''app-password'')]\<rparr>)"
    by (rule wA [THEN conjunct1, THEN mp, OF a0, THEN conjunct2, THEN conjunct1])
  have x3: "likeComment offline newcomer 5 1 = (Inl (Rejected 503), newcomer\<lparr>calls := [Login (ascii ''alice'') (ascii ''app-password'')]\<rparr>)"
    by (rule wA [THEN conjunct1, THEN mp, OF a0, THEN conjunct2, THEN conjunct2, THEN conjunct1])
  have x4: "createComment offline newcomer 5 None (ascii ''hi'') = (Inl (Rejected 503), newcomer\<lparr>calls := [Login (ascii ''alice'') (ascii ''app-password'')]\<rparr>)"
    by (rule wA [THEN conjunct1, THEN mp, OF a0, THEN conjunct2, THEN conjunct2, THEN conjunct2, THEN conjunct1])
  have x5: "getPost offline newcomer 5 = (Inl (Rejected 503), newcomer\<lparr>calls := [Login (ascii ''alice'') (ascii ''app-password'')]\<rparr>)"
    by (rule wA [THEN conjunct1, THEN mp, OF a0, THEN conjunct2, THEN conjunct2, THEN conjunct2, THEN conjunct2, THEN conjunct1])
  have x6: "getPosts offline newcomer None None None = (Inl (Rejected 503), newcomer\<lparr>calls := [Login (ascii ''alice'') (ascii ''app-password'')]\<rparr>)"
    by (rule wA [THEN conjunct1, THEN mp, OF a0, THEN conjunct2, THEN conjunct2, THEN conjunct2, THEN conjunct2, THEN conjunct2, THEN conjunct1])
  have x7: "createPostReport offline newcomer 5 (ascii ''spam'') = (Inl (Rejected 503), newcomer\<lparr>calls := [Login (ascii ''alice'') (ascii ''app-password'')]\<rparr>)"
    by (rule wA [THEN conjunct1, THEN mp, OF a0, THEN conjunct2, THEN conjunct2, THEN conjunct2, THEN conjunct2, THEN conjunct2, THEN conjunct2, THEN conjunct1])
  have x8: "createCommentReport offline newcomer 5 (ascii ''spam'') = (Inl (Rejected 503), newcomer\<lparr>calls := [Login (ascii ''alice'') (ascii ''app-password'')]\<rparr>)"
    by (rule wA [THEN conjunct1, THEN mp, OF a0, THEN conjunct2, THEN conjunct2, THEN conjunct2, THEN conjunct2, THEN conjunct2, THEN conjunct2, THEN conjunct2, THEN conjunct1])
  have x9: "getComments offline newcomer (Some 5) = (Inl (Rejected 503), newcomer\<lparr>calls := [Login (ascii ''alice'') (ascii ''app-password'')]\<rparr>)"
    by (rule wA [THEN conjunct1, THEN mp, OF a0, THEN conjunct2, THEN conjunct2, THEN conjunct2, THEN conjunct2, THEN conjunct2, THEN conjunct2, THEN conjunct2, THEN conjunct2, THEN conjunct1])
  have x10: "getUnreadCount offline newcomer = (Inl (Rejected 503), newcomer\<lparr>calls := [Login (ascii ''alice'') (ascii ''app-password'')]\<rparr>)"
    by (rule wA [THEN conjunct1, THEN mp, OF a0, THEN conjunct2, THEN conjunct2, THEN conjunct2, THEN conjunct2, THEN conjunct2, THEN conjunct2, THEN conjunct2, THEN conjunct2, THEN conjunct2, THEN conjunct1])
  have x11: "getPersonMentions offline newcomer None = (Inl (Rejected 503), newcomer\<lparr>calls := [Login (ascii ''alice'') (ascii ''app-password'')]\<rparr>)"
    by (rule wA [THEN conjunct1, THEN mp, OF a0, THEN conjunct2, THEN conjunct2, THEN conjunct2, THEN conjunct2, THEN conjunct2, THEN conjunct2, THEN conjunct2, THEN conjunct2, THEN conjunct2, THEN conjunct2, THEN conjunct1])
  have x12: "getReplies offline newcomer None = (Inl (Rejected 503), newcomer\<lparr>calls := [Login (ascii ''alice'') (ascii ''app-password'')]\<rparr>)"
    by (rule wA [THEN conjunct1, THEN mp, OF a0, THEN conjunct2, THEN conjunct2, THEN conjunct2, THEN conjunct2, THEN conjunct2, THEN conjunct2, THEN conjunct2, THEN conjunct2, THEN conjunct2, THEN conjunct2, THEN conjunct2, THEN conjunct1])
  have x13: "getSite offline newcomer = (Inl (Rejected 503), newcomer\<lparr>calls := [Login (ascii ''alice'') (ascii ''app-password'')]\<rparr>)"
    by (rule wA [THEN conjunct1, THEN mp, OF a0, THEN conjunct2, THEN conjunct2, THEN conjunct2, THEN conjunct2, THEN conjunct2, THEN conjunct2, THEN conjunct2, THEN conjunct2, THEN conjunct2, THEN conjunct2, THEN conjunct2, THEN conjunct2, THEN conjunct1])
  have x14: "search offline newcomer None None None = (Inl (Rejected 503), newcomer\<lparr>calls := [Login (ascii ''alice'') (ascii ''app-password'')]\<rparr>)"
    by (rule wA [THEN conjunct1, THEN mp, OF a0, THEN conjunct2, THEN conjunct2, THEN conjunct2, THEN conjunct2, THEN conjunct2, THEN conjunct2, THEN conjunct2, THEN conjunct2, THEN conjunct2, THEN conjunct2, THEN conjunct2, THEN conjunct2, THEN conjunct2, THEN conjunct1])
  have x15: "createPost offline newcomer (ascii ''title'') None None None = (Inl (Rejected 503), newcomer\<lparr>calls := [Login (ascii ''alice'') (ascii ''app-password'')]\<rparr>)"
    by (rule wA [THEN conjunct1, THEN mp, OF a0, THEN conjunct2, THEN conjunct2, THEN conjunct2, THEN conjunct2, THEN conjunct2, THEN conjunct2, THEN conjunct2, THEN conjunct2, THEN conjunct2, THEN conjunct2, THEN conjunct2, THEN conjunct2, THEN conjunct2, THEN conjunct2, THEN conjunct1])
  have x16: "getPersonDetails offline newcomer None None None = (Inl (Rejected 503), newcomer\<lparr>calls := [Login (ascii ''alice'') (ascii ''app-password'')]\<rparr>)"
    by (rule wA [THEN conjunct1, THEN mp, OF a0, THEN conjunct2, THEN conjunct2, THEN conjunct2, THEN conjunct2, THEN conjunct2, THEN conjunct2, THEN conjunct2, THEN conjunct2, THEN conjunct2, THEN conjunct2, THEN conjunct2, THEN conjunct2, THEN conjunct2, THEN conjunct2, THEN conjunct2, THEN conjunct1])
  have x17: "blockPerson offline newcomer None True = (Inl (Rejected 503), newcomer\<lparr>calls := [Login (ascii ''alice'') (ascii ''app-password'')]\<rparr>)"
    by (rule wA [THEN conjunct1, THEN mp, OF a0, THEN conjunct2, THEN conjunct2, THEN conjunct2, THEN conjunct2, THEN conjunct2, THEN conjunct2, THEN conjunct2, THEN conjunct2, THEN conjunct2, THEN conjunct2, THEN conjunct2, THEN conjunct2, THEN conjunct2, THEN conjunct2, THEN conjunct2, THEN conjunct2, THEN conjunct1])
  have x18: "saveUserSettings offline newcomer None None = (Inl (Rejected 503), newcomer\<lparr>calls := [Login (ascii ''alice'') (ascii ''app-password'')]\<rparr>)"
    by (rule wA [THEN conjunct1, THEN mp, OF a0, THEN conjunct2, THEN conjunct2, THEN conjunct2, THEN conjunct2, THEN conjunct2, THEN conjunct2, THEN conjunct2, THEN conjunct2, THEN conjunct2, THEN conjunct2, THEN conjunct2, THEN conjunct2, THEN conjunct2, THEN conjunct2, THEN conjunct2, THEN conjunct2, THEN conjunct2, THEN conjunct1])
  have x19: "uploadImage offline newcomer ImageOther = (Inl (Rejected 503), newcomer\<lparr>calls := [Login (ascii ''alice'') (ascii ''app-password'')]\<rparr>)"
    by (rule wA [THEN conjunct1, THEN mp, OF a0, THEN conjunct2, THEN conjunct2, THEN conjunct2, THEN conjunct2, THEN conjunct2, THEN conjunct2, THEN conjunct2, THEN conjunct2, THEN conjunct2, THEN conjunct2, THEN conjunct2, THEN conjunct2, THEN conjunct2, THEN conjunct2, THEN conjunct2, THEN conjunct2, THEN conjunct2, THEN conjunct2])
  have x20: "ensureAuth offline newcomer = (Inl (Rejected 503), logCall (Login (the (opt_identifier newcomer)) (the (opt_password newcomer))) newcomer)"
    by (rule wA [THEN conjunct2, THEN conjunct2, THEN conjunct2, THEN conjunct2, THEN conjunct1, THEN mp, OF conjI [OF n1 conjI [OF n2 conjI [OF n3 conjI [OF n4 n5]]]]])
  have x21: "login offline newcomer (ascii ''alice'') (ascii ''app-password'') = (Inl (Error (loginFailure offline (Rejected 503))), logCall (Login (ascii ''alice'') (ascii ''app-password'')) newcomer)"
    by (rule wA [THEN conjunct2, THEN conjunct2, THEN conjunct2, THEN conjunct2, THEN conjunct2, THEN conjunct2, THEN conjunct1, THEN mp, OF n6])
  have x22: "deletePost offline member 5 = (Inl (Rejected 503), logCall (DeletePost (uri ref2Liked)) member)"
    by (rule wB [THEN conjunct2, THEN conjunct2, THEN conjunct2, THEN conjunct2, THEN conjunct2, THEN conjunct2, THEN conjunct2, THEN mp, OF bea, THEN conjunct1, THEN mp, OF conjI [OF m1 b1]])
  have x23: "likePost offline member 5 1 = (Inl (Rejected 503), logCall (Like (uri ref2Liked) (cid ref2Liked)) member)"
    by (rule wB [THEN conjunct2, THEN conjunct2, THEN conjunct2, THEN conjunct2, THEN conjunct2, THEN conjunct2, THEN conjunct2, THEN mp, OF bea, THEN conjunct2, THEN conjunct1, THEN mp, OF conjI [OF m1 b2]])
  have x24: "likePost offline member 5 (- 1) = (Inl (Rejected 503), logCall (DeleteLike (the (likeUri ref2Liked))) member)"
    by (rule wB [THEN conjunct2, THEN conjunct2, THEN conjunct2, THEN conjunct2, THEN conjunct2, THEN conjunct2, THEN conjunct2, THEN mp, OF bea, THEN conjunct2, THEN conjunct2, THEN conjunct1, THEN mp, OF conjI [OF m1 conjI [OF m3 b3]]])
  have x25: "likeComment offline member 5 1 = (Inl (Rejected 503), logCall (Like (uri ref2Liked) (cid ref2Liked)) member)"
    by (rule wB [THEN conjunct2, THEN conjunct2, THEN conjunct2, THEN conjunct2, THEN conjunct2, THEN conjunct2, THEN conjunct2, THEN mp, OF bea, THEN conjunct2, THEN conjunct2, THEN conjunct2, THEN conjunct2, THEN conjunct2, THEN conjunct1, THEN mp, OF conjI [OF m2 b2]])
  have x26: "likeComment offline member 5 (- 1) = (Inl (Rejected 503), logCall (DeleteLike (the (likeUri ref2Liked))) member)"
    by (rule wB [THEN conjunct2, THEN conjunct2, THEN conjunct2, THEN conjunct2, THEN conjunct2, THEN conjunct2, THEN conjunct2, THEN mp, OF bea, THEN conjunct2, THEN conjunct2, THEN conjunct2, THEN conjunct2, THEN conjunct2, THEN conjunct2, THEN conjunct1, THEN mp, OF conjI [OF m2 conjI [OF m3 b3]]])
  have x27: "createComment offline member 5 None (ascii ''hi'') = (Inl (Rejected 503), logCall (Post (ascii ''hi'') (uri ref2Liked) (cid ref2Liked)) member)"
    by (rule wB [THEN conjunct2, THEN conjunct2, THEN conjunct2, THEN conjunct2, THEN conjunct2, THEN conjunct2, THEN conjunct2, THEN mp, OF bea, THEN conjunct2, THEN conjunct2, THEN conjunct2, THEN conjunct2, THEN conjunct2, THEN conjunct2, THEN conjunct2, THEN conjunct1, THEN mp, OF conjI [OF m1 conjI [OF m4 b4]]])
  have x28: "getPost offline member 5 = (Inl (Rejected 503), logCall (GetTimeline 50 None) member)"
    by (rule wB [THEN conjunct2, THEN conjunct2, THEN conjunct2, THEN conjunct2, THEN conjunct2, THEN conjunct2, THEN conjunct2, THEN mp, OF bea, THEN conjunct2, THEN conjunct2, THEN conjunct2, THEN conjunct2, THEN conjunct2, THEN conjunct2, THEN conjunct2, THEN conjunct2, THEN conjunct1, THEN mp, OF b5])
  have x29: "getPosts offline member None None None = (Inl (Rejected 503), logCall (GetFeed whatsHot (orElse None 20) (cursorOf None)) member)"
    by (rule wB [THEN conjunct2, THEN conjunct2, THEN conjunct2, THEN conjunct2, THEN conjunct2, THEN conjunct2, THEN conjunct2, THEN mp, OF bea, THEN conjunct2, THEN conjunct2, THEN conjunct2, THEN conjunct2, THEN conjunct2, THEN conjunct2, THEN conjunct2, THEN conjunct2, THEN conjunct2, THEN conjunct2, THEN conjunct1, THEN mp, OF conjI [OF l1 b6]])
  have x30: "createPostReport offline member 5 (ascii ''spam'') = (Inl (Rejected 503), logCall (CreateReport (ascii ''spam'') (uri ref2Liked) (cid ref2Liked)) member)"
    by (rule wB [THEN conjunct2, THEN conjunct2, THEN conjunct2, THEN conjunct2, THEN conjunct2, THEN conjunct2, THEN conjunct2, THEN mp, OF bea, THEN conjunct2, THEN conjunct2, THEN conjunct2, THEN conjunct2, THEN conjunct2, THEN conjunct2, THEN conjunct2, THEN conjunct2, THEN conjunct2, THEN conjunct2, THEN conjunct2, THEN conjunct1, THEN mp, OF conjI [OF m1 b7]])
  have x31: "createCommentReport offline member 5 (ascii ''spam'') = (Inl (Rejected 503), logCall (CreateReport (ascii ''spam'') (uri ref2Liked) (cid ref2Liked)) member)"
    by (rule wB [THEN conjunct2, THEN conjunct2, THEN conjunct2, THEN conjunct2, THEN conjunct2, THEN conjunct2, THEN conjunct2, THEN mp, OF bea, THEN conjunct2, THEN conjunct2, THEN conjunct2, THEN conjunct2, THEN conjunct2, THEN conjunct2, THEN conjunct2, THEN conjunct2, THEN conjunct2, THEN conjunct2, THEN conjunct2, THEN conjunct2, THEN conjunct1, THEN mp, OF conjI [OF m2 b7]])
  have x32: "createPost offline member (ascii ''title'') None None None = (Inl (Rejected 503), logCall (PostRecord (if truthy None then the None else ascii ''title'') (embedOf offline (ascii ''title'') None None None)) member)"
    by (rule wB [THEN conjunct2, THEN conjunct2, THEN conjunct2, THEN conjunct2, THEN conjunct2, THEN conjunct2, THEN conjunct2, THEN mp, OF bea, THEN conjunct2, THEN conjunct2, THEN conjunct2, THEN conjunct2, THEN conjunct2, THEN conjunct2, THEN conjunct2, THEN conjunct2, THEN conjunct2, THEN conjunct2, THEN conjunct2, THEN conjunct2, THEN conjunct2, THEN conjunct1, THEN mp, OF b8])
  have x33: "getPersonDetails offline member (Some (ascii ''alice.bsky.social'')) None None = (Inl (Rejected 503), logCall (GetProfile (ascii ''alice.bsky.social'')) member)"
    by (rule wB [THEN conjunct2, THEN conjunct2, THEN conjunct2, THEN conjunct2, THEN conjunct2, THEN conjunct2, THEN conjunct2, THEN mp, OF bea, THEN conjunct2, THEN conjunct2, THEN conjunct2, THEN conjunct2, THEN conjunct2, THEN conjunct2, THEN conjunct2, THEN conjunct2, THEN conjunct2, THEN conjunct2, THEN conjunct2, THEN conjunct2, THEN conjunct2, THEN conjunct2, THEN conjunct1, THEN mp, OF conjI [OF p1 b9]])
  have x34: "blockPerson offline member (Some (IdStr (ascii ''alice.bsky.social''))) True = (Inl (Rejected 503), logCall (GetProfile (actorOf (Some (IdStr (ascii ''alice.bsky.social''))))) member)"
    by (rule wB [THEN conjunct2, THEN conjunct2, THEN conjunct2, THEN conjunct2, THEN conjunct2, THEN conjunct2, THEN conjunct2, THEN mp, OF bea, THEN conjunct2, THEN conjunct2, THEN conjunct2, THEN conjunct2, THEN conjunct2, THEN conjunct2, THEN conjunct2, THEN conjunct2, THEN conjunct2, THEN conjunct2, THEN conjunct2, THEN conjunct2, THEN conjunct2, THEN conjunct2, THEN conjunct2, THEN conjunct2, THEN conjunct1, THEN mp, OF conjI [OF k1 conjI [OF k2 b10]]])
  have x35: "saveUserSettings offline member None None = (Inl (Rejected 503), logCall (GetProfile (agent_session_did offline (calls member))) member)"
    by (rule wB [THEN conjunct2, THEN conjunct2, THEN conjunct2, THEN conjunct2, THEN conjunct2, THEN conjunct2, THEN conjunct2, THEN mp, OF bea, THEN conjunct2, THEN conjunct2, THEN conjunct2, THEN conjunct2, THEN conjunct2, THEN conjunct2, THEN conjunct2, THEN conjunct2, THEN conjunct2, THEN conjunct2, THEN conjunct2, THEN conjunct2, THEN conjunct2, THEN conjunct2, THEN conjunct2, THEN conjunct2, THEN conjunct2, THEN conjunct2, THEN conjunct1, THEN mp, OF conjI [OF g1 b11]])
  have x36: "uploadImage offline member (ImageBlob \<lparr>b_content = 1, b_type = []\<rparr>) = (Inl (Rejected 503), logCall (UploadBlob \<lparr>b_content = 1, b_type = []\<rparr> (if b_type \<lparr>b_content = 1, b_type = []\<rparr> \<noteq> [] then b_type \<lparr>b_content = 1, b_type = []\<rparr> else ascii ''image/jpeg'')) member)"
    by (rule wB [THEN conjunct2, THEN conjunct2, THEN conjunct2, THEN conjunct2, THEN conjunct2, THEN conjunct2, THEN conjunct2, THEN mp, OF bea, THEN conjunct2, THEN conjunct2, THEN conjunct2, THEN conjunct2, THEN conjunct2, THEN conjunct2, THEN conjunct2, THEN conjunct2, THEN conjunct2, THEN conjunct2, THEN conjunct2, THEN conjunct2, THEN conjunct2, THEN conjunct2, THEN conjunct2, THEN conjunct2, THEN conjunct2, THEN conjunct2, THEN conjunct2, THEN conjunct2, THEN conjunct1, THEN mp, OF b12])
  have x37: "uploadImage offline member (ImageString (ascii ''https://example.com/a.png'')) = (Inl (Rejected 503), logCall (Fetch (ascii ''https://example.com/a.png'')) member)"
    by (rule wB [THEN conjunct2, THEN conjunct2, THEN conjunct2, THEN conjunct2, THEN conjunct2, THEN conjunct2, THEN conjunct2, THEN mp, OF bea, THEN conjunct2, THEN conjunct2, THEN conjunct2, THEN conjunct2, THEN conjunct2, THEN conjunct2, THEN conjunct2, THEN conjunct2, THEN conjunct2, THEN conjunct2, THEN conjunct2, THEN conjunct2, THEN conjunct2, THEN conjunct2, THEN conjunct2, THEN conjunct2, THEN conjunct2, THEN conjunct2, THEN conjunct2, THEN conjunct2, THEN conjunct2, THEN conjunct1, THEN mp, OF b13])
  have x38: "getUnreadCount offline member = (Inr \<lparr>replies = 0, mentions = 0, private_messages = 0\<rparr>, logCall (CountUnreadNotifications) member)"
    by (rule wB [THEN conjunct2, THEN conjunct2, THEN conjunct2, THEN conjunct2, THEN conjunct2, THEN conjunct2, THEN conjunct2, THEN mp, OF bea, THEN conjunct2, THEN conjunct2, THEN conjunct2, THEN conjunct2, THEN conjunct2, THEN conjunct2, THEN conjunct2, THEN conjunct2, THEN conjunct2, THEN conjunct2, THEN conjunct2, THEN conjunct2, THEN conjunct2, THEN conjunct2, THEN conjunct2, THEN conjunct2, THEN conjunct2, THEN conjunct2, THEN conjunct2, THEN conjunct2, THEN conjunct2, THEN conjunct2, THEN conjunct2, THEN conjunct1, THEN mp, OF b14])
  have x39: "getComments offline member (Some 5) = (Inr [], logCall (GetPostThread (uri ref2Liked) 10) member)"
    by (rule wB [THEN conjunct2, THEN conjunct2, THEN conjunct2, THEN conjunct2, THEN conjunct2, THEN conjunct2, THEN conjunct2, THEN mp, OF bea, THEN conjunct2, THEN conjunct2, THEN conjunct2, THEN conjunct2, THEN conjunct2, THEN conjunct2, THEN conjunct2, THEN conjunct2, THEN conjunct2, THEN conjunct2, THEN conjunct2, THEN conjunct2, THEN conjunct2, THEN conjunct2, THEN conjunct2, THEN conjunct2, THEN conjunct2, THEN conjunct2, THEN conjunct2, THEN conjunct2, THEN conjunct2, THEN conjunct2, THEN conjunct2, THEN conjunct2, THEN conjunct1, THEN mp, OF conjI [OF m1 b15]])
  have x40: "getPersonMentions offline member None = (Inr [], logCall (ListNotifications (orElse None 20)) member)"
    by (rule wB [THEN conjunct2, THEN conjunct2, THEN conjunct2, THEN conjunct2, THEN conjunct2, THEN conjunct2, THEN conjunct2, THEN mp, OF bea, THEN conjunct2, THEN conjunct2, THEN conjunct2, THEN conjunct2, THEN conjunct2, THEN conjunct2, THEN conjunct2, THEN conjunct2, THEN conjunct2, THEN conjunct2, THEN conjunct2, THEN conjunct2, THEN conjunct2, THEN conjunct2, THEN conjunct2, THEN conjunct2, THEN conjunct2, THEN conjunct2, THEN conjunct2, THEN conjunct2, THEN conjunct2, THEN conjunct2, THEN conjunct2, THEN conjunct2, THEN conjunct2, THEN conjunct1, THEN mp, OF b16, THEN conjunct1])
  have x41: "getReplies offline member None = (Inr [], logCall (ListNotifications (orElse None 20)) member)"
    by (rule wB [THEN conjunct2, THEN conjunct2, THEN conjunct2, THEN conjunct2, THEN conjunct2, THEN conjunct2, THEN conjunct2, THEN mp, OF bea, THEN conjunct2, THEN conjunct2, THEN conjunct2, THEN conjunct2, THEN conjunct2, THEN conjunct2, THEN conjunct2, THEN conjunct2, THEN conjunct2, THEN conjunct2, THEN conjunct2, THEN conjunct2, THEN conjunct2, THEN conjunct2, THEN conjunct2, THEN conjunct2, THEN conjunct2, THEN conjunct2, THEN conjunct2, THEN conjunct2, THEN conjunct2, THEN conjunct2, THEN conjunct2, THEN conjunct2, THEN conjunct2, THEN conjunct1, THEN mp, OF b16, THEN conjunct2])
  have x42: "search offline member None None None = (Inr ([], []), logCall (SearchActors (orEmpty None) (orElse None 20)) (logCall (SearchPosts (orEmpty None) None) member))"
    by (rule wB [THEN conjunct2, THEN conjunct2, THEN conjunct2, THEN conjunct2, THEN conjunct2, THEN conjunct2, THEN conjunct2, THEN mp, OF bea, THEN conjunct2, THEN conjunct2, THEN conjunct2, THEN conjunct2, THEN conjunct2, THEN conjunct2, THEN conjunct2, THEN conjunct2, THEN conjunct2, THEN conjunct2, THEN conjunct2, THEN conjunct2, THEN conjunct2, THEN conjunct2, THEN conjunct2, THEN conjunct2, THEN conjunct2, THEN conjunct2, THEN conjunct2, THEN conjunct2, THEN conjunct2, THEN conjunct2, THEN conjunct2, THEN conjunct2, THEN conjunct2, THEN conjunct2, THEN conjunct1, THEN mp, OF conjI [OF q1 conjI [OF b17 b18]]])
  have x43: "getPosts offline member (Some (ascii ''Subscribed'')) None None = (Inl (Rejected 503), logCall (GetTimeline (orElse None 20) (cursorOf None)) member)"
    by (rule wB2 [THEN conjunct2, THEN conjunct2, THEN conjunct2, THEN conjunct2, THEN conjunct2, THEN conjunct2, THEN conjunct2, THEN mp, OF bea, THEN conjunct2, THEN conjunct2, THEN conjunct2, THEN conjunct2, THEN conjunct2, THEN conjunct2, THEN conjunct2, THEN conjunct2, THEN conjunct2, THEN conjunct1, THEN mp, OF conjI [OF l2 b19]])
  have x44: "likePost offline member 7 1 = (Inl (Error postNotFound), logCall (GetTimeline 50 None) member)"
    by (rule wB3 [THEN conjunct2, THEN conjunct2, THEN conjunct2, THEN conjunct2, THEN conjunct2, THEN conjunct2, THEN conjunct2, THEN mp, OF bea, THEN conjunct2, THEN conjunct2, THEN conjunct2, THEN conjunct2, THEN conjunct1, THEN mp, OF conjI [OF m5 b5]])
  have x45: "likePost halfway member 5 1 = getPost halfway (member\<lparr>postCache := [5 \<mapsto> ref2Liked], calls := [Like (uri ref2Liked) (cid ref2Liked)]\<rparr>) 5"
    by (rule wC [THEN conjunct2, THEN conjunct2, THEN conjunct2, THEN conjunct2, THEN conjunct2, THEN conjunct2, THEN conjunct2, THEN mp, OF cea, THEN conjunct2, THEN conjunct2, THEN conjunct2, THEN conjunct1, THEN mp, OF conjI [OF m1 c1]])
  have x46: "getPersonDetails halfway member (Some (ascii ''alice.bsky.social'')) None None = (Inl (Rejected 503), logCall (GetAuthorFeed (ascii ''alice.bsky.social'') (orElse None 20)) (logCall (GetProfile (ascii ''alice.bsky.social'')) member))"
    by (rule wC [THEN conjunct2, THEN conjunct2, THEN conjunct2, THEN conjunct2, THEN conjunct2, THEN conjunct2, THEN conjunct2, THEN mp, OF cea, THEN conjunct2, THEN conjunct2, THEN conjunct2, THEN conjunct2, THEN conjunct2, THEN conjunct2, THEN conjunct2, THEN conjunct2, THEN conjunct2, THEN conjunct2, THEN conjunct2, THEN conjunct2, THEN conjunct2, THEN conjunct2, THEN conjunct2, THEN conjunct1, THEN mp, OF conjI [OF p2 conjI [OF c2 c3]]])
  have x47: "blockPerson halfway member (Some (IdStr (ascii ''alice.bsky.social''))) True = (Inl (Rejected 503), logCall (BlockCreate (agent_session_did halfway (calls member @ [GetProfile (actorOf (Some (IdStr (ascii ''alice.bsky.social''))))])) (pr_did me)) (logCall (GetProfile (actorOf (Some (IdStr (ascii ''alice.bsky.social''))))) member))"
    by (rule wC [THEN conjunct2, THEN conjunct2, THEN conjunct2, THEN conjunct2, THEN conjunct2, THEN conjunct2, THEN conjunct2, THEN mp, OF cea, THEN conjunct2, THEN conjunct2, THEN conjunct2, THEN conjunct2, THEN conjunct2, THEN conjunct2, THEN conjunct2, THEN conjunct2, THEN conjunct2, THEN conjunct2, THEN conjunct2, THEN conjunct2, THEN conjunct2, THEN conjunct2, THEN conjunct2, THEN conjunct2, THEN conjunct2, THEN conjunct1, THEN mp, OF conjI [OF k1 conjI [OF k2 conjI [OF c4 conjI [OF c5 c6]]]]])
  have x48: "saveUserSettings halfway member None None = (Inl (Rejected 503), logCall (UpsertProfile (orOpt None (pr_displayName me)) (orOpt None (pr_description me)) (whenSet (pr_avatar me)) (whenSet (pr_banner me))) (logCall (GetProfile (agent_session_did halfway (calls member))) member))"
    by (rule wC [THEN conjunct2, THEN conjunct2, THEN conjunct2, THEN conjunct2, THEN conjunct2, THEN conjunct2, THEN conjunct2, THEN mp, OF cea, THEN conjunct2, THEN conjunct2, THEN conjunct2, THEN conjunct2, THEN conjunct2, THEN conjunct2, THEN conjunct2, THEN conjunct2, THEN conjunct2, THEN conjunct2, THEN conjunct2, THEN conjunct2, THEN conjunct2, THEN conjunct2, THEN conjunct2, THEN conjunct2, THEN conjunct2, THEN conjunct2, THEN conjunct2, THEN conjunct1, THEN mp, OF conjI [OF c7 conjI [OF c8 c9]]])
  have x49: "uploadImage halfway member (ImageString (ascii ''https://example.com/a.png'')) = (Inl (Rejected 503), logCall (UploadBlob \<lparr>b_content = 1, b_type = []\<rparr> (if b_type \<lparr>b_content = 1, b_type = []\<rparr> \<noteq> [] then b_type \<lparr>b_content = 1, b_type = []\<rparr> else ascii ''image/jpeg'')) (logCall (Fetch (ascii ''https://example.com/a.png'')) member))"
    by (rule wC [THEN conjunct2, THEN conjunct2, THEN conjunct2, THEN conjunct2, THEN conjunct2, THEN conjunct2, THEN conjunct2, THEN mp, OF cea, THEN conjunct2, THEN conjunct2, THEN conjunct2, THEN conjunct2, THEN conjunct2, THEN conjunct2, THEN conjunct2, THEN conjunct2, THEN conjunct2, THEN conjunct2, THEN conjunct2, THEN conjunct2, THEN conjunct2, THEN conjunct2, THEN conjunct2, THEN conjunct2, THEN conjunct2, THEN conjunct2, THEN conjunct2, THEN conjunct2, THEN conjunct2, THEN conjunct2, THEN conjunct1, THEN mp, OF conjI [OF c10 c11]])
  have x50: "restoreSession expired returning (ascii ''full'') = (False, (logCall (ResumeSession fullSession) returning)\<lparr>authenticated := False\<rparr>)"
    by (rule wD [THEN conjunct2, THEN conjunct1, THEN mp, OF conjI [OF d1 conjI [OF d2 d3]]])
  have x51: "ensureAuth expired returning = (Inr (), (logCall (Login (the (opt_identifier ((logCall (ResumeSession fullSession) returning)\<lparr>authenticated := False\<rparr>))) (the (opt_password ((logCall (ResumeSession fullSession) returning)\<lparr>authenticated := False\<rparr>)))) ((logCall (ResumeSession fullSession) returning)\<lparr>authenticated := False\<rparr>))\<lparr>authenticated := True\<rparr>)"
    by (rule wD [THEN conjunct2, THEN conjunct2, THEN conjunct2, THEN conjunct1, THEN mp, OF conjI [OF r1 conjI [OF r2 conjI [OF d4 conjI [OF d5 conjI [OF d6 d7]]]]]])
  have x52: "ensureAuth offline returning = (Inl (Rejected 503), logCall (Login (the (opt_identifier returning)) (the (opt_password returning))) returning)"
    by (rule wE [THEN conjunct2, THEN conjunct2, THEN conjunct1, THEN mp, OF conjI [OF r1 conjI [OF r2 conjI [OF e1 conjI [OF e2 conjI [OF e3 e4]]]]]])
  show ?thesis
    by (intro conjI) (fact a0 n1 n2 n3 n4 n5 n6 bea m1 b1 b2 m3 b3 m2 m4 b4 b5 l1 b6 b7 b8 p1 b9 k1 k2 b10 g1 b11 b12 b13 b14 b15 b16 q1 b17 b18 l2 b19 m5 cea c1 p2 c2 c3 c4 c5 c6 c7 c8 c9 c10 c11 d1 d2 d3 r1 r2 d4 d5 d6 d7 e1 e2 e3 e4 x1 x2 x3 x4 x5 x6 x7 x8 x9 x10 x11 x12 x13 x14 x15 x16 x17 x18 x19 x20 x21 x22 x23 x24 x25 x26 x27 x28 x29 x30 x31 x32 x33 x34 x35 x36 x37 x38 x39 x40 x41 x42 x43 x44 x45 x46 x47 x48 x49 x50 x51 x52)+
qed

end
